theory Spec2Isabelle
  imports Main "HOL-Library.Sublist"
begin

text \<open>
  A shallow embedding of the gateway of openclaw-cloudflare: the process wait utility
  (\<^verbatim>\<open>waitForProcess\<close>, utils.ts), the mount prober and mount controller
  (\<^verbatim>\<open>probeMount\<close>, \<^verbatim>\<open>lazyUnmountR2\<close>, \<^verbatim>\<open>mountR2Storage\<close>, r2.ts) and
  the sync orchestrator (\<^verbatim>\<open>syncToR2\<close>, sync.ts). The repository holds earlier
  drafts of r2.ts and sync.ts beside the final ones; the model follows the final ones:
  the controller that probes the filesystem type, and the orchestrator with the dedup
  check, the workspace guard and the three separate copy passes.
\<close>

section \<open>JavaScript strings\<close>

text \<open>
  Strings are lists of 8-bit code units. \<open>isSpace\<close> is the part of JavaScript's
  white space and line terminators (what \<^verbatim>\<open>trim()\<close> strips and \<^verbatim>\<open>\s\<close>
  matches) that lies in this range: tab, line feed, vertical tab, form feed, carriage
  return, space and no-break space.
\<close>

definition isSpace :: "char \<Rightarrow> bool" where
  "isSpace c = ((of_char c :: nat) \<in> set [9, 10, 11, 12, 13, 32, 160])"

definition isDigit :: "char \<Rightarrow> bool" where
  "isDigit c = (48 \<le> (of_char c :: nat) \<and> (of_char c :: nat) \<le> 57)"

definition trim :: "string \<Rightarrow> string" where
  "trim s = rev (dropWhile isSpace (rev (dropWhile isSpace s)))"

text \<open>\<^verbatim>\<open>s.split(/\s+/)[0]\<close>: the characters before the first white space.\<close>

definition split_ws_first :: "string \<Rightarrow> string" where
  "split_ws_first s = takeWhile (\<lambda>c. \<not> isSpace c) s"

text \<open>\<^verbatim>\<open>s.includes(sub)\<close>: \<open>sub\<close> occurs in \<open>s\<close> as a contiguous substring.\<close>

fun str_includes :: "string \<Rightarrow> string \<Rightarrow> bool" where
  "str_includes [] sub = (sub = [])"
| "str_includes (c # cs) sub = (prefix sub (c # cs) \<or> str_includes cs sub)"

definition startsWith :: "string \<Rightarrow> string \<Rightarrow> bool" where
  "startsWith s p = prefix p s"

text \<open>\<^verbatim>\<open>a || b\<close> on strings: the empty string is falsy.\<close>

definition or_else :: "string \<Rightarrow> string \<Rightarrow> string" where
  "or_else a b = (if a \<noteq> [] then a else b)"

text \<open>Truthiness of an optional string: \<^verbatim>\<open>undefined\<close> and \<^verbatim>\<open>''\<close> are falsy.\<close>

definition truthy :: "string option \<Rightarrow> bool" where
  "truthy v = (case v of None \<Rightarrow> False | Some s \<Rightarrow> s \<noteq> [])"

text \<open>\<^verbatim>\<open>s.match(/^\d{4}-\d{2}-\d{2}/)\<close>.\<close>

definition matchesDatePrefix :: "string \<Rightarrow> bool" where
  "matchesDatePrefix s =
     (10 \<le> length s \<and> list_all isDigit (take 4 s) \<and> s ! 4 = CHR ''-'' \<and>
      list_all isDigit (take 2 (drop 5 s)) \<and> s ! 7 = CHR ''-'' \<and>
      list_all isDigit (take 2 (drop 8 s)))"

text \<open>\<^verbatim>\<open>xs.join('\n')\<close>.\<close>

fun join_lines :: "string list \<Rightarrow> string" where
  "join_lines [] = []"
| "join_lines [x] = x"
| "join_lines (x # y # ys) = x @ [CHR 0x0A] @ join_lines (y # ys)"

text \<open>
  Decimal rendering of an integer, as a template literal prints a number that is an
  integer below \<open>10\<^sup>2\<^sup>1\<close> in absolute value.
\<close>

definition digit_char :: "nat \<Rightarrow> char" where
  "digit_char n = ''0123456789'' ! n"

function show_digits :: "int \<Rightarrow> string" where
  "show_digits n =
     (if n < 10 then [digit_char (nat n)]
      else show_digits (n div 10) @ [digit_char (nat (n mod 10))])"
  by pat_completeness auto
termination
  by (relation "measure nat") auto

definition show_int :: "int \<Rightarrow> string" where
  "show_int i = (if i < 0 then CHR ''-'' # show_digits (- i) else show_digits i)"

text \<open>\<^verbatim>\<open>JSON.stringify\<close> of a string.\<close>

definition hex_digit :: "nat \<Rightarrow> char" where
  "hex_digit n = ''0123456789abcdef'' ! (n mod 16)"

definition json_char :: "char \<Rightarrow> string" where
  "json_char c =
     (if c = CHR 0x22 then [CHR 0x5C, CHR 0x22]
      else if c = CHR 0x5C then [CHR 0x5C, CHR 0x5C]
      else if c = CHR 0x08 then [CHR 0x5C, CHR ''b'']
      else if c = CHR 0x0C then [CHR 0x5C, CHR ''f'']
      else if c = CHR 0x0A then [CHR 0x5C, CHR ''n'']
      else if c = CHR 0x0D then [CHR 0x5C, CHR ''r'']
      else if c = CHR 0x09 then [CHR 0x5C, CHR ''t'']
      else if (of_char c :: nat) < 32
        then [CHR 0x5C, CHR ''u'', CHR ''0'', CHR ''0'',
              hex_digit ((of_char c :: nat) div 16), hex_digit (of_char c :: nat)]
      else [c])"

definition json_string :: "string \<Rightarrow> string" where
  "json_string s = [CHR 0x22] @ concat (map json_char s) @ [CHR 0x22]"

text \<open>The single quote, for the shell commands.\<close>

definition sq :: string where
  "sq = [CHR 0x27]"

section \<open>Thrown values, events and the external supervisor\<close>

text \<open>
  A thrown value is an \<^verbatim>\<open>Error\<close> with its message, or any other value with its
  \<^verbatim>\<open>String(err)\<close>; the code tells them apart with \<^verbatim>\<open>err instanceof Error\<close>.
\<close>

datatype thrown = ErrorObj string | NonError string

definition errorMessageOf :: "thrown \<Rightarrow> string" where
  "errorMessageOf err = (case err of ErrorObj m \<Rightarrow> m | NonError s \<Rightarrow> s)"

definition errorDetails :: "thrown \<Rightarrow> string" where
  "errorDetails err = (case err of ErrorObj m \<Rightarrow> m | NonError s \<Rightarrow> ''Unknown error'')"

record logs =
  stdout :: string
  stderr :: string

definition emptyLogs :: logs where
  "emptyLogs = \<lparr>stdout = [], stderr = []\<rparr>"

definition logsStdout :: "thrown + logs \<Rightarrow> string" where
  "logsStdout r = (case r of Inl e \<Rightarrow> [] | Inr l \<Rightarrow> stdout l)"

text \<open>
  Every awaited interaction with the outside world is an event: starting a process,
  sleeping between two polls, fetching logs, killing a process, listing processes and
  the \<^verbatim>\<open>mountBucket\<close> call (with its bucket, path, endpoint and credential pair).
  The history of a run is the list of its events, oldest first. Its length is the
  run's clock: the outside world can change only while the code awaits, so what a
  handle shows is a function of the number of events so far.
\<close>

datatype event =
    EvStartProcess string
  | EvSleep int
  | EvGetLogs
  | EvKill
  | EvListProcesses
  | EvMountBucket string string string string string

type_synonym history = "event list"

fun startedCmds :: "history \<Rightarrow> string list" where
  "startedCmds [] = []"
| "startedCmds (EvStartProcess c # es) = c # startedCmds es"
| "startedCmds (e # es) = startedCmds es"

fun isMountBucket :: "event \<Rightarrow> bool" where
  "isMountBucket (EvMountBucket bucket path endpoint accessKeyId secretAccessKey) = True"
| "isMountBucket e = False"

text \<open>
  Modelled from the spec: the process handle of the external supervisor, whose type
  declaration is not among the sources. It has the \<^verbatim>\<open>status\<close> and
  \<^verbatim>\<open>exitCode\<close> fields as they read at each instant (the exit code may be absent),
  \<^verbatim>\<open>getLogs()\<close>, which may reject, and \<^verbatim>\<open>kill()\<close>, which may be missing
  and may reject.
\<close>

record process =
  p_status :: "nat \<Rightarrow> string"
  p_exitCode :: "nat \<Rightarrow> int option"
  p_getLogs :: "nat \<Rightarrow> thrown + logs"
  p_kill :: "(nat \<Rightarrow> thrown + unit) option"

text \<open>
  Modelled from the spec: an entry of \<^verbatim>\<open>listProcesses()\<close>, with the fields the
  dedup check reads, each of which may be absent.
\<close>

record procinfo =
  pi_id :: "string option"
  pi_status :: "string option"
  pi_command :: "string option"

text \<open>
  Modelled from the spec: the sandbox, whose interface is declared outside the sources.
  \<^verbatim>\<open>startProcess(command)\<close> returns a handle, \<^verbatim>\<open>mountBucket\<close> succeeds or
  fails with a condition, and \<^verbatim>\<open>listProcesses\<close> may fail. Each answer may depend
  on the instant of the call; the handle also on the command.
\<close>

record sandbox =
  startProcess :: "nat \<Rightarrow> string \<Rightarrow> process"
  mountBucket :: "nat \<Rightarrow> thrown + unit"
  listProcesses :: "nat \<Rightarrow> thrown + procinfo list"

text \<open>
  The constants of \<^verbatim>\<open>../config\<close>, which is not among the sources, are parameters
  of the model.
\<close>

record config =
  R2_MOUNT_PATH :: string
  R2_BUCKET_NAME :: string

text \<open>
  Modelled from the spec: the environment bindings (\<^verbatim>\<open>../types\<close> is not among the
  sources), with the three credentials the gateway reads, each present or absent.
\<close>

record openclaw_env =
  R2_ACCESS_KEY_ID :: "string option"
  R2_SECRET_ACCESS_KEY :: "string option"
  CF_ACCOUNT_ID :: "string option"

section \<open>Asynchronous computations\<close>

text \<open>
  An \<^verbatim>\<open>async\<close> computation takes the history so far and either never returns
  (\<open>None\<close>) or returns a value or a thrown value (\<open>Inl\<close>) with the extended history.
  \<open>bindE\<close> is \<^verbatim>\<open>await\<close> followed by the rest, \<open>catchE\<close> is
  \<^verbatim>\<open>try ... catch\<close> (and \<^verbatim>\<open>.catch(...)\<close> on a promise), \<open>call\<close> performs one
  external call, recording its event, and \<open>observe\<close> reads a field of a handle at
  the current instant, which is no event.
\<close>

type_synonym 'a io = "history \<Rightarrow> ((thrown + 'a) \<times> history) option"

definition ret :: "'a \<Rightarrow> 'a io" where
  "ret x = (\<lambda>h. Some (Inr x, h))"

definition throw :: "thrown \<Rightarrow> 'a io" where
  "throw e = (\<lambda>h. Some (Inl e, h))"

definition bindE :: "'a io \<Rightarrow> ('a \<Rightarrow> 'b io) \<Rightarrow> 'b io" where
  "bindE m f = (\<lambda>h. case m h of
       None \<Rightarrow> None
     | Some (Inl e, h') \<Rightarrow> Some (Inl e, h')
     | Some (Inr x, h') \<Rightarrow> f x h')"

definition catchE :: "'a io \<Rightarrow> (thrown \<Rightarrow> 'a io) \<Rightarrow> 'a io" where
  "catchE m handler = (\<lambda>h. case m h of
       None \<Rightarrow> None
     | Some (Inl e, h') \<Rightarrow> handler e h'
     | Some (Inr x, h') \<Rightarrow> Some (Inr x, h'))"

definition call :: "event \<Rightarrow> (nat \<Rightarrow> thrown + 'a) \<Rightarrow> 'a io" where
  "call ev resp = (\<lambda>h. Some (resp (length h), h @ [ev]))"

definition observe :: "(nat \<Rightarrow> 'a) \<Rightarrow> 'a io" where
  "observe f = (\<lambda>h. Some (Inr (f (length h)), h))"

definition sandbox_startProcess :: "sandbox \<Rightarrow> string \<Rightarrow> process io" where
  "sandbox_startProcess sb cmd = call (EvStartProcess cmd) (\<lambda>t. Inr (startProcess sb t cmd))"

definition getLogs :: "process \<Rightarrow> logs io" where
  "getLogs proc = call EvGetLogs (p_getLogs proc)"

text \<open>\<^verbatim>\<open>proc.getLogs().catch(() => ({ stdout: '', stderr: '' }))\<close>.\<close>

definition getLogsOrEmpty :: "process \<Rightarrow> logs io" where
  "getLogsOrEmpty proc = catchE (getLogs proc) (\<lambda>_. ret emptyLogs)"

section \<open>Process wait utility (utils.ts)\<close>

text \<open>
  \<^verbatim>\<open>timeoutMs\<close> and \<^verbatim>\<open>pollIntervalMs\<close> are JavaScript numbers. Every call
  in the repository passes integer constants (5000, 10000, 15000 and ten minutes for the
  timeout; 200 and the default 500 for the interval), and the model takes the two
  arguments as integers. For integers of magnitude below \<open>2\<^sup>5\<^sup>3\<close> the division
  in floating point followed by \<^verbatim>\<open>Math.ceil\<close> gives the exact ceiling of the
  quotient, which is what \<open>ceil_div\<close> computes; a division by zero gives an
  infinity or NaN, and a comparison with NaN is false. Arguments that are fractions,
  infinities or NaN are outside the model.
\<close>

datatype jsnum = Num int | PosInfinity | NegInfinity | NaN

definition ceil_div :: "int \<Rightarrow> int \<Rightarrow> jsnum" where
  "ceil_div a b =
     (if b = 0 then (if 0 < a then PosInfinity else if a < 0 then NegInfinity else NaN)
      else Num (- ((- a) div b)))"

fun lt_num :: "nat \<Rightarrow> jsnum \<Rightarrow> bool" where
  "lt_num n (Num m) = (int n < m)"
| "lt_num n PosInfinity = True"
| "lt_num n NegInfinity = False"
| "lt_num n NaN = False"

definition isActive :: "string \<Rightarrow> bool" where
  "isActive s = (s = ''starting'' \<or> s = ''running'')"

text \<open>
  The polling loop
  \<^verbatim>\<open>while ((proc.status === 'starting' || proc.status === 'running') && attempts < maxAttempts)\<close>,
  whose body sleeps for the poll interval and counts the attempt. With an infinite
  bound it need not end, so it is a partial function.
\<close>

partial_function (option) waitLoop :: "process \<Rightarrow> jsnum \<Rightarrow> int \<Rightarrow> nat \<Rightarrow> history \<Rightarrow> history option" where
  "waitLoop proc maxAttempts pollIntervalMs attempts h =
     (if isActive (p_status proc (length h)) \<and> lt_num attempts maxAttempts
      then waitLoop proc maxAttempts pollIntervalMs (attempts + 1) (h @ [EvSleep pollIntervalMs])
      else Some h)"

declare waitLoop.simps [code]

text \<open>
  \<^verbatim>\<open>new Error(`Process timed out after ${timeoutMs}ms (status=${proc.status})`)\<close>.
  The template prints an integer of magnitude below \<open>10\<^sup>2\<^sup>1\<close> in plain decimal,
  as \<open>show_int\<close> does; beyond that it uses the exponent form, which is outside
  the model.
\<close>

definition timeoutError :: "int \<Rightarrow> string \<Rightarrow> thrown" where
  "timeoutError timeoutMs st =
     ErrorObj (''Process timed out after '' @ show_int timeoutMs @ ''ms (status='' @ st @ '')'')"

definition waitForProcess :: "process \<Rightarrow> int \<Rightarrow> int \<Rightarrow> unit io" where
  "waitForProcess proc timeoutMs pollIntervalMs = (\<lambda>h.
     case waitLoop proc (ceil_div timeoutMs pollIntervalMs) pollIntervalMs 0 h of
       None \<Rightarrow> None
     | Some h' \<Rightarrow>
         if isActive (p_status proc (length h'))
         then Some (Inl (timeoutError timeoutMs (p_status proc (length h'))), h')
         else Some (Inr (), h'))"

section \<open>Mount prober and mount controller (r2.ts)\<close>

datatype MountProbe = Mounted string | NotMounted string | Unresponsive

definition probeCmd :: "config \<Rightarrow> string" where
  \<open>probeCmd cfg =
     ''sh -lc '' @ sq @ ''stat -f -c %T "'' @ R2_MOUNT_PATH cfg @
     ''" 2>/dev/null || echo "__ERR__"'' @ sq\<close>

text \<open>The classification of the captured output, from the first token on.\<close>

definition classifyFsType :: "string \<Rightarrow> MountProbe" where
  "classifyFsType out =
     (let fsType = split_ws_first (trim out) in
      if fsType = [] \<or> fsType = ''__ERR__'' then NotMounted (or_else fsType ''__ERR__'')
      else if startsWith fsType ''fuse'' then Mounted fsType
      else NotMounted fsType)"

definition probeMount :: "config \<Rightarrow> sandbox \<Rightarrow> MountProbe io" where
  "probeMount cfg sb =
     bindE (sandbox_startProcess sb (probeCmd cfg)) (\<lambda>proc.
     bindE (catchE (bindE (waitForProcess proc 5000 200) (\<lambda>_. ret True)) (\<lambda>_. ret False)) (\<lambda>settled.
       if \<not> settled then ret Unresponsive
       else bindE (getLogsOrEmpty proc) (\<lambda>logs. ret (classifyFsType (stdout logs)))))"

definition unmountCmd :: "config \<Rightarrow> string" where
  \<open>unmountCmd cfg =
     ''sh -lc '' @
     ''"umount -l '' @ sq @ R2_MOUNT_PATH cfg @ sq @ '' 2>/dev/null || '' @
     ''fusermount -uz '' @ sq @ R2_MOUNT_PATH cfg @ sq @ '' 2>/dev/null || '' @
     ''fusermount -u '' @ sq @ R2_MOUNT_PATH cfg @ sq @ '' 2>/dev/null || true"''\<close>

definition lazyUnmountR2 :: "config \<Rightarrow> sandbox \<Rightarrow> unit io" where
  "lazyUnmountR2 cfg sb =
     bindE (sandbox_startProcess sb (unmountCmd cfg)) (\<lambda>proc.
     catchE (waitForProcess proc 5000 200) (\<lambda>_. ret ()))"

definition isMountPathInUseError :: "string \<Rightarrow> bool" where
  "isMountPathInUseError errorMessage =
     (str_includes errorMessage ''InvalidMountConfigError'' \<and>
      str_includes errorMessage ''Mount path'' \<and>
      str_includes errorMessage ''already in use'')"

text \<open>
  The credentials check at the head of \<^verbatim>\<open>mountR2Storage\<close> and of
  \<^verbatim>\<open>syncToR2\<close>: all three bindings are truthy.
\<close>

definition configured :: "openclaw_env \<Rightarrow> bool" where
  "configured env =
     (truthy (R2_ACCESS_KEY_ID env) \<and> truthy (R2_SECRET_ACCESS_KEY env) \<and> truthy (CF_ACCOUNT_ID env))"

text \<open>
  The \<^verbatim>\<open>mountBucket\<close> call with its arguments. It is reached only behind the
  credentials check, where the three bindings are present.
\<close>

definition mountEvent :: "config \<Rightarrow> openclaw_env \<Rightarrow> event" where
  "mountEvent cfg env =
     EvMountBucket (R2_BUCKET_NAME cfg) (R2_MOUNT_PATH cfg)
       (''https://'' @ the (CF_ACCOUNT_ID env) @ ''.r2.cloudflarestorage.com'')
       (the (R2_ACCESS_KEY_ID env)) (the (R2_SECRET_ACCESS_KEY env))"

definition sandbox_mountBucket :: "config \<Rightarrow> sandbox \<Rightarrow> openclaw_env \<Rightarrow> unit io" where
  "sandbox_mountBucket cfg sb env = call (mountEvent cfg env) (mountBucket sb)"

text \<open>
  The body of \<^verbatim>\<open>if (isMountPathInUseError(errorMessage)) { ... }\<close> in the catch
  block: \<open>Some True\<close> where it returns true, \<open>None\<close> where control falls through
  to the final \<^verbatim>\<open>return false\<close>.
\<close>

definition remountAfterConflict :: "config \<Rightarrow> sandbox \<Rightarrow> openclaw_env \<Rightarrow> bool option io" where
  "remountAfterConflict cfg sb env =
     bindE (probeMount cfg sb) (\<lambda>probe.
       case probe of
         Mounted fsType \<Rightarrow> ret (Some True)
       | Unresponsive \<Rightarrow>
           bindE (lazyUnmountR2 cfg sb) (\<lambda>_.
           catchE (bindE (sandbox_mountBucket cfg sb env) (\<lambda>_. ret (Some True)))
                  (\<lambda>retryErr. ret None))
       | NotMounted fsType \<Rightarrow> ret None)"

definition mountR2Storage :: "config \<Rightarrow> sandbox \<Rightarrow> openclaw_env \<Rightarrow> bool io" where
  "mountR2Storage cfg sb env =
     (if \<not> configured env then ret False
      else
        bindE (probeMount cfg sb) (\<lambda>initialProbe.
          case initialProbe of
            Mounted fsType \<Rightarrow> ret True
          | _ \<Rightarrow>
            bindE (if initialProbe = Unresponsive then lazyUnmountR2 cfg sb else ret ()) (\<lambda>_.
            catchE (bindE (sandbox_mountBucket cfg sb env) (\<lambda>_. ret True)) (\<lambda>err.
              bindE
                (if isMountPathInUseError (errorMessageOf err)
                 then remountAfterConflict cfg sb env else ret None)
                (\<lambda>early. case early of Some b \<Rightarrow> ret b | None \<Rightarrow> ret False)))))"

section \<open>Sync orchestrator (sync.ts)\<close>

text \<open>
  The run logger (\<^verbatim>\<open>createSyncLogger\<close>, \<^verbatim>\<open>withBundle\<close>) only records and
  prints; it awaits nothing, throws nothing and returns the result it is given, so it
  is left out.
\<close>

record SyncResult =
  success :: bool
  lastSync :: "string option"
  error :: "string option"
  details :: "string option"

definition DEFAULT_SYNC_TIMEOUT_MS :: int where
  "DEFAULT_SYNC_TIMEOUT_MS = 10 * 60 * 1000"

definition OPENCLAW_CONFIG_DIR :: string where
  "OPENCLAW_CONFIG_DIR = ''/root/.openclaw''"

definition OPENCLAW_WORKSPACE_DIR :: string where
  "OPENCLAW_WORKSPACE_DIR = ''/root/openclaw''"

subsection \<open>Dedup check\<close>

record active_check =
  hasActive :: bool
  ac_details :: "string option"

text \<open>The predicate of \<^verbatim>\<open>processes.find(...)\<close>.\<close>

definition isActiveRsync :: "config \<Rightarrow> procinfo \<Rightarrow> bool" where
  "isActiveRsync cfg p =
     (if pi_status p \<noteq> Some ''starting'' \<and> pi_status p \<noteq> Some ''running'' then False
      else let command = (case pi_command p of None \<Rightarrow> [] | Some c \<Rightarrow> c) in
        str_includes command ''rsync'' \<and> str_includes command (R2_MOUNT_PATH cfg))"

definition checkForActiveRsync :: "config \<Rightarrow> sandbox \<Rightarrow> active_check io" where
  "checkForActiveRsync cfg sb =
     catchE
       (bindE (call EvListProcesses (listProcesses sb)) (\<lambda>processes.
          case find (isActiveRsync cfg) processes of
            None \<Rightarrow> ret \<lparr>hasActive = False, ac_details = None\<rparr>
          | Some active \<Rightarrow>
              ret \<lparr>hasActive = True,
                   ac_details = Some (''Skipped: another rsync appears to be running'' @
                     (if truthy (pi_id active) then '' (id='' @ the (pi_id active) @ '')'' else []) @
                     ''.'')\<rparr>))
       (\<lambda>err. ret \<lparr>hasActive = False, ac_details = None\<rparr>)"

subsection \<open>Preflight verification\<close>

definition verifyCmd :: "config \<Rightarrow> string" where
  \<open>verifyCmd cfg =
     ''sh -lc '' @ sq @
     ''if test -f "'' @ OPENCLAW_CONFIG_DIR @ ''/openclaw.json"; then echo "__OK__"; else echo "__MISSING__"; fi; '' @
     ''if test -d "'' @ OPENCLAW_WORKSPACE_DIR @ ''" && test -n "$(ls -A "'' @ OPENCLAW_WORKSPACE_DIR @
       ''" 2>/dev/null)"; then echo "__WORKSPACE_LOCAL_NONEMPTY__"; else echo "__WORKSPACE_LOCAL_EMPTY__"; fi; '' @
     ''if test -d "'' @ R2_MOUNT_PATH cfg @ ''/workspace" && test -n "$(ls -A "'' @ R2_MOUNT_PATH cfg @
       ''/workspace" 2>/dev/null)"; then echo "__WORKSPACE_REMOTE_NONEMPTY__"; else echo "__WORKSPACE_REMOTE_EMPTY__"; fi'' @
     sq\<close>

text \<open>
  \<^verbatim>\<open>for (let i = 0; i < 50; i++) { ... }\<close>: fetch the logs, stop when a sentinel
  of the config check is there, otherwise sleep 100 ms. The second argument counts the
  iterations left, the third holds \<^verbatim>\<open>stdout\<close> and \<^verbatim>\<open>stderr\<close> as last assigned.
\<close>

fun pollVerifyLogs :: "process \<Rightarrow> nat \<Rightarrow> logs \<Rightarrow> logs io" where
  "pollVerifyLogs proc 0 cur = ret cur"
| "pollVerifyLogs proc (Suc n) cur =
     bindE (getLogsOrEmpty proc) (\<lambda>logs.
       if str_includes (stdout logs) ''__OK__'' \<or> str_includes (stdout logs) ''__MISSING__''
       then ret logs
       else bindE (call (EvSleep 100) (\<lambda>_. Inr ())) (\<lambda>_. pollVerifyLogs proc n logs))"

text \<open>
  The first part of the verification block: start the batched probe, wait for it at
  best effort and poll its logs. It yields the handle and the output last read.
\<close>

definition readVerifyOutput :: "config \<Rightarrow> sandbox \<Rightarrow> (process \<times> logs) io" where
  "readVerifyOutput cfg sb =
     bindE (sandbox_startProcess sb (verifyCmd cfg)) (\<lambda>checkProc.
     bindE (catchE (waitForProcess checkProc 10000 200) (\<lambda>_. ret ())) (\<lambda>_.
     bindE (pollVerifyLogs checkProc 50 emptyLogs) (\<lambda>logs. ret (checkProc, logs))))"

definition missingConfigResult :: SyncResult where
  "missingConfigResult =
     \<lparr>success = False, lastSync = None,
      error = Some ''Sync aborted: source missing openclaw.json'',
      details = Some (''The local config directory is missing critical files. '' @
                      ''This could indicate corruption or an incomplete setup.'')\<rparr>"

definition emptyWorkspaceResult :: SyncResult where
  "emptyWorkspaceResult =
     \<lparr>success = False, lastSync = None,
      error = Some ''Sync aborted: local workspace appears empty'',
      details = Some (''The workspace directory is empty, but an existing workspace backup was found in R2. '' @
                      ''Aborting to avoid overwriting memory/bootstrap files with an empty workspace.'')\<rparr>"

definition verifyTimeoutError :: "string \<Rightarrow> logs \<Rightarrow> thrown" where
  "verifyTimeoutError status logs =
     ErrorObj (''Timed out waiting for source verification output (status='' @ status @
               ''). stdout='' @ json_string (trim (stdout logs)) @
               '' stderr='' @ json_string (trim (stderr logs)))"

text \<open>
  The verification \<^verbatim>\<open>try\<close> block: \<open>Some r\<close> where it returns \<open>r\<close>,
  \<open>None\<close> where control goes on to the copy passes.
\<close>

definition syncToR2_verify :: "config \<Rightarrow> sandbox \<Rightarrow> SyncResult option io" where
  "syncToR2_verify cfg sb =
     catchE
       (bindE (readVerifyOutput cfg sb) (\<lambda>(checkProc, logs).
          if str_includes (stdout logs) ''__MISSING__'' then ret (Some missingConfigResult)
          else if str_includes (stdout logs) ''__WORKSPACE_REMOTE_NONEMPTY__'' \<and>
                  str_includes (stdout logs) ''__WORKSPACE_LOCAL_EMPTY__''
            then ret (Some emptyWorkspaceResult)
          else if \<not> str_includes (stdout logs) ''__OK__''
            then bindE (observe (p_status checkProc)) (\<lambda>status.
                   throw (verifyTimeoutError status logs))
          else ret None))
       (\<lambda>err. ret (Some \<lparr>success = False, lastSync = None,
                          error = Some ''Failed to verify source files'',
                          details = Some (errorDetails err)\<rparr>))"

subsection \<open>Copy passes\<close>

definition rsyncCommonFlags :: string where
  "rsyncCommonFlags =
     ''-r --no-times --delete --info=progress2 --stats --human-readable '' @
     ''--exclude='' @ sq @ ''*.lock'' @ sq @ '' --exclude='' @ sq @ ''*.log'' @ sq @
     '' --exclude='' @ sq @ ''*.tmp'' @ sq"

definition syncOpenclawCmd :: "config \<Rightarrow> string" where
  "syncOpenclawCmd cfg =
     ''rsync '' @ rsyncCommonFlags @ '' '' @ OPENCLAW_CONFIG_DIR @ ''/ '' @ R2_MOUNT_PATH cfg @ ''/openclaw/''"

definition syncWorkspaceCmd :: "config \<Rightarrow> string" where
  "syncWorkspaceCmd cfg =
     ''rsync '' @ rsyncCommonFlags @ '' --exclude='' @ sq @ ''skills/'' @ sq @ '' '' @
     OPENCLAW_WORKSPACE_DIR @ ''/ '' @ R2_MOUNT_PATH cfg @ ''/workspace/''"

definition syncSkillsCmd :: "config \<Rightarrow> string" where
  "syncSkillsCmd cfg =
     ''rsync '' @ rsyncCommonFlags @ '' '' @ OPENCLAW_WORKSPACE_DIR @ ''/skills/ '' @
     R2_MOUNT_PATH cfg @ ''/skills/''"

definition writeTimestampCmd :: "config \<Rightarrow> string" where
  "writeTimestampCmd cfg =
     ''sh -lc '' @ sq @ ''date -Iseconds > '' @ R2_MOUNT_PATH cfg @ ''/.last-sync'' @ sq"

definition readTimestampCmd :: "config \<Rightarrow> string" where
  \<open>readTimestampCmd cfg =
     ''sh -lc '' @ sq @ ''for i in $(seq 1 40); do if test -f "'' @ R2_MOUNT_PATH cfg @
     ''/.last-sync"; then cat "'' @ R2_MOUNT_PATH cfg @
     ''/.last-sync"; exit 0; fi; sleep 0.25; done; echo "__MISSING__"'' @ sq\<close>

definition diagCmd :: "config \<Rightarrow> string" where
  \<open>diagCmd cfg =
     ''sh -lc '' @
     ''"echo '' @ sq @ ''[diag] mount:'' @ sq @ '' && mount | grep s3fs || true; '' @
     ''echo '' @ sq @ ''[diag] r2_path:'' @ sq @ '' && ls -la '' @ R2_MOUNT_PATH cfg @ '' || true; '' @
     ''echo '' @ sq @ ''[diag] openclaw_src:'' @ sq @ '' && ls -la '' @ OPENCLAW_CONFIG_DIR @ '' || true; '' @
     ''echo '' @ sq @ ''[diag] workspace_src:'' @ sq @ '' && ls -la '' @ OPENCLAW_WORKSPACE_DIR @ '' || true; '' @
     ''echo '' @ sq @ ''[diag] skills_src:'' @ sq @ '' && ls -la '' @ OPENCLAW_WORKSPACE_DIR @ ''/skills || true"''\<close>

definition bestEffortKill :: "process \<Rightarrow> unit io" where
  "bestEffortKill proc =
     (case p_kill proc of
        None \<Rightarrow> ret ()
      | Some kill \<Rightarrow> catchE (call EvKill kill) (\<lambda>err. ret ()))"

text \<open>
  The test of \<^verbatim>\<open>ensureRsyncSuccess\<close>:
  \<^verbatim>\<open>status === 'failed' || (typeof exitCode === 'number' && exitCode !== 0)\<close>.
  \<^verbatim>\<open>getProcessStatus\<close> and \<^verbatim>\<open>getProcessExitCode\<close> read the two fields
  of the handle; an exit code that is not a number is an absent one.
\<close>

definition rsyncFailed :: "string \<Rightarrow> int option \<Rightarrow> bool" where
  "rsyncFailed status exitCode =
     (status = ''failed'' \<or> (case exitCode of None \<Rightarrow> False | Some c \<Rightarrow> c \<noteq> 0))"

definition rsyncFailure :: "logs \<Rightarrow> string \<Rightarrow> int option \<Rightarrow> SyncResult" where
  "rsyncFailure logs which exitCode =
     \<lparr>success = False, lastSync = None, error = Some ''Sync failed'',
      details = Some (trim (or_else (stderr logs) (or_else (stdout logs)
        (''rsync failed ('' @ which @ '') exitCode='' @
         (case exitCode of None \<Rightarrow> ''unknown'' | Some c \<Rightarrow> show_int c)))))\<rparr>"

definition ensureRsyncSuccess :: "process \<Rightarrow> string \<Rightarrow> SyncResult option io" where
  "ensureRsyncSuccess proc which =
     bindE (observe (p_status proc)) (\<lambda>status.
     bindE (observe (p_exitCode proc)) (\<lambda>exitCode.
       if rsyncFailed status exitCode then
         bindE (getLogsOrEmpty proc) (\<lambda>logs. ret (Some (rsyncFailure logs which exitCode)))
       else ret None))"

text \<open>
  One copy pass, written three times in the source with the command and the stage name
  changed: start the process, wait for it with the default poll interval of 500 ms
  (on a timeout fetch the logs, kill at best effort and throw the timeout again), then
  run the ensure-success check. It yields the handle and the check's result.
\<close>

definition copyPass :: "sandbox \<Rightarrow> string \<Rightarrow> string \<Rightarrow> (process \<times> SyncResult option) io" where
  "copyPass sb cmd which =
     bindE (sandbox_startProcess sb cmd) (\<lambda>proc.
     bindE (catchE (waitForProcess proc DEFAULT_SYNC_TIMEOUT_MS 500) (\<lambda>e.
              bindE (getLogsOrEmpty proc) (\<lambda>logs.
              bindE (bestEffortKill proc) (\<lambda>_. throw e)))) (\<lambda>_.
     bindE (ensureRsyncSuccess proc which) (\<lambda>res. ret (proc, res))))"

subsection \<open>Completion marker\<close>

text \<open>
  Reading the marker back, from \<^verbatim>\<open>const timestampProc = ...\<close> to the end of the
  \<^verbatim>\<open>try\<close> block. \<open>proc\<close> is the handle of the first copy pass, whose logs go
  into the failure details.
\<close>

definition verifyMarker :: "config \<Rightarrow> sandbox \<Rightarrow> process \<Rightarrow> SyncResult io" where
  "verifyMarker cfg sb proc =
     bindE (sandbox_startProcess sb (readTimestampCmd cfg)) (\<lambda>timestampProc.
     bindE (waitForProcess timestampProc 15000 500) (\<lambda>_.
     bindE (getLogs timestampProc) (\<lambda>timestampLogs.
       let out = trim (stdout timestampLogs);
           lastSync = (if out \<noteq> [] \<and> out \<noteq> ''__MISSING__'' then Some out else None)
       in
       if (case lastSync of None \<Rightarrow> False | Some ts \<Rightarrow> matchesDatePrefix ts)
       then ret \<lparr>success = True, lastSync = lastSync, error = None, details = None\<rparr>
       else
         bindE (getLogs proc) (\<lambda>logs.
         bindE (sandbox_startProcess sb (diagCmd cfg)) (\<lambda>diagProc.
         bindE (catchE (waitForProcess diagProc 5000 200) (\<lambda>_. ret ())) (\<lambda>_.
         bindE (getLogsOrEmpty diagProc) (\<lambda>diagLogs.
           ret \<lparr>success = False, lastSync = None, error = Some ''Sync failed'',
                details = Some (join_lines (filter (\<lambda>s. s \<noteq> [])
                  [or_else (stderr logs) (or_else (stdout logs) ''No timestamp file created''),
                   trim (stdout diagLogs), trim (stderr diagLogs)]))\<rparr>)))))))"

definition writeAndVerifyMarker :: "config \<Rightarrow> sandbox \<Rightarrow> process \<Rightarrow> SyncResult io" where
  "writeAndVerifyMarker cfg sb proc =
     bindE (sandbox_startProcess sb (writeTimestampCmd cfg)) (\<lambda>writeProc.
     bindE (waitForProcess writeProc 15000 500) (\<lambda>_.
     verifyMarker cfg sb proc))"

subsection \<open>The orchestrator\<close>

text \<open>The replication \<^verbatim>\<open>try\<close> block with its \<^verbatim>\<open>catch\<close>.\<close>

definition syncToR2_replicate :: "config \<Rightarrow> sandbox \<Rightarrow> SyncResult io" where
  "syncToR2_replicate cfg sb =
     catchE
       (bindE (copyPass sb (syncOpenclawCmd cfg) ''openclaw'') (\<lambda>(proc, openclawResult).
          case openclawResult of Some r \<Rightarrow> ret r | None \<Rightarrow>
        bindE (copyPass sb (syncWorkspaceCmd cfg) ''workspace'') (\<lambda>(workspaceProc, workspaceResult).
          case workspaceResult of Some r \<Rightarrow> ret r | None \<Rightarrow>
        bindE (copyPass sb (syncSkillsCmd cfg) ''skills'') (\<lambda>(skillsProc, skillsResult).
          case skillsResult of Some r \<Rightarrow> ret r | None \<Rightarrow>
        writeAndVerifyMarker cfg sb proc))))
       (\<lambda>err. ret \<lparr>success = False, lastSync = None, error = Some ''Sync error'',
                    details = Some (errorDetails err)\<rparr>)"

text \<open>
  Everything before the copy passes: the credentials check, the mount, the dedup check
  and the verification. \<open>Some r\<close> where \<^verbatim>\<open>syncToR2\<close> returns \<open>r\<close> there,
  \<open>None\<close> where it goes on.
\<close>

definition syncToR2_preflight :: "config \<Rightarrow> sandbox \<Rightarrow> openclaw_env \<Rightarrow> SyncResult option io" where
  "syncToR2_preflight cfg sb env =
     (if \<not> configured env
      then ret (Some \<lparr>success = False, lastSync = None,
                      error = Some ''R2 storage is not configured'', details = None\<rparr>)
      else
        bindE (mountR2Storage cfg sb env) (\<lambda>mounted.
          if \<not> mounted
          then ret (Some \<lparr>success = False, lastSync = None,
                          error = Some ''Failed to mount R2 storage'', details = None\<rparr>)
          else
            bindE (checkForActiveRsync cfg sb) (\<lambda>activeRsync.
              if hasActive activeRsync
              then ret (Some \<lparr>success = True, lastSync = None, error = None,
                              details = ac_details activeRsync\<rparr>)
              else syncToR2_verify cfg sb)))"

definition syncToR2 :: "config \<Rightarrow> sandbox \<Rightarrow> openclaw_env \<Rightarrow> SyncResult io" where
  "syncToR2 cfg sb env =
     bindE (syncToR2_preflight cfg sb env) (\<lambda>early.
       case early of
         Some result \<Rightarrow> ret result
       | None \<Rightarrow> syncToR2_replicate cfg sb)"

section \<open>Notions used to state the properties\<close>

text \<open>
  The commands of the replication stages in their order, and the stage commands started
  in a list of events, in the order of their start.
\<close>

definition stageOrder :: "config \<Rightarrow> string list" where
  "stageOrder cfg =
     [syncOpenclawCmd cfg, syncWorkspaceCmd cfg, syncSkillsCmd cfg, writeTimestampCmd cfg]"

definition stageStarts :: "config \<Rightarrow> history \<Rightarrow> string list" where
  "stageStarts cfg ev = filter (\<lambda>c. c \<in> set (stageOrder cfg)) (startedCmds ev)"

text \<open>
  The verification poll reads the logs of the verification process up to 50 times, with
  a sleep of 100 ms after each read that does not end it. When the process was started
  in history \<open>h\<close> and the wait on it ended in history \<open>hw\<close>, read number
  \<open>i\<close> (from 0) happens \<open>2 * i\<close> events after \<open>hw\<close>, and
  \<open>verifyRead\<close> is the stdout it gets (empty when fetching the logs fails). A read
  decides when its stdout holds a sentinel of the config check, which is the test that
  ends the poll.
\<close>

definition verifyDecided :: "string \<Rightarrow> bool" where
  "verifyDecided out = (str_includes out ''__OK__'' \<or> str_includes out ''__MISSING__'')"

definition verifyRead :: "config \<Rightarrow> sandbox \<Rightarrow> history \<Rightarrow> history \<Rightarrow> nat \<Rightarrow> string" where
  "verifyRead cfg sb h hw i =
     logsStdout (p_getLogs (startProcess sb (length h) (verifyCmd cfg)) (length hw + 2 * i))"

text \<open>
  What becomes of the copy pass started with command \<open>cmd\<close> in history \<open>h\<close>,
  read off the handle the sandbox gives for it. The wait on the process (ten minutes,
  polled every 500 ms) either times out, and the pass is \<open>PassTimedOut\<close>, or
  settles; at the instant it settles the handle shows status \<open>failed\<close> or an exit
  code other than zero, and the pass is \<open>PassFailed\<close>, or it shows neither, and
  the pass is \<open>PassOk\<close>. With a poll interval of 500 ms the wait always returns.
  \<open>passEnd\<close> is the history at the end of that wait.
\<close>

datatype pass_outcome = PassOk | PassFailed | PassTimedOut

definition passOutcome :: "sandbox \<Rightarrow> string \<Rightarrow> history \<Rightarrow> pass_outcome" where
  "passOutcome sb cmd h =
     (case waitForProcess (startProcess sb (length h) cmd) DEFAULT_SYNC_TIMEOUT_MS 500
             (h @ [EvStartProcess cmd]) of
        Some (Inr u, h') \<Rightarrow>
          if p_status (startProcess sb (length h) cmd) (length h') = ''failed'' \<or>
             (case p_exitCode (startProcess sb (length h) cmd) (length h') of
                None \<Rightarrow> False
              | Some code \<Rightarrow> code \<noteq> 0)
          then PassFailed else PassOk
      | other \<Rightarrow> PassTimedOut)"

definition passEnd :: "sandbox \<Rightarrow> string \<Rightarrow> history \<Rightarrow> history" where
  "passEnd sb cmd h =
     (case waitForProcess (startProcess sb (length h) cmd) DEFAULT_SYNC_TIMEOUT_MS 500
             (h @ [EvStartProcess cmd]) of
        Some (r, h') \<Rightarrow> h'
      | None \<Rightarrow> h)"

text \<open>
  The rest of the replication block from each copy pass on; \<open>syncToR2_replicate\<close> is
  \<open>replicateOpenclaw\<close> inside the \<^verbatim>\<open>catch\<close>.
\<close>

definition replicateSkills :: "config \<Rightarrow> sandbox \<Rightarrow> process \<Rightarrow> SyncResult io" where
  "replicateSkills cfg sb proc =
     bindE (copyPass sb (syncSkillsCmd cfg) ''skills'') (\<lambda>(skillsProc, skillsResult).
       case skillsResult of Some r \<Rightarrow> ret r | None \<Rightarrow>
     writeAndVerifyMarker cfg sb proc)"

definition replicateWorkspace :: "config \<Rightarrow> sandbox \<Rightarrow> process \<Rightarrow> SyncResult io" where
  "replicateWorkspace cfg sb proc =
     bindE (copyPass sb (syncWorkspaceCmd cfg) ''workspace'') (\<lambda>(workspaceProc, workspaceResult).
       case workspaceResult of Some r \<Rightarrow> ret r | None \<Rightarrow>
     replicateSkills cfg sb proc)"

definition replicateOpenclaw :: "config \<Rightarrow> sandbox \<Rightarrow> SyncResult io" where
  "replicateOpenclaw cfg sb =
     bindE (copyPass sb (syncOpenclawCmd cfg) ''openclaw'') (\<lambda>(proc, openclawResult).
       case openclawResult of Some r \<Rightarrow> ret r | None \<Rightarrow>
     replicateWorkspace cfg sb proc)"

text \<open>
  The result \<open>r\<close> carries the marker read back in the run from \<open>h\<close> to \<open>hf\<close>:
  the marker write was started and the wait on it settled, then the read-back process
  was started, waited for and its logs fetched as the last event; \<open>r\<close> is the
  success result whose \<open>lastSync\<close> is the trimmed output of the read-back, which
  has the date-like shape.
\<close>

definition markerReadBack :: "config \<Rightarrow> sandbox \<Rightarrow> history \<Rightarrow> history \<Rightarrow> SyncResult \<Rightarrow> bool" where
  "markerReadBack cfg sb h hf r =
     (\<exists>ts ev kw k logs.
        r = \<lparr>success = True, lastSync = Some ts, error = None, details = None\<rparr> \<and>
        matchesDatePrefix ts \<and>
        hf = h @ ev @ EvStartProcess (writeTimestampCmd cfg) # replicate kw (EvSleep 500) @
               EvStartProcess (readTimestampCmd cfg) # replicate k (EvSleep 500) @ [EvGetLogs] \<and>
        \<not> isActive (p_status (startProcess sb (length (h @ ev)) (writeTimestampCmd cfg))
                      (length (h @ ev) + 1 + kw)) \<and>
        p_getLogs (startProcess sb (length (h @ ev) + 1 + kw) (readTimestampCmd cfg))
          (length (h @ ev) + 1 + kw + 1 + k) = Inr logs \<and>
        ts = trim (stdout logs))"

section \<open>Concrete processes and sandboxes\<close>

text \<open>
  Handles and sandboxes on which the properties are evaluated. \<open>mockProcess\<close> is a
  process that has completed, with a given output and exit code, like the mock of the
  repository's tests; \<open>stuckProcess\<close> never leaves \<open>running\<close>. A sandbox
  answers \<open>startProcess\<close> by the command it is given.
\<close>

definition stuckProcess :: process where
  "stuckProcess = \<lparr>p_status = (\<lambda>_. ''running''), p_exitCode = (\<lambda>_. None),
     p_getLogs = (\<lambda>_. Inr emptyLogs), p_kill = None\<rparr>"

definition mockProcess :: "string \<Rightarrow> int \<Rightarrow> process" where
  "mockProcess out code = \<lparr>p_status = (\<lambda>_. ''completed''), p_exitCode = (\<lambda>_. Some code),
     p_getLogs = (\<lambda>_. Inr \<lparr>stdout = out, stderr = []\<rparr>), p_kill = None\<rparr>"

definition exCfg :: config where
  "exCfg = \<lparr>R2_MOUNT_PATH = ''/data/openclaw'', R2_BUCKET_NAME = ''openclaw-data''\<rparr>"

definition exEnv :: openclaw_env where
  "exEnv = \<lparr>R2_ACCESS_KEY_ID = Some ''key'', R2_SECRET_ACCESS_KEY = Some ''secret'',
            CF_ACCOUNT_ID = Some ''account''\<rparr>"

definition emptyEnv :: openclaw_env where
  "emptyEnv = \<lparr>R2_ACCESS_KEY_ID = None, R2_SECRET_ACCESS_KEY = Some ''secret'',
              CF_ACCOUNT_ID = Some ''account''\<rparr>"

definition idleSandbox :: sandbox where
  "idleSandbox = \<lparr>startProcess = (\<lambda>t cmd. mockProcess [] 0),
                 mountBucket = (\<lambda>t. Inr ()),
                 listProcesses = (\<lambda>t. Inr [])\<rparr>"

definition fuseSandbox :: sandbox where
  "fuseSandbox =
     \<lparr>startProcess = (\<lambda>t cmd.
        if cmd = probeCmd exCfg then mockProcess (''fuse.s3fs'' @ [CHR 0x0A]) 0
        else mockProcess [] 0),
      mountBucket = (\<lambda>t. Inr ()),
      listProcesses = (\<lambda>t. Inr [])\<rparr>"

definition inUseError :: thrown where
  "inUseError = ErrorObj ''InvalidMountConfigError: Mount path /data/openclaw is already in use''"

definition conflictSandbox :: sandbox where
  "conflictSandbox =
     \<lparr>startProcess = (\<lambda>t cmd.
        if cmd = probeCmd exCfg \<and> 0 < t then stuckProcess else mockProcess [] 0),
      mountBucket = (\<lambda>t. if t = 2 then Inl inUseError else Inr ()),
      listProcesses = (\<lambda>t. Inr [])\<rparr>"

definition staleSandbox :: sandbox where
  "staleSandbox =
     \<lparr>startProcess = (\<lambda>t cmd.
        if cmd = probeCmd exCfg \<and> t = 0 then stuckProcess else mockProcess [] 0),
      mountBucket = (\<lambda>t. Inr ()),
      listProcesses = (\<lambda>t. Inr [])\<rparr>"

definition happySandbox :: sandbox where
  "happySandbox =
     \<lparr>startProcess = (\<lambda>t cmd.
        if cmd = probeCmd exCfg then mockProcess (''fuse.s3fs'' @ [CHR 0x0A]) 0
        else if cmd = verifyCmd exCfg then mockProcess ''__OK__'' 0
        else if cmd = readTimestampCmd exCfg then mockProcess ''2026-01-27T12:00:00+00:00'' 0
        else mockProcess [] 0),
      mountBucket = (\<lambda>t. Inr ()),
      listProcesses = (\<lambda>t. Inr [])\<rparr>"

definition failingSandbox :: sandbox where
  "failingSandbox =
     \<lparr>startProcess = (\<lambda>t cmd.
        if cmd = probeCmd exCfg then mockProcess (''fuse.s3fs'' @ [CHR 0x0A]) 0
        else if cmd = verifyCmd exCfg then mockProcess ''__OK__'' 0
        else if cmd = syncOpenclawCmd exCfg then mockProcess [] 1
        else mockProcess [] 0),
      mountBucket = (\<lambda>t. Inr ()),
      listProcesses = (\<lambda>t. Inr [])\<rparr>"

definition emptyLocalOutput :: string where
  "emptyLocalOutput =
     ''__OK__'' @ [CHR 0x0A] @ ''__WORKSPACE_LOCAL_EMPTY__'' @ [CHR 0x0A] @
     ''__WORKSPACE_REMOTE_NONEMPTY__'' @ [CHR 0x0A]"

definition emptyLocalSandbox :: sandbox where
  "emptyLocalSandbox =
     \<lparr>startProcess = (\<lambda>t cmd.
        if cmd = probeCmd exCfg then mockProcess (''fuse.s3fs'' @ [CHR 0x0A]) 0
        else if cmd = verifyCmd exCfg then mockProcess emptyLocalOutput 0
        else mockProcess [] 0),
      mountBucket = (\<lambda>t. Inr ()),
      listProcesses = (\<lambda>t. Inr [])\<rparr>"

definition wipedOutput :: string where
  "wipedOutput =
     ''__MISSING__'' @ [CHR 0x0A] @ ''__WORKSPACE_LOCAL_EMPTY__'' @ [CHR 0x0A] @
     ''__WORKSPACE_REMOTE_NONEMPTY__'' @ [CHR 0x0A]"

definition wipedSandbox :: sandbox where
  "wipedSandbox =
     \<lparr>startProcess = (\<lambda>t cmd.
        if cmd = probeCmd exCfg then mockProcess (''fuse.s3fs'' @ [CHR 0x0A]) 0
        else if cmd = verifyCmd exCfg then mockProcess wipedOutput 0
        else mockProcess [] 0),
      mountBucket = (\<lambda>t. Inr ()),
      listProcesses = (\<lambda>t. Inr [])\<rparr>"

definition dedupSandbox :: sandbox where
  "dedupSandbox =
     \<lparr>startProcess = (\<lambda>t cmd.
        if cmd = probeCmd exCfg then mockProcess (''fuse.s3fs'' @ [CHR 0x0A]) 0
        else mockProcess [] 0),
      mountBucket = (\<lambda>t. Inr ()),
      listProcesses = (\<lambda>t. Inr [\<lparr>pi_id = Some ''proc-7'', pi_status = Some ''running'',
                                   pi_command = Some (syncOpenclawCmd exCfg)\<rparr>])\<rparr>"

definition preflightTrace :: history where
  "preflightTrace =
     [EvStartProcess (probeCmd exCfg), EvGetLogs, EvListProcesses,
      EvStartProcess (verifyCmd exCfg), EvGetLogs]"

text \<open>
  \<open>slowProcess\<close> is seen running at the first two observations and completed from
  the third on; \<open>failedProcess\<close> has ended with status \<open>failed\<close> and no exit
  code. The remaining sandboxes make the mount call, the workspace pass or the skills
  pass fail.
\<close>

definition slowProcess :: process where
  "slowProcess = \<lparr>p_status = (\<lambda>t. if t < 2 then ''running'' else ''completed''),
     p_exitCode = (\<lambda>t. if t < 2 then None else Some 0),
     p_getLogs = (\<lambda>_. Inr emptyLogs), p_kill = None\<rparr>"

definition failedProcess :: process where
  "failedProcess = \<lparr>p_status = (\<lambda>_. ''failed''), p_exitCode = (\<lambda>_. None),
     p_getLogs = (\<lambda>_. Inr \<lparr>stdout = [], stderr = ''rsync: write failed''\<rparr>), p_kill = None\<rparr>"

definition brokenMountSandbox :: sandbox where
  "brokenMountSandbox =
     \<lparr>startProcess = (\<lambda>t cmd. mockProcess [] 0),
      mountBucket = (\<lambda>t. Inl (ErrorObj ''Mount failed'')),
      listProcesses = (\<lambda>t. Inr [])\<rparr>"

definition workspaceFailSandbox :: sandbox where
  "workspaceFailSandbox =
     \<lparr>startProcess = (\<lambda>t cmd.
        if cmd = probeCmd exCfg then mockProcess (''fuse.s3fs'' @ [CHR 0x0A]) 0
        else if cmd = verifyCmd exCfg then mockProcess ''__OK__'' 0
        else if cmd = syncWorkspaceCmd exCfg then failedProcess
        else mockProcess [] 0),
      mountBucket = (\<lambda>t. Inr ()),
      listProcesses = (\<lambda>t. Inr [])\<rparr>"

definition skillsFailSandbox :: sandbox where
  "skillsFailSandbox =
     \<lparr>startProcess = (\<lambda>t cmd.
        if cmd = probeCmd exCfg then mockProcess (''fuse.s3fs'' @ [CHR 0x0A]) 0
        else if cmd = verifyCmd exCfg then mockProcess ''__OK__'' 0
        else if cmd = syncSkillsCmd exCfg then mockProcess [] 23
        else mockProcess [] 0),
      mountBucket = (\<lambda>t. Inr ()),
      listProcesses = (\<lambda>t. Inr [])\<rparr>"

text \<open>
  \<open>lagProcess\<close> has an exit code of 1 while its status stays \<open>running\<close>: the
  status of a sandbox process can lag behind its completion. \<open>lagSandbox\<close> gives
  it to the first copy pass.
\<close>

definition lagProcess :: process where
  "lagProcess = \<lparr>p_status = (\<lambda>_. ''running''), p_exitCode = (\<lambda>_. Some 1),
     p_getLogs = (\<lambda>_. Inr \<lparr>stdout = [], stderr = ''rsync error: some files could not be transferred''\<rparr>),
     p_kill = Some (\<lambda>_. Inr ())\<rparr>"

definition lagSandbox :: sandbox where
  "lagSandbox =
     \<lparr>startProcess = (\<lambda>t cmd.
        if cmd = probeCmd exCfg then mockProcess (''fuse.s3fs'' @ [CHR 0x0A]) 0
        else if cmd = verifyCmd exCfg then mockProcess ''__OK__'' 0
        else if cmd = syncOpenclawCmd exCfg then lagProcess
        else mockProcess [] 0),
      mountBucket = (\<lambda>t. Inr ()),
      listProcesses = (\<lambda>t. Inr [])\<rparr>"

text \<open>
  In \<open>partialReadSandbox\<close> the logs of the verification process lag: the first read
  gets the line of the config check only, later reads the complete output, which shows
  the local workspace empty and the remote one non-empty. In \<open>lateOutputSandbox\<close>
  the first read gets nothing and later reads the complete output.
\<close>

definition partialReadSandbox :: sandbox where
  "partialReadSandbox =
     \<lparr>startProcess = (\<lambda>t cmd.
        if cmd = probeCmd exCfg then mockProcess (''fuse.s3fs'' @ [CHR 0x0A]) 0
        else if cmd = verifyCmd exCfg then
          \<lparr>p_status = (\<lambda>_. ''completed''), p_exitCode = (\<lambda>_. Some 0),
           p_getLogs = (\<lambda>u. Inr \<lparr>stdout = (if u < 5 then ''__OK__'' @ [CHR 0x0A] else emptyLocalOutput),
                                 stderr = []\<rparr>),
           p_kill = None\<rparr>
        else if cmd = readTimestampCmd exCfg then mockProcess ''2026-01-27T12:00:00+00:00'' 0
        else mockProcess [] 0),
      mountBucket = (\<lambda>t. Inr ()),
      listProcesses = (\<lambda>t. Inr [])\<rparr>"

definition lateOutputSandbox :: sandbox where
  "lateOutputSandbox =
     \<lparr>startProcess = (\<lambda>t cmd.
        if cmd = probeCmd exCfg then mockProcess (''fuse.s3fs'' @ [CHR 0x0A]) 0
        else if cmd = verifyCmd exCfg then
          \<lparr>p_status = (\<lambda>_. ''completed''), p_exitCode = (\<lambda>_. Some 0),
           p_getLogs = (\<lambda>u. Inr \<lparr>stdout = (if u < 5 then [] else emptyLocalOutput), stderr = []\<rparr>),
           p_kill = None\<rparr>
        else mockProcess [] 0),
      mountBucket = (\<lambda>t. Inr ()),
      listProcesses = (\<lambda>t. Inr [])\<rparr>"

text \<open>
  In \<open>staleMarkerSandbox\<close> the marker write fails, and the read-back finds the
  marker that an earlier run left.
\<close>

definition failedWriteProcess :: process where
  "failedWriteProcess = \<lparr>p_status = (\<lambda>_. ''failed''), p_exitCode = (\<lambda>_. Some 1),
     p_getLogs = (\<lambda>_. Inr \<lparr>stdout = [], stderr = ''sh: cannot create marker: Read-only file system''\<rparr>),
     p_kill = None\<rparr>"

definition staleMarkerSandbox :: sandbox where
  "staleMarkerSandbox =
     \<lparr>startProcess = (\<lambda>t cmd.
        if cmd = probeCmd exCfg then mockProcess (''fuse.s3fs'' @ [CHR 0x0A]) 0
        else if cmd = verifyCmd exCfg then mockProcess ''__OK__'' 0
        else if cmd = writeTimestampCmd exCfg then failedWriteProcess
        else if cmd = readTimestampCmd exCfg then mockProcess ''2019-05-05T00:00:00+00:00'' 0
        else mockProcess [] 0),
      mountBucket = (\<lambda>t. Inr ()),
      listProcesses = (\<lambda>t. Inr [])\<rparr>"

section \<open>Basic facts about the effect combinators\<close>

lemma ret_apply: "ret x h = Some (Inr x, h)" by (simp add: ret_def)
lemma throw_apply: "throw e h = Some (Inl e, h)" by (simp add: throw_def)
lemma call_apply: "call ev resp h = Some (resp (length h), h @ [ev])" by (simp add: call_def)
lemma observe_apply: "observe f h = Some (Inr (f (length h)), h)" by (simp add: observe_def)

lemma bindE_Inr: "m h = Some (Inr x, h1) \<Longrightarrow> bindE m f h = f x h1"
  by (simp add: bindE_def)
lemma bindE_Inl: "m h = Some (Inl e, h1) \<Longrightarrow> bindE m f h = Some (Inl e, h1)"
  by (simp add: bindE_def)
lemma catchE_Inr: "m h = Some (Inr x, h1) \<Longrightarrow> catchE m handler h = Some (Inr x, h1)"
  by (simp add: catchE_def)
lemma catchE_Inl: "m h = Some (Inl e, h1) \<Longrightarrow> catchE m handler h = handler e h1"
  by (simp add: catchE_def)

lemma waitLoop_stop:
  "\<not> (isActive (p_status proc (length h)) \<and> lt_num a m) \<Longrightarrow> waitLoop proc m p a h = Some h"
  by (subst waitLoop.simps) auto

lemma waitLoop_step:
  "isActive (p_status proc (length h)) \<Longrightarrow> lt_num a m \<Longrightarrow>
   waitLoop proc m p a h = waitLoop proc m p (a + 1) (h @ [EvSleep p])"
  by (subst waitLoop.simps) simp

lemma waitLoop_Num:
  "\<exists>k. waitLoop proc (Num m) p a h = Some (h @ replicate k (EvSleep p)) \<and>
       (\<forall>j<k. isActive (p_status proc (length h + j))) \<and>
       (\<forall>j<k. int (a + j) < m) \<and>
       (\<not> isActive (p_status proc (length h + k)) \<or> \<not> int (a + k) < m)"
proof (induction "nat (m - int a)" arbitrary: a h)
  case 0
  then have "\<not> lt_num a (Num m)" by simp
  then have "waitLoop proc (Num m) p a h = Some h" by (simp add: waitLoop_stop)
  with 0 show ?case by (intro exI[of _ 0]) simp
next
  case (Suc n)
  show ?case
  proof (cases "isActive (p_status proc (length h))")
    case False
    then have "waitLoop proc (Num m) p a h = Some h" by (simp add: waitLoop_stop)
    with False show ?thesis by (intro exI[of _ 0]) simp
  next
    case True
    from Suc.hyps(2) have lt: "lt_num a (Num m)" by simp
    have n: "n = nat (m - int (a + 1))" using Suc.hyps(2) by simp
    from Suc.hyps(1)[OF n, of "h @ [EvSleep p]"] obtain k where
      k: "waitLoop proc (Num m) p (a + 1) (h @ [EvSleep p]) = Some ((h @ [EvSleep p]) @ replicate k (EvSleep p))"
         "\<forall>j<k. isActive (p_status proc (length (h @ [EvSleep p]) + j))"
         "\<forall>j<k. int (a + 1 + j) < m"
         "\<not> isActive (p_status proc (length (h @ [EvSleep p]) + k)) \<or> \<not> int (a + 1 + k) < m"
      by blast
    have 1: "waitLoop proc (Num m) p a h = Some (h @ replicate (Suc k) (EvSleep p))"
      using waitLoop_step[OF True lt] k(1) by (simp add: replicate_app_Cons_same)
    have 2: "\<forall>j<Suc k. isActive (p_status proc (length h + j))"
      using True k(2) by (auto simp: less_Suc_eq_0_disj)
    have 3: "\<forall>j<Suc k. int (a + j) < m"
      using lt k(3) by (auto simp: less_Suc_eq_0_disj)
    have 4: "\<not> isActive (p_status proc (length h + Suc k)) \<or> \<not> int (a + Suc k) < m"
      using k(4) by simp
    from 1 2 3 4 show ?thesis by blast
  qed
qed

lemma waitLoop_diverges:
  assumes "\<forall>u. isActive (p_status proc u)"
  shows "waitLoop proc PosInfinity p a h = None"
proof (rule ccontr)
  assume "waitLoop proc PosInfinity p a h \<noteq> None"
  then obtain y where y: "waitLoop proc PosInfinity p a h = Some y" by auto
  have "\<not> ((\<forall>u. isActive (p_status proc u)) \<and> PosInfinity = PosInfinity)"
    by (rule waitLoop.raw_induct[where P="\<lambda>proc m p a h y. \<not> ((\<forall>u. isActive (p_status proc u)) \<and> m = PosInfinity)", OF _ y])
       (auto split: if_splits)
  with assms show False by simp
qed

text \<open>The wait with a non-zero poll interval: it returns after k sleeps.\<close>

lemma waitForProcess_nonzero:
  assumes "p \<noteq> 0"
  shows "\<exists>k. waitForProcess proc t p h =
            Some (if isActive (p_status proc (length h + k))
                  then Inl (timeoutError t (p_status proc (length h + k))) else Inr (),
                  h @ replicate k (EvSleep p)) \<and>
          (\<forall>j<k. isActive (p_status proc (length h + j))) \<and>
          (\<forall>j<k. int j < - ((- t) div p)) \<and>
          (isActive (p_status proc (length h + k)) \<longrightarrow> \<not> int k < - ((- t) div p))"
proof -
  from waitLoop_Num[of proc "- ((- t) div p)" p 0 h] obtain k where
    k: "waitLoop proc (Num (- ((- t) div p))) p 0 h = Some (h @ replicate k (EvSleep p))"
       "\<forall>j<k. isActive (p_status proc (length h + j))"
       "\<forall>j<k. int (0 + j) < - ((- t) div p)"
       "\<not> isActive (p_status proc (length h + k)) \<or> \<not> int (0 + k) < - ((- t) div p)"
    by blast
  have "waitForProcess proc t p h =
          Some (if isActive (p_status proc (length h + k))
                then Inl (timeoutError t (p_status proc (length h + k))) else Inr (),
                h @ replicate k (EvSleep p))"
    using assms k(1) by (simp add: waitForProcess_def ceil_div_def)
  with k(2,3,4) show ?thesis by (intro exI[of _ k]) auto
qed

lemma ceil_div_covers:
  fixes t p :: int
  assumes "0 < p"
  shows "t \<le> (- ((- t) div p)) * p" and "(- ((- t) div p) - 1) * p < t"
proof -
  define q where "q = (- t) div p"
  define r where "r = (- t) mod p"
  have eq: "q * p + r = - t"
    unfolding q_def r_def by simp
  have lo: "0 \<le> r" and hi: "r < p"
    using assms unfolding r_def by simp_all
  have n1: "(- q) * p = - (q * p)" by simp
  have n2: "(- q - 1) * p = - (q * p) - p" by (simp add: algebra_simps)
  show "t \<le> (- ((- t) div p)) * p"
    unfolding q_def[symmetric] n1 using eq lo by linarith
  show "(- ((- t) div p) - 1) * p < t"
    unfolding q_def[symmetric] n2 using eq hi by linarith
qed

text \<open>A handle that stays active: the wait times out after exactly the ceiling of \<open>t / p\<close> sleeps.\<close>

lemma waitForProcess_stuck:
  assumes p: "0 < p" and t: "0 \<le> t" and act: "\<forall>u. isActive (p_status proc u)"
  shows "waitForProcess proc t p h =
           Some (Inl (timeoutError t (p_status proc (length h + nat (- ((- t) div p))))),
                 h @ replicate (nat (- ((- t) div p))) (EvSleep p))"
proof -
  define m where "m = - ((- t) div p)"
  from p have nz: "p \<noteq> 0" by simp
  have m0: "0 \<le> m"
  proof -
    from t have "- t \<le> 0" by simp
    with p have "(- t) div p \<le> 0" by (simp add: div_nonpos_pos_le0)
    then show ?thesis by (simp add: m_def)
  qed
  from waitForProcess_nonzero[OF nz, of proc t h] obtain k where
    run: "waitForProcess proc t p h =
            Some (if isActive (p_status proc (length h + k))
                  then Inl (timeoutError t (p_status proc (length h + k))) else Inr (),
                  h @ replicate k (EvSleep p))"
    and below: "\<forall>j<k. int j < m"
    and stop: "isActive (p_status proc (length h + k)) \<longrightarrow> \<not> int k < m"
    unfolding m_def by blast
  from act stop have ge: "m \<le> int k" by simp
  have "\<not> nat m < k"
  proof
    assume "nat m < k"
    with below have lt: "int (nat m) < m" by blast
    from m0 have "int (nat m) = m" by simp
    with lt show False by simp
  qed
  with ge m0 have "k = nat m" by linarith
  with run act show ?thesis by (simp add: m_def)
qed

lemma startedCmds_append: "startedCmds (a @ b) = startedCmds a @ startedCmds b"
  by (induction a rule: startedCmds.induct) simp_all

lemma startedCmds_sleeps: "startedCmds (replicate k (EvSleep p)) = []"
  by (induction k) simp_all

lemma filter_mount_sleeps: "filter isMountBucket (replicate k (EvSleep p)) = []"
  by (induction k) simp_all

lemma sandbox_startProcess_apply:
  "sandbox_startProcess sb cmd h = Some (Inr (startProcess sb (length h) cmd), h @ [EvStartProcess cmd])"
  by (simp add: sandbox_startProcess_def call_apply)

lemma getLogsOrEmpty_apply:
  "getLogsOrEmpty proc h =
     Some (Inr (case p_getLogs proc (length h) of Inl e \<Rightarrow> emptyLogs | Inr l \<Rightarrow> l), h @ [EvGetLogs])"
  by (simp add: getLogsOrEmpty_def getLogs_def catchE_def call_apply ret_apply split: sum.splits)

lemma takeWhile_append_rejected:
  "\<forall>x\<in>set b. \<not> P x \<Longrightarrow> takeWhile P (a @ b) = takeWhile P a"
  by (induction a) (auto simp: takeWhile_eq_Nil_iff intro: hd_in_set)

lemma split_ws_first_trim:
  "split_ws_first (trim s) = takeWhile (\<lambda>c. \<not> isSpace c) (dropWhile isSpace s)"
proof -
  define u where "u = dropWhile isSpace s"
  have "rev u = takeWhile isSpace (rev u) @ dropWhile isSpace (rev u)" by simp
  then have "rev (rev u) = rev (takeWhile isSpace (rev u) @ dropWhile isSpace (rev u))" by simp
  then have u: "u = rev (dropWhile isSpace (rev u)) @ rev (takeWhile isSpace (rev u))"
    by (simp del: takeWhile_dropWhile_id)
  have sp: "\<forall>x\<in>set (rev (takeWhile isSpace (rev u))). \<not> \<not> isSpace x"
    by (auto dest: set_takeWhileD)
  have "takeWhile (\<lambda>c. \<not> isSpace c) u =
        takeWhile (\<lambda>c. \<not> isSpace c) (rev (dropWhile isSpace (rev u)) @ rev (takeWhile isSpace (rev u)))"
    using u by simp
  also have "\<dots> = takeWhile (\<lambda>c. \<not> isSpace c) (rev (dropWhile isSpace (rev u)))"
    by (rule takeWhile_append_rejected[OF sp])
  finally show ?thesis by (simp add: split_ws_first_def trim_def u_def)
qed

lemma first_token:
  assumes "list_all isSpace ws" "tok \<noteq> []" "\<not> list_ex isSpace tok" "list_all isSpace (take 1 rest)"
  shows "split_ws_first (trim (ws @ tok @ rest)) = tok"
proof -
  have 1: "dropWhile isSpace (ws @ tok @ rest) = dropWhile isSpace (tok @ rest)"
    using assms(1) by (intro dropWhile_append2) (simp add: list_all_iff)
  have 2: "dropWhile isSpace (tok @ rest) = tok @ rest"
    using assms(2,3) by (cases tok) (simp_all add: list_ex_iff)
  have 3: "takeWhile (\<lambda>c. \<not> isSpace c) (tok @ rest) = tok @ takeWhile (\<lambda>c. \<not> isSpace c) rest"
    using assms(3) by (intro takeWhile_append2) (simp add: list_ex_iff)
  have 4: "takeWhile (\<lambda>c. \<not> isSpace c) rest = []"
    using assms(4) by (cases rest) simp_all
  show ?thesis by (simp add: split_ws_first_trim 1 2 3 4)
qed

lemma all_space_token:
  assumes "list_all isSpace out"
  shows "split_ws_first (trim out) = []"
proof -
  have d: "dropWhile isSpace out = []" using assms by (simp add: list_all_iff)
  show ?thesis unfolding split_ws_first_trim d by simp
qed

lemma probeMount_apply:
  "probeMount cfg sb h =
     (case waitForProcess (startProcess sb (length h) (probeCmd cfg)) 5000 200
             (h @ [EvStartProcess (probeCmd cfg)]) of
        None \<Rightarrow> None
      | Some (Inl e, h2) \<Rightarrow> Some (Inr Unresponsive, h2)
      | Some (Inr u, h2) \<Rightarrow>
          Some (Inr (classifyFsType (logsStdout (p_getLogs (startProcess sb (length h) (probeCmd cfg)) (length h2)))),
                h2 @ [EvGetLogs]))"
  by (simp add: probeMount_def bindE_def catchE_def sandbox_startProcess_apply getLogsOrEmpty_apply
        ret_apply logsStdout_def emptyLogs_def split: option.splits sum.splits prod.splits)

section \<open>Facts about the mount prober and the mount controller\<close>

lemma waitForProcess_total:
  assumes "p \<noteq> 0"
  shows "\<exists>r k. waitForProcess proc t p h = Some (r, h @ replicate k (EvSleep p))"
  using waitForProcess_nonzero[OF assms, of proc t h] by blast

lemma waitForProcess_settled:
  assumes "waitForProcess proc t p h = Some (Inr u, h')"
  shows "\<not> isActive (p_status proc (length h'))"
  using assms by (auto simp: waitForProcess_def split: option.splits if_splits)

lemma probeMount_total:
  "\<exists>p ev. probeMount cfg sb h = Some (Inr p, h @ ev) \<and>
          startedCmds ev = [probeCmd cfg] \<and> filter isMountBucket ev = []"
proof -
  have nz: "(200::int) \<noteq> 0" by simp
  from waitForProcess_total[OF nz, of "startProcess sb (length h) (probeCmd cfg)" 5000
         "h @ [EvStartProcess (probeCmd cfg)]"]
  obtain r k where w: "waitForProcess (startProcess sb (length h) (probeCmd cfg)) 5000 200
         (h @ [EvStartProcess (probeCmd cfg)]) =
         Some (r, (h @ [EvStartProcess (probeCmd cfg)]) @ replicate k (EvSleep 200))"
    by blast
  show ?thesis
  proof (cases r)
    case (Inl e)
    with w have "probeMount cfg sb h =
        Some (Inr Unresponsive, h @ (EvStartProcess (probeCmd cfg) # replicate k (EvSleep 200)))"
      by (simp add: probeMount_apply)
    then show ?thesis
      by (intro exI conjI) (assumption, simp_all add: startedCmds_sleeps filter_mount_sleeps)
  next
    case (Inr u)
    with w have "probeMount cfg sb h =
        Some (Inr (classifyFsType (logsStdout (p_getLogs (startProcess sb (length h) (probeCmd cfg))
                (length ((h @ [EvStartProcess (probeCmd cfg)]) @ replicate k (EvSleep 200)))))),
              h @ (EvStartProcess (probeCmd cfg) # replicate k (EvSleep 200) @ [EvGetLogs]))"
      by (simp add: probeMount_apply)
    then show ?thesis
      by (intro exI conjI) (assumption, simp_all add: startedCmds_sleeps startedCmds_append filter_mount_sleeps)
  qed
qed

lemma lazyUnmountR2_total:
  "\<exists>ev. lazyUnmountR2 cfg sb h = Some (Inr (), h @ EvStartProcess (unmountCmd cfg) # ev) \<and>
        startedCmds ev = [] \<and> filter isMountBucket ev = []"
proof -
  have nz: "(200::int) \<noteq> 0" by simp
  from waitForProcess_total[OF nz, of "startProcess sb (length h) (unmountCmd cfg)" 5000
         "h @ [EvStartProcess (unmountCmd cfg)]"]
  obtain r k where w: "waitForProcess (startProcess sb (length h) (unmountCmd cfg)) 5000 200
         (h @ [EvStartProcess (unmountCmd cfg)]) =
         Some (r, (h @ [EvStartProcess (unmountCmd cfg)]) @ replicate k (EvSleep 200))"
    by blast
  then have "lazyUnmountR2 cfg sb h =
       Some (Inr (), h @ EvStartProcess (unmountCmd cfg) # replicate k (EvSleep 200))"
    by (cases r) (simp_all add: lazyUnmountR2_def sandbox_startProcess_apply bindE_def catchE_def ret_apply)
  then show ?thesis
    by (intro exI conjI) (assumption, simp_all add: startedCmds_sleeps filter_mount_sleeps)
qed

lemma probeCmd_neq_unmountCmd: "probeCmd cfg \<noteq> unmountCmd cfg"
  by (simp add: probeCmd_def unmountCmd_def sq_def)

lemma classifyFsType_Mounted:
  "classifyFsType out = Mounted fsType \<Longrightarrow> startsWith fsType ''fuse''"
  by (auto simp: classifyFsType_def Let_def split: if_splits)

lemma probeMount_Mounted_fuse:
  "probeMount cfg sb h = Some (Inr (Mounted fsType), h') \<Longrightarrow> startsWith fsType ''fuse''"
  by (auto simp: probeMount_apply split: option.splits sum.splits prod.splits
           dest: classifyFsType_Mounted)

lemma sandbox_mountBucket_apply:
  "sandbox_mountBucket cfg sb env h = Some (mountBucket sb (length h), h @ [mountEvent cfg env])"
  by (simp add: sandbox_mountBucket_def call_apply)

lemma isMountBucket_mountEvent: "isMountBucket (mountEvent cfg env)"
  by (simp add: mountEvent_def)

lemma startedCmds_mountEvent: "startedCmds [mountEvent cfg env] = []"
  by (simp add: mountEvent_def)

lemma mountR2Storage_after_probe:
  assumes "configured env" and "probeMount cfg sb h = Some (Inr p0, h1)"
    and "\<forall>fsType. p0 \<noteq> Mounted fsType"
    and "(if p0 = Unresponsive then lazyUnmountR2 cfg sb else ret ()) h1 = Some (Inr (), h2)"
  shows "mountR2Storage cfg sb env h =
           (case mountBucket sb (length h2) of
              Inr u \<Rightarrow> Some (Inr True, h2 @ [mountEvent cfg env])
            | Inl err \<Rightarrow>
                if isMountPathInUseError (errorMessageOf err)
                then bindE (remountAfterConflict cfg sb env)
                       (\<lambda>early. case early of Some b \<Rightarrow> ret b | None \<Rightarrow> ret False)
                       (h2 @ [mountEvent cfg env])
                else Some (Inr False, h2 @ [mountEvent cfg env]))"
proof -
  have "mountR2Storage cfg sb env h =
          bindE (if p0 = Unresponsive then lazyUnmountR2 cfg sb else ret ()) (\<lambda>_.
            catchE (bindE (sandbox_mountBucket cfg sb env) (\<lambda>_. ret True)) (\<lambda>err.
              bindE
                (if isMountPathInUseError (errorMessageOf err)
                 then remountAfterConflict cfg sb env else ret None)
                (\<lambda>early. case early of Some b \<Rightarrow> ret b | None \<Rightarrow> ret False))) h1"
    using assms(1,2,3) by (cases p0) (simp_all add: mountR2Storage_def bindE_Inr)
  also have "\<dots> = catchE (bindE (sandbox_mountBucket cfg sb env) (\<lambda>_. ret True)) (\<lambda>err.
              bindE
                (if isMountPathInUseError (errorMessageOf err)
                 then remountAfterConflict cfg sb env else ret None)
                (\<lambda>early. case early of Some b \<Rightarrow> ret b | None \<Rightarrow> ret False)) h2"
    using assms(4) by (simp add: bindE_Inr)
  also have "\<dots> = (case mountBucket sb (length h2) of
              Inr u \<Rightarrow> Some (Inr True, h2 @ [mountEvent cfg env])
            | Inl err \<Rightarrow>
                if isMountPathInUseError (errorMessageOf err)
                then bindE (remountAfterConflict cfg sb env)
                       (\<lambda>early. case early of Some b \<Rightarrow> ret b | None \<Rightarrow> ret False)
                       (h2 @ [mountEvent cfg env])
                else Some (Inr False, h2 @ [mountEvent cfg env]))"
    by (simp add: catchE_def bindE_def sandbox_mountBucket_apply ret_apply split: sum.splits)
  finally show ?thesis .
qed

lemma remountAfterConflict_cases:
  assumes "probeMount cfg sb h3 = Some (Inr p1, h4)"
  shows "remountAfterConflict cfg sb env h3 =
           (case p1 of
              Mounted fsType \<Rightarrow> Some (Inr (Some True), h4)
            | NotMounted fsType \<Rightarrow> Some (Inr None, h4)
            | Unresponsive \<Rightarrow>
                (case lazyUnmountR2 cfg sb h4 of
                   Some (Inr u, h5) \<Rightarrow>
                     Some (Inr (if isl (mountBucket sb (length h5)) then None else Some True),
                           h5 @ [mountEvent cfg env])
                 | other \<Rightarrow> None))"
proof (cases p1)
  case Unresponsive
  from lazyUnmountR2_total[of cfg sb h4] obtain h5 where
    u: "lazyUnmountR2 cfg sb h4 = Some (Inr (), h5)" by blast
  show ?thesis
    using assms Unresponsive u
    by (simp add: remountAfterConflict_def bindE_Inr catchE_def bindE_def
          sandbox_mountBucket_apply ret_apply split: sum.splits)
qed (use assms in \<open>simp_all add: remountAfterConflict_def bindE_Inr ret_apply\<close>)

lemma remountAfterConflict_total:
  "\<exists>r ev. remountAfterConflict cfg sb env h3 = Some (Inr r, h3 @ ev)"
proof -
  from probeMount_total[of cfg sb h3] obtain p1 ev1 where
    p: "probeMount cfg sb h3 = Some (Inr p1, h3 @ ev1)" by blast
  from lazyUnmountR2_total[of cfg sb "h3 @ ev1"] obtain ev2 where
    u: "lazyUnmountR2 cfg sb (h3 @ ev1) = Some (Inr (), (h3 @ ev1) @ EvStartProcess (unmountCmd cfg) # ev2)"
    by blast
  show ?thesis
    using remountAfterConflict_cases[OF p, of env] u
    by (cases p1) auto
qed

lemma finish_mount_total:
  "\<exists>r ev. bindE (remountAfterConflict cfg sb env)
            (\<lambda>early. case early of Some b \<Rightarrow> ret b | None \<Rightarrow> ret False) h3 = Some (Inr r, h3 @ ev)"
proof -
  from remountAfterConflict_total[of cfg sb env h3] obtain r ev where
    "remountAfterConflict cfg sb env h3 = Some (Inr r, h3 @ ev)" by blast
  then show ?thesis
    by (cases r) (auto simp: bindE_Inr ret_apply)
qed

section \<open>Facts about the stages of the sync orchestrator\<close>

lemma checkForActiveRsync_apply:
  "checkForActiveRsync cfg sb h =
     Some (Inr (case listProcesses sb (length h) of
                  Inl err \<Rightarrow> \<lparr>hasActive = False, ac_details = None\<rparr>
                | Inr processes \<Rightarrow>
                    (case find (isActiveRsync cfg) processes of
                       None \<Rightarrow> \<lparr>hasActive = False, ac_details = None\<rparr>
                     | Some active \<Rightarrow>
                         \<lparr>hasActive = True,
                          ac_details = Some (''Skipped: another rsync appears to be running'' @
                            (if truthy (pi_id active) then '' (id='' @ the (pi_id active) @ '')'' else []) @
                            ''.'')\<rparr>)),
           h @ [EvListProcesses])"
  by (simp add: checkForActiveRsync_def catchE_def bindE_def call_apply ret_apply
           split: sum.splits option.splits)

lemma startedCmds_mountEvent_Cons: "startedCmds (mountEvent cfg env # ev) = startedCmds ev"
  by (simp add: mountEvent_def)

lemma mountR2Storage_total:
  "\<exists>r ev. mountR2Storage cfg sb env h = Some (Inr r, h @ ev) \<and>
          set (startedCmds ev) \<subseteq> {probeCmd cfg, unmountCmd cfg}"
proof (cases "configured env")
  case False
  then have "mountR2Storage cfg sb env h = Some (Inr False, h @ [])"
    by (simp add: mountR2Storage_def ret_apply)
  then show ?thesis by (intro exI conjI) (assumption, simp)
next
  case True
  from probeMount_total[of cfg sb h] obtain p0 ev0 where
    p0: "probeMount cfg sb h = Some (Inr p0, h @ ev0)" and s0: "startedCmds ev0 = [probeCmd cfg]"
    by blast
  show ?thesis
  proof (cases "\<exists>fsType. p0 = Mounted fsType")
    case True
    then obtain fsType where "p0 = Mounted fsType" by blast
    with p0 \<open>configured env\<close> have "mountR2Storage cfg sb env h = Some (Inr True, h @ ev0)"
      by (simp add: mountR2Storage_def bindE_Inr ret_apply)
    with s0 show ?thesis by (intro exI conjI) (assumption, simp)
  next
    case False
    then have notm: "\<forall>fsType. p0 \<noteq> Mounted fsType" by simp
    have "\<exists>ev1. (if p0 = Unresponsive then lazyUnmountR2 cfg sb else ret ()) (h @ ev0) =
                   Some (Inr (), (h @ ev0) @ ev1) \<and> set (startedCmds ev1) \<subseteq> {unmountCmd cfg}"
    proof (cases "p0 = Unresponsive")
      case True
      from lazyUnmountR2_total[of cfg sb "h @ ev0"] obtain ev where
        "lazyUnmountR2 cfg sb (h @ ev0) = Some (Inr (), (h @ ev0) @ EvStartProcess (unmountCmd cfg) # ev)"
        "startedCmds ev = []" by blast
      with True show ?thesis
        by (intro exI[of _ "EvStartProcess (unmountCmd cfg) # ev"]) simp
    next
      case False
      then show ?thesis by (intro exI[of _ "[]"]) (simp add: ret_apply)
    qed
    then obtain ev1 where
      pre: "(if p0 = Unresponsive then lazyUnmountR2 cfg sb else ret ()) (h @ ev0) =
                   Some (Inr (), (h @ ev0) @ ev1)"
      and s1: "set (startedCmds ev1) \<subseteq> {unmountCmd cfg}" by blast
    define h2 where "h2 = (h @ ev0) @ ev1"
    note run = mountR2Storage_after_probe[OF \<open>configured env\<close> p0 notm pre[folded h2_def]]
    have "\<exists>r ev2. mountR2Storage cfg sb env h = Some (Inr r, (h2 @ [mountEvent cfg env]) @ ev2) \<and>
                  set (startedCmds ev2) \<subseteq> {probeCmd cfg, unmountCmd cfg}"
    proof (cases "mountBucket sb (length h2)")
      case (Inr u)
      with run show ?thesis by (intro exI[of _ True] exI[of _ "[]"]) simp
    next
      case (Inl err)
      show ?thesis
      proof (cases "isMountPathInUseError (errorMessageOf err)")
        case False
        with run Inl show ?thesis by (intro exI[of _ False] exI[of _ "[]"]) simp
      next
        case True
        define h3 where "h3 = h2 @ [mountEvent cfg env]"
        from probeMount_total[of cfg sb h3] obtain p1 ev3 where
          p1: "probeMount cfg sb h3 = Some (Inr p1, h3 @ ev3)"
          and s3: "startedCmds ev3 = [probeCmd cfg]" by blast
        from lazyUnmountR2_total[of cfg sb "h3 @ ev3"] obtain ev4 where
          u: "lazyUnmountR2 cfg sb (h3 @ ev3) =
                Some (Inr (), (h3 @ ev3) @ EvStartProcess (unmountCmd cfg) # ev4)"
          and s4: "startedCmds ev4 = []" by blast
        have run': "mountR2Storage cfg sb env h =
                  bindE (remountAfterConflict cfg sb env)
                       (\<lambda>early. case early of Some b \<Rightarrow> ret b | None \<Rightarrow> ret False) h3"
          using run Inl True by (simp add: h3_def)
        show ?thesis
        proof (cases p1)
          case (Mounted fs)
          then have "mountR2Storage cfg sb env h = Some (Inr True, h3 @ ev3)"
            using run' remountAfterConflict_cases[OF p1, of env] by (simp add: bindE_Inr ret_apply)
          with s3 show ?thesis unfolding h3_def by (intro exI conjI) (assumption, simp)
        next
          case (NotMounted fs)
          then have "mountR2Storage cfg sb env h = Some (Inr False, h3 @ ev3)"
            using run' remountAfterConflict_cases[OF p1, of env] by (simp add: bindE_Inr ret_apply)
          with s3 show ?thesis unfolding h3_def by (intro exI conjI) (assumption, simp)
        next
          case Unresponsive
          then have "\<exists>r. mountR2Storage cfg sb env h =
              Some (Inr r, h3 @ (ev3 @ EvStartProcess (unmountCmd cfg) # ev4 @ [mountEvent cfg env]))"
            using run' remountAfterConflict_cases[OF p1, of env] u
            by (auto simp: bindE_Inr ret_apply)
          then obtain r where "mountR2Storage cfg sb env h =
              Some (Inr r, h3 @ (ev3 @ EvStartProcess (unmountCmd cfg) # ev4 @ [mountEvent cfg env]))"
            by blast
          then show ?thesis unfolding h3_def
            by (intro exI conjI) (assumption, simp add: startedCmds_append s3 s4 startedCmds_mountEvent)
        qed
      qed
    qed
    then obtain r ev2 where
      "mountR2Storage cfg sb env h = Some (Inr r, h @ (ev0 @ ev1 @ [mountEvent cfg env] @ ev2))"
      "set (startedCmds ev2) \<subseteq> {probeCmd cfg, unmountCmd cfg}"
      by (auto simp: h2_def)
    then show ?thesis using s0 s1
      by (intro exI conjI) (assumption, auto simp: startedCmds_append startedCmds_mountEvent_Cons)
  qed
qed

lemma pollVerifyLogs_total:
  "\<exists>logs ev. pollVerifyLogs proc n cur h = Some (Inr logs, h @ ev) \<and> startedCmds ev = []"
proof (induction n arbitrary: cur h)
  case 0
  show ?case by (intro exI[of _ cur] exI[of _ "[]"]) (simp add: ret_apply)
next
  case (Suc n)
  define logs where "logs = (case p_getLogs proc (length h) of Inl e \<Rightarrow> emptyLogs | Inr l \<Rightarrow> l)"
  have g: "getLogsOrEmpty proc h = Some (Inr logs, h @ [EvGetLogs])"
    by (simp add: getLogsOrEmpty_apply logs_def)
  show ?case
  proof (cases "str_includes (stdout logs) ''__OK__'' \<or> str_includes (stdout logs) ''__MISSING__''")
    case True
    then have "pollVerifyLogs proc (Suc n) cur h = Some (Inr logs, h @ [EvGetLogs])"
      using g by (simp add: bindE_Inr ret_apply)
    then show ?thesis by (intro exI conjI) (assumption, simp)
  next
    case False
    from Suc.IH[of logs "h @ [EvGetLogs, EvSleep 100]"] obtain l ev where
      ih: "pollVerifyLogs proc n logs (h @ [EvGetLogs, EvSleep 100]) =
             Some (Inr l, (h @ [EvGetLogs, EvSleep 100]) @ ev)" and s: "startedCmds ev = []"
      by blast
    have "pollVerifyLogs proc (Suc n) cur h = Some (Inr l, h @ (EvGetLogs # EvSleep 100 # ev))"
      using False g ih by (simp add: bindE_Inr call_apply)
    then show ?thesis using s by (intro exI conjI) (assumption, simp)
  qed
qed

lemma pollVerifyLogs_read:
  assumes "j < n"
    and "\<forall>i<j. \<not> verifyDecided (logsStdout (p_getLogs proc (length h + 2 * i)))"
    and "verifyDecided (logsStdout (p_getLogs proc (length h + 2 * j))) \<or> Suc j = n"
  shows "\<exists>logs. pollVerifyLogs proc n cur h =
           Some (Inr logs, h @ concat (replicate j [EvGetLogs, EvSleep 100]) @
                   (if verifyDecided (logsStdout (p_getLogs proc (length h + 2 * j)))
                    then [EvGetLogs] else [EvGetLogs, EvSleep 100])) \<and>
         stdout logs = logsStdout (p_getLogs proc (length h + 2 * j))"
  using assms
proof (induction n arbitrary: j cur h)
  case 0
  then show ?case by simp
next
  case (Suc n)
  define l0 where "l0 = (case p_getLogs proc (length h) of Inl e \<Rightarrow> emptyLogs | Inr l \<Rightarrow> l)"
  have g: "getLogsOrEmpty proc h = Some (Inr l0, h @ [EvGetLogs])"
    by (simp add: getLogsOrEmpty_apply l0_def)
  have s0: "stdout l0 = logsStdout (p_getLogs proc (length h))"
    by (simp add: l0_def logsStdout_def emptyLogs_def split: sum.splits)
  have dec: "(str_includes (stdout l0) ''__OK__'' \<or> str_includes (stdout l0) ''__MISSING__'') =
             verifyDecided (logsStdout (p_getLogs proc (length h)))"
    by (simp add: s0 verifyDecided_def)
  show ?case
  proof (cases j)
    case 0
    show ?thesis
    proof (cases "verifyDecided (logsStdout (p_getLogs proc (length h)))")
      case True
      then have "pollVerifyLogs proc (Suc n) cur h = Some (Inr l0, h @ [EvGetLogs])"
        using g dec by (simp add: bindE_Inr ret_apply)
      with True s0 \<open>j = 0\<close> show ?thesis by simp
    next
      case False
      with Suc.prems(3) \<open>j = 0\<close> have n: "n = 0" by simp
      have "pollVerifyLogs proc (Suc n) cur h = Some (Inr l0, h @ [EvGetLogs, EvSleep 100])"
        using g dec False n by (simp add: bindE_Inr call_apply ret_apply)
      with False s0 \<open>j = 0\<close> show ?thesis by simp
    qed
  next
    case (Suc j')
    with Suc.prems(2) have nd: "\<not> verifyDecided (logsStdout (p_getLogs proc (length h)))"
      by (auto dest: spec[of _ 0])
    have step: "pollVerifyLogs proc (Suc n) cur h =
                  pollVerifyLogs proc n l0 (h @ [EvGetLogs, EvSleep 100])"
      using g dec nd by (simp add: bindE_Inr call_apply)
    have len: "length (h @ [EvGetLogs, EvSleep 100]) + 2 * i = length h + 2 * Suc i" for i
      by simp
    have a1: "j' < n" using Suc.prems(1) Suc by simp
    have a2: "\<forall>i<j'. \<not> verifyDecided (logsStdout (p_getLogs proc
                 (length (h @ [EvGetLogs, EvSleep 100]) + 2 * i)))"
      unfolding len using Suc.prems(2) Suc by auto
    have a3: "verifyDecided (logsStdout (p_getLogs proc
                 (length (h @ [EvGetLogs, EvSleep 100]) + 2 * j'))) \<or> Suc j' = n"
      unfolding len using Suc.prems(3) Suc by simp
    from Suc.IH[OF a1 a2 a3, of l0] obtain logs where
      "pollVerifyLogs proc n l0 (h @ [EvGetLogs, EvSleep 100]) =
         Some (Inr logs, (h @ [EvGetLogs, EvSleep 100]) @ concat (replicate j' [EvGetLogs, EvSleep 100]) @
                   (if verifyDecided (logsStdout (p_getLogs proc
                          (length (h @ [EvGetLogs, EvSleep 100]) + 2 * j')))
                    then [EvGetLogs] else [EvGetLogs, EvSleep 100]))"
      "stdout logs = logsStdout (p_getLogs proc (length (h @ [EvGetLogs, EvSleep 100]) + 2 * j'))"
      by blast
    then show ?thesis unfolding len step Suc by (intro exI[of _ logs]) simp
  qed
qed

lemma readVerifyOutput_total:
  "\<exists>logs ev. readVerifyOutput cfg sb h =
       Some (Inr (startProcess sb (length h) (verifyCmd cfg), logs),
             h @ EvStartProcess (verifyCmd cfg) # ev) \<and> startedCmds ev = []"
proof -
  define proc where "proc = startProcess sb (length h) (verifyCmd cfg)"
  have nz: "(200::int) \<noteq> 0" by simp
  from waitForProcess_total[OF nz, of proc 10000 "h @ [EvStartProcess (verifyCmd cfg)]"]
  obtain r k where w: "waitForProcess proc 10000 200 (h @ [EvStartProcess (verifyCmd cfg)]) =
      Some (r, (h @ [EvStartProcess (verifyCmd cfg)]) @ replicate k (EvSleep 200))" by blast
  define h2 where "h2 = (h @ [EvStartProcess (verifyCmd cfg)]) @ replicate k (EvSleep 200)"
  have w': "catchE (waitForProcess proc 10000 200) (\<lambda>_. ret ()) (h @ [EvStartProcess (verifyCmd cfg)])
              = Some (Inr (), h2)"
    using w by (cases r) (simp_all add: catchE_def ret_apply h2_def)
  from pollVerifyLogs_total[of proc 50 emptyLogs h2] obtain logs ev where
    pl: "pollVerifyLogs proc 50 emptyLogs h2 = Some (Inr logs, h2 @ ev)" and s: "startedCmds ev = []"
    by blast
  have "readVerifyOutput cfg sb h =
          Some (Inr (proc, logs), h @ EvStartProcess (verifyCmd cfg) # (replicate k (EvSleep 200) @ ev))"
    using w' pl
    by (simp add: readVerifyOutput_def bindE_Inr sandbox_startProcess_apply ret_apply
          proc_def[symmetric] h2_def)
  then show ?thesis using s unfolding proc_def
    by (intro exI conjI) (assumption, simp add: startedCmds_append startedCmds_sleeps)
qed

lemma syncToR2_verify_apply:
  assumes "readVerifyOutput cfg sb h = Some (Inr (checkProc, logs), h')"
  shows "syncToR2_verify cfg sb h =
           Some (Inr (if str_includes (stdout logs) ''__MISSING__'' then Some missingConfigResult
                      else if str_includes (stdout logs) ''__WORKSPACE_REMOTE_NONEMPTY__'' \<and>
                              str_includes (stdout logs) ''__WORKSPACE_LOCAL_EMPTY__''
                        then Some emptyWorkspaceResult
                      else if \<not> str_includes (stdout logs) ''__OK__''
                        then Some \<lparr>success = False, lastSync = None,
                                   error = Some ''Failed to verify source files'',
                                   details = Some (errorDetails
                                     (verifyTimeoutError (p_status checkProc (length h')) logs))\<rparr>
                      else None), h')"
  using assms
  by (simp add: syncToR2_verify_def catchE_def bindE_def ret_apply throw_apply observe_apply)

lemma ensureRsyncSuccess_apply:
  "ensureRsyncSuccess proc which h =
     (if rsyncFailed (p_status proc (length h)) (p_exitCode proc (length h))
      then Some (Inr (Some (rsyncFailure
                   (case p_getLogs proc (length h) of Inl e \<Rightarrow> emptyLogs | Inr l \<Rightarrow> l)
                   which (p_exitCode proc (length h)))), h @ [EvGetLogs])
      else Some (Inr None, h))"
  by (simp add: ensureRsyncSuccess_def bindE_def observe_apply getLogsOrEmpty_apply ret_apply)

lemma bestEffortKill_total:
  "\<exists>ev. bestEffortKill proc h = Some (Inr (), h @ ev) \<and> startedCmds ev = []"
proof (cases "p_kill proc")
  case None
  then have "bestEffortKill proc h = Some (Inr (), h @ [])"
    by (simp add: bestEffortKill_def ret_apply)
  then show ?thesis by (intro exI conjI) (assumption, simp)
next
  case (Some kill)
  then have "bestEffortKill proc h = Some (Inr (), h @ [EvKill])"
    by (simp add: bestEffortKill_def catchE_def call_apply ret_apply split: sum.splits)
  then show ?thesis by (intro exI conjI) (assumption, simp)
qed

lemma passOutcome_of_wait:
  assumes "waitForProcess (startProcess sb (length h) cmd) DEFAULT_SYNC_TIMEOUT_MS 500
             (h @ [EvStartProcess cmd]) = Some (r, h2)"
  shows "passOutcome sb cmd h =
           (if isl r then PassTimedOut
            else if rsyncFailed (p_status (startProcess sb (length h) cmd) (length h2))
                                (p_exitCode (startProcess sb (length h) cmd) (length h2))
              then PassFailed else PassOk)"
    and "passEnd sb cmd h = h2"
  using assms by (cases r; simp add: passOutcome_def passEnd_def rsyncFailed_def)+

lemma rsyncFailure_fields:
  "\<not> success (rsyncFailure logs which exitCode)"
  "error (rsyncFailure logs which exitCode) = Some ''Sync failed''"
  "lastSync (rsyncFailure logs which exitCode) = None"
  by (simp_all add: rsyncFailure_def)

lemma copyPass_cases:
  "\<exists>ev. startedCmds ev = [] \<and>
     ((copyPass sb cmd which h =
         Some (Inr (startProcess sb (length h) cmd, None), h @ EvStartProcess cmd # ev) \<and>
       passOutcome sb cmd h = PassOk \<and> passEnd sb cmd h = h @ EvStartProcess cmd # ev) \<or>
      (\<exists>logs exitCode. copyPass sb cmd which h =
         Some (Inr (startProcess sb (length h) cmd, Some (rsyncFailure logs which exitCode)),
               h @ EvStartProcess cmd # ev) \<and>
       passOutcome sb cmd h = PassFailed) \<or>
      (\<exists>e. copyPass sb cmd which h = Some (Inl e, h @ EvStartProcess cmd # ev) \<and>
       passOutcome sb cmd h = PassTimedOut))"
proof -
  define proc where "proc = startProcess sb (length h) cmd"
  have nz: "(500::int) \<noteq> 0" by simp
  from waitForProcess_total[OF nz, of proc DEFAULT_SYNC_TIMEOUT_MS "h @ [EvStartProcess cmd]"]
  obtain r k where w: "waitForProcess proc DEFAULT_SYNC_TIMEOUT_MS 500 (h @ [EvStartProcess cmd]) =
      Some (r, (h @ [EvStartProcess cmd]) @ replicate k (EvSleep 500))" by blast
  define h2 where "h2 = (h @ [EvStartProcess cmd]) @ replicate k (EvSleep 500)"
  note out = passOutcome_of_wait[OF w[unfolded proc_def], folded proc_def h2_def]
  show ?thesis
  proof (cases r)
    case (Inl e)
    from bestEffortKill_total[of proc "h2 @ [EvGetLogs]"] obtain evk where
      kl: "bestEffortKill proc (h2 @ [EvGetLogs]) = Some (Inr (), (h2 @ [EvGetLogs]) @ evk)"
      and sk: "startedCmds evk = []" by blast
    have "copyPass sb cmd which h =
            Some (Inl e, h @ EvStartProcess cmd # (replicate k (EvSleep 500) @ [EvGetLogs] @ evk))"
      using w Inl kl
      by (simp add: copyPass_def bindE_def catchE_def sandbox_startProcess_apply
            getLogsOrEmpty_apply throw_apply proc_def[symmetric] h2_def)
    moreover have "passOutcome sb cmd h = PassTimedOut" using out Inl by simp
    ultimately show ?thesis using sk
      by (intro exI[of _ "replicate k (EvSleep 500) @ [EvGetLogs] @ evk"])
         (simp add: startedCmds_append startedCmds_sleeps)
  next
    case (Inr u)
    show ?thesis
    proof (cases "rsyncFailed (p_status proc (length h2)) (p_exitCode proc (length h2))")
      case True
      have "copyPass sb cmd which h =
              Some (Inr (proc, Some (rsyncFailure
                      (case p_getLogs proc (length h2) of Inl e \<Rightarrow> emptyLogs | Inr l \<Rightarrow> l)
                      which (p_exitCode proc (length h2)))),
                    h @ EvStartProcess cmd # (replicate k (EvSleep 500) @ [EvGetLogs]))"
        using w Inr True
        by (simp add: copyPass_def bindE_def catchE_def sandbox_startProcess_apply
              ensureRsyncSuccess_apply ret_apply proc_def[symmetric] h2_def)
      moreover have "passOutcome sb cmd h = PassFailed" using out Inr True by simp
      ultimately show ?thesis unfolding proc_def
        by (intro exI[of _ "replicate k (EvSleep 500) @ [EvGetLogs]"])
           (auto simp: startedCmds_append startedCmds_sleeps)
    next
      case False
      have "copyPass sb cmd which h =
              Some (Inr (proc, None), h @ EvStartProcess cmd # replicate k (EvSleep 500))"
        using w Inr False
        by (simp add: copyPass_def bindE_def catchE_def sandbox_startProcess_apply
              ensureRsyncSuccess_apply ret_apply proc_def[symmetric] h2_def)
      moreover have "passOutcome sb cmd h = PassOk" using out Inr False by simp
      moreover have "passEnd sb cmd h = h @ EvStartProcess cmd # replicate k (EvSleep 500)"
        using out(2) by (simp add: h2_def)
      ultimately show ?thesis unfolding proc_def
        by (intro exI[of _ "replicate k (EvSleep 500)"]) (simp add: startedCmds_sleeps)
    qed
  qed
qed

lemma getLogs_apply: "getLogs proc h = Some (p_getLogs proc (length h), h @ [EvGetLogs])"
  by (simp add: getLogs_def call_apply)

lemma diag_total:
  "\<exists>r ev. bindE (sandbox_startProcess sb (diagCmd cfg)) (\<lambda>diagProc.
           bindE (catchE (waitForProcess diagProc 5000 200) (\<lambda>_. ret ())) (\<lambda>_.
           bindE (getLogsOrEmpty diagProc) (\<lambda>diagLogs. ret (f diagLogs)))) h =
         Some (Inr (f r), h @ EvStartProcess (diagCmd cfg) # ev) \<and> startedCmds ev = []"
proof -
  define dp where "dp = startProcess sb (length h) (diagCmd cfg)"
  have nz: "(200::int) \<noteq> 0" by simp
  from waitForProcess_total[OF nz, of dp 5000 "h @ [EvStartProcess (diagCmd cfg)]"]
  obtain r k where w: "waitForProcess dp 5000 200 (h @ [EvStartProcess (diagCmd cfg)]) =
      Some (r, (h @ [EvStartProcess (diagCmd cfg)]) @ replicate k (EvSleep 200))" by blast
  define h2 where "h2 = (h @ [EvStartProcess (diagCmd cfg)]) @ replicate k (EvSleep 200)"
  have w': "catchE (waitForProcess dp 5000 200) (\<lambda>_. ret ()) (h @ [EvStartProcess (diagCmd cfg)])
              = Some (Inr (), h2)"
    using w by (cases r) (simp_all add: catchE_def ret_apply h2_def)
  have "bindE (sandbox_startProcess sb (diagCmd cfg)) (\<lambda>diagProc.
           bindE (catchE (waitForProcess diagProc 5000 200) (\<lambda>_. ret ())) (\<lambda>_.
           bindE (getLogsOrEmpty diagProc) (\<lambda>diagLogs. ret (f diagLogs)))) h =
         Some (Inr (f (case p_getLogs dp (length h2) of Inl e \<Rightarrow> emptyLogs | Inr l \<Rightarrow> l)),
               h @ EvStartProcess (diagCmd cfg) # (replicate k (EvSleep 200) @ [EvGetLogs]))"
    using w'
    by (simp add: bindE_Inr sandbox_startProcess_apply getLogsOrEmpty_apply ret_apply
          dp_def[symmetric] h2_def)
  then show ?thesis
    by (intro exI conjI) (assumption, simp add: startedCmds_append startedCmds_sleeps)
qed

lemma verifyMarker_cases:
  "\<exists>x ev. verifyMarker cfg sb proc h = Some (x, h @ EvStartProcess (readTimestampCmd cfg) # ev) \<and>
     set (startedCmds ev) \<subseteq> {diagCmd cfg} \<and>
     (\<forall>r. x = Inr r \<and> success r \<longrightarrow>
        (\<exists>ts k logs. r = \<lparr>success = True, lastSync = Some ts, error = None, details = None\<rparr> \<and>
           matchesDatePrefix ts \<and>
           ev = replicate k (EvSleep 500) @ [EvGetLogs] \<and>
           p_getLogs (startProcess sb (length h) (readTimestampCmd cfg)) (length h + 1 + k) = Inr logs \<and>
           ts = trim (stdout logs)))"
proof -
  define tp where "tp = startProcess sb (length h) (readTimestampCmd cfg)"
  have nz: "(500::int) \<noteq> 0" by simp
  from waitForProcess_total[OF nz, of tp 15000 "h @ [EvStartProcess (readTimestampCmd cfg)]"]
  obtain r k where w: "waitForProcess tp 15000 500 (h @ [EvStartProcess (readTimestampCmd cfg)]) =
      Some (r, (h @ [EvStartProcess (readTimestampCmd cfg)]) @ replicate k (EvSleep 500))" by blast
  define h2 where "h2 = (h @ [EvStartProcess (readTimestampCmd cfg)]) @ replicate k (EvSleep 500)"
  have len: "length h2 = length h + 1 + k" by (simp add: h2_def)
  show ?thesis
  proof (cases r)
    case (Inl e)
    then have "verifyMarker cfg sb proc h =
        Some (Inl e, h @ EvStartProcess (readTimestampCmd cfg) # replicate k (EvSleep 500))"
      using w by (simp add: verifyMarker_def bindE_def sandbox_startProcess_apply tp_def[symmetric])
    then show ?thesis
      by (intro exI conjI) (assumption, simp_all add: startedCmds_sleeps)
  next
    case (Inr u)
    then have step: "verifyMarker cfg sb proc h =
        bindE (getLogs tp) (\<lambda>timestampLogs.
       let out = trim (stdout timestampLogs);
           lastSync = (if out \<noteq> [] \<and> out \<noteq> ''__MISSING__'' then Some out else None)
       in
       if (case lastSync of None \<Rightarrow> False | Some ts \<Rightarrow> matchesDatePrefix ts)
       then ret \<lparr>success = True, lastSync = lastSync, error = None, details = None\<rparr>
       else
         bindE (getLogs proc) (\<lambda>logs.
         bindE (sandbox_startProcess sb (diagCmd cfg)) (\<lambda>diagProc.
         bindE (catchE (waitForProcess diagProc 5000 200) (\<lambda>_. ret ())) (\<lambda>_.
         bindE (getLogsOrEmpty diagProc) (\<lambda>diagLogs.
           ret \<lparr>success = False, lastSync = None, error = Some ''Sync failed'',
                details = Some (join_lines (filter (\<lambda>s. s \<noteq> [])
                  [or_else (stderr logs) (or_else (stdout logs) ''No timestamp file created''),
                   trim (stdout diagLogs), trim (stderr diagLogs)]))\<rparr>))))) h2"
      using w by (simp add: verifyMarker_def bindE_def sandbox_startProcess_apply tp_def[symmetric] h2_def)
    show ?thesis
    proof (cases "p_getLogs tp (length h2)")
      case (Inl e)
      then have "verifyMarker cfg sb proc h =
          Some (Inl e, h @ EvStartProcess (readTimestampCmd cfg) # (replicate k (EvSleep 500) @ [EvGetLogs]))"
        using step by (simp add: bindE_def getLogs_apply h2_def)
      then show ?thesis
        by (intro exI conjI) (assumption, simp_all add: startedCmds_append startedCmds_sleeps)
    next
      case (Inr tl)
      define out where "out = trim (stdout tl)"
      define h3 where "h3 = h2 @ [EvGetLogs]"
      have g: "getLogs tp h2 = Some (Inr tl, h3)" using Inr by (simp add: getLogs_apply h3_def)
      show ?thesis
      proof (cases "out \<noteq> [] \<and> out \<noteq> ''__MISSING__'' \<and> matchesDatePrefix out")
        case True
        then have "verifyMarker cfg sb proc h =
            Some (Inr \<lparr>success = True, lastSync = Some out, error = None, details = None\<rparr>,
                  h @ EvStartProcess (readTimestampCmd cfg) # (replicate k (EvSleep 500) @ [EvGetLogs]))"
          using step g by (simp add: bindE_Inr ret_apply out_def[symmetric] h3_def h2_def)
        moreover have "p_getLogs (startProcess sb (length h) (readTimestampCmd cfg)) (length h + 1 + k) = Inr tl"
          using Inr by (simp add: tp_def len)
        ultimately show ?thesis using True
          by (intro exI conjI) (assumption, auto simp: startedCmds_append startedCmds_sleeps out_def)
      next
        case False
        then have cond: "\<not> (case (if out \<noteq> [] \<and> out \<noteq> ''__MISSING__'' then Some out else None) of
                           None \<Rightarrow> False | Some ts \<Rightarrow> matchesDatePrefix ts)"
          by auto
        have step2: "verifyMarker cfg sb proc h =
                bindE (getLogs proc) (\<lambda>logs.
         bindE (sandbox_startProcess sb (diagCmd cfg)) (\<lambda>diagProc.
         bindE (catchE (waitForProcess diagProc 5000 200) (\<lambda>_. ret ())) (\<lambda>_.
         bindE (getLogsOrEmpty diagProc) (\<lambda>diagLogs.
           ret \<lparr>success = False, lastSync = None, error = Some ''Sync failed'',
                details = Some (join_lines (filter (\<lambda>s. s \<noteq> [])
                  [or_else (stderr logs) (or_else (stdout logs) ''No timestamp file created''),
                   trim (stdout diagLogs), trim (stderr diagLogs)]))\<rparr>)))) h3"
          using step g False by (auto simp: bindE_Inr out_def[symmetric] Let_def)
        show ?thesis
        proof (cases "p_getLogs proc (length h3)")
          case (Inl e)
          then have "verifyMarker cfg sb proc h =
            Some (Inl e, h @ EvStartProcess (readTimestampCmd cfg) #
                     (replicate k (EvSleep 500) @ [EvGetLogs, EvGetLogs]))"
            using step2 by (simp add: bindE_def getLogs_apply h3_def h2_def)
          then show ?thesis
            by (intro exI conjI) (assumption, simp_all add: startedCmds_append startedCmds_sleeps)
        next
          case (Inr logs)
          define h4 where "h4 = h3 @ [EvGetLogs]"
          have g2: "getLogs proc h3 = Some (Inr logs, h4)" using Inr by (simp add: getLogs_apply h4_def)
          define f where "f = (\<lambda>diagLogs :: logs.
              \<lparr>success = False, lastSync = None, error = Some ''Sync failed'',
                details = Some (join_lines (filter (\<lambda>s. s \<noteq> [])
                  [or_else (stderr logs) (or_else (stdout logs) ''No timestamp file created''),
                   trim (stdout diagLogs), trim (stderr diagLogs)]))\<rparr>)"
          from diag_total[of sb cfg f h4] obtain dl evd where
            d: "bindE (sandbox_startProcess sb (diagCmd cfg)) (\<lambda>diagProc.
                 bindE (catchE (waitForProcess diagProc 5000 200) (\<lambda>_. ret ())) (\<lambda>_.
                 bindE (getLogsOrEmpty diagProc) (\<lambda>diagLogs. ret (f diagLogs)))) h4 =
                Some (Inr (f dl), h4 @ EvStartProcess (diagCmd cfg) # evd)"
            and sd: "startedCmds evd = []" by blast
          have "verifyMarker cfg sb proc h =
                  Some (Inr (f dl), h @ EvStartProcess (readTimestampCmd cfg) #
                     (replicate k (EvSleep 500) @ [EvGetLogs, EvGetLogs] @ EvStartProcess (diagCmd cfg) # evd))"
            using step2 g2 d by (simp add: bindE_Inr f_def h4_def h3_def h2_def)
          moreover have "\<not> success (f dl)" by (simp add: f_def)
          ultimately show ?thesis using sd
            by (intro exI conjI) (assumption, auto simp: startedCmds_append startedCmds_sleeps)
        qed
      qed
    qed
  qed
qed

lemma stageOrder_distinct: "distinct (stageOrder cfg)"
  by (simp add: stageOrder_def syncOpenclawCmd_def syncWorkspaceCmd_def syncSkillsCmd_def
        writeTimestampCmd_def rsyncCommonFlags_def sq_def OPENCLAW_CONFIG_DIR_def
        OPENCLAW_WORKSPACE_DIR_def)

lemma other_cmds_not_stage:
  "probeCmd cfg \<notin> set (stageOrder cfg)"
  "unmountCmd cfg \<notin> set (stageOrder cfg)"
  "verifyCmd cfg \<notin> set (stageOrder cfg)"
  "readTimestampCmd cfg \<notin> set (stageOrder cfg)"
  "diagCmd cfg \<notin> set (stageOrder cfg)"
  by (simp_all add: stageOrder_def syncOpenclawCmd_def syncWorkspaceCmd_def syncSkillsCmd_def
        writeTimestampCmd_def probeCmd_def unmountCmd_def verifyCmd_def readTimestampCmd_def
        diagCmd_def sq_def)

lemma stage_cmds_in_order:
  "syncOpenclawCmd cfg \<in> set (stageOrder cfg)"
  "syncWorkspaceCmd cfg \<in> set (stageOrder cfg)"
  "syncSkillsCmd cfg \<in> set (stageOrder cfg)"
  "writeTimestampCmd cfg \<in> set (stageOrder cfg)"
  by (simp_all add: stageOrder_def)

lemma stageStarts_append: "stageStarts cfg (a @ b) = stageStarts cfg a @ stageStarts cfg b"
  by (simp add: stageStarts_def startedCmds_append)

lemma stageStarts_Nil: "stageStarts cfg [] = []"
  by (simp add: stageStarts_def)

lemma stageStarts_start:
  "stageStarts cfg (EvStartProcess c # ev) =
     (if c \<in> set (stageOrder cfg) then c # stageStarts cfg ev else stageStarts cfg ev)"
  by (simp add: stageStarts_def)

lemma stageStarts_quiet: "startedCmds ev = [] \<Longrightarrow> stageStarts cfg ev = []"
  by (simp add: stageStarts_def)

lemma stageStarts_others:
  "set (startedCmds ev) \<subseteq> S \<Longrightarrow> \<forall>c\<in>S. c \<notin> set (stageOrder cfg) \<Longrightarrow> stageStarts cfg ev = []"
  by (auto simp: stageStarts_def filter_empty_conv)

lemma markerReadBack_mono:
  assumes "markerReadBack cfg sb (h @ e) hf r"
  shows "markerReadBack cfg sb h hf r"
proof -
  from assms obtain ts ev kw k logs where
    "r = \<lparr>success = True, lastSync = Some ts, error = None, details = None\<rparr>"
    "matchesDatePrefix ts"
    "hf = (h @ e) @ ev @ EvStartProcess (writeTimestampCmd cfg) # replicate kw (EvSleep 500) @
               EvStartProcess (readTimestampCmd cfg) # replicate k (EvSleep 500) @ [EvGetLogs]"
    "\<not> isActive (p_status (startProcess sb (length ((h @ e) @ ev)) (writeTimestampCmd cfg))
                      (length ((h @ e) @ ev) + 1 + kw))"
    "p_getLogs (startProcess sb (length ((h @ e) @ ev) + 1 + kw) (readTimestampCmd cfg))
          (length ((h @ e) @ ev) + 1 + kw + 1 + k) = Inr logs"
    "ts = trim (stdout logs)"
    unfolding markerReadBack_def by blast
  then show ?thesis
    unfolding markerReadBack_def
    by (intro exI[of _ ts] exI[of _ "e @ ev"] exI[of _ kw] exI[of _ k] exI[of _ logs]) simp
qed

lemma writeAndVerifyMarker_cases:
  "\<exists>x ev. writeAndVerifyMarker cfg sb p h = Some (x, h @ ev) \<and>
     stageStarts cfg ev = [writeTimestampCmd cfg] \<and>
     (\<forall>r. x = Inr r \<and> success r \<longrightarrow> markerReadBack cfg sb h (h @ ev) r)"
proof -
  define wp where "wp = startProcess sb (length h) (writeTimestampCmd cfg)"
  have nz: "(500::int) \<noteq> 0" by simp
  from waitForProcess_total[OF nz, of wp 15000 "h @ [EvStartProcess (writeTimestampCmd cfg)]"]
  obtain r k where w: "waitForProcess wp 15000 500 (h @ [EvStartProcess (writeTimestampCmd cfg)]) =
      Some (r, (h @ [EvStartProcess (writeTimestampCmd cfg)]) @ replicate k (EvSleep 500))" by blast
  define ev5 where "ev5 = EvStartProcess (writeTimestampCmd cfg) # replicate k (EvSleep 500)"
  have w5: "waitForProcess wp 15000 500 (h @ [EvStartProcess (writeTimestampCmd cfg)]) = Some (r, h @ ev5)"
    using w by (simp add: ev5_def)
  have s5: "stageStarts cfg ev5 = [writeTimestampCmd cfg]"
    by (simp add: ev5_def stageStarts_start stage_cmds_in_order stageStarts_quiet startedCmds_sleeps)
  have len5: "length (h @ ev5) = length h + 1 + k" by (simp add: ev5_def)
  show ?thesis
  proof (cases r)
    case (Inl e)
    then have "writeAndVerifyMarker cfg sb p h = Some (Inl e, h @ ev5)"
      using w5 by (simp add: writeAndVerifyMarker_def bindE_def sandbox_startProcess_apply wp_def[symmetric])
    with s5 show ?thesis by (intro exI conjI) (assumption, simp_all)
  next
    case (Inr u)
    then have run: "writeAndVerifyMarker cfg sb p h = verifyMarker cfg sb p (h @ ev5)"
      using w5 by (simp add: writeAndVerifyMarker_def bindE_def sandbox_startProcess_apply wp_def[symmetric])
    from verifyMarker_cases[of cfg sb p "h @ ev5"] obtain x ev where
      v: "verifyMarker cfg sb p (h @ ev5) =
            Some (x, (h @ ev5) @ EvStartProcess (readTimestampCmd cfg) # ev)"
      and sv: "set (startedCmds ev) \<subseteq> {diagCmd cfg}"
      and ok: "\<forall>r. x = Inr r \<and> success r \<longrightarrow>
        (\<exists>ts k logs. r = \<lparr>success = True, lastSync = Some ts, error = None, details = None\<rparr> \<and>
           matchesDatePrefix ts \<and>
           ev = replicate k (EvSleep 500) @ [EvGetLogs] \<and>
           p_getLogs (startProcess sb (length (h @ ev5)) (readTimestampCmd cfg)) (length (h @ ev5) + 1 + k) = Inr logs \<and>
           ts = trim (stdout logs))"
      by blast
    have settled: "\<not> isActive (p_status wp (length h + 1 + k))"
      using waitForProcess_settled[OF w5[unfolded Inr]] len5 by simp
    have 1: "writeAndVerifyMarker cfg sb p h =
               Some (x, h @ (ev5 @ EvStartProcess (readTimestampCmd cfg) # ev))"
      using run v by simp
    have 2: "stageStarts cfg (ev5 @ EvStartProcess (readTimestampCmd cfg) # ev) = [writeTimestampCmd cfg]"
      using s5 stageStarts_others[OF sv, of cfg]
      by (simp add: stageStarts_append stageStarts_start other_cmds_not_stage)
    have 3: "\<forall>r. x = Inr r \<and> success r \<longrightarrow>
               markerReadBack cfg sb h (h @ (ev5 @ EvStartProcess (readTimestampCmd cfg) # ev)) r"
    proof (intro allI impI)
      fix r assume "x = Inr r \<and> success r"
      with ok obtain ts k' logs where
        "r = \<lparr>success = True, lastSync = Some ts, error = None, details = None\<rparr>"
        "matchesDatePrefix ts" "ev = replicate k' (EvSleep 500) @ [EvGetLogs]"
        "p_getLogs (startProcess sb (length (h @ ev5)) (readTimestampCmd cfg)) (length (h @ ev5) + 1 + k') = Inr logs"
        "ts = trim (stdout logs)" by blast
      then show "markerReadBack cfg sb h (h @ (ev5 @ EvStartProcess (readTimestampCmd cfg) # ev)) r"
        unfolding markerReadBack_def using settled len5
        by (intro exI[of _ ts] exI[of _ "[]"] exI[of _ k] exI[of _ k'] exI[of _ logs])
           (simp add: ev5_def wp_def)
    qed
    from 1 2 3 show ?thesis by blast
  qed
qed

lemma stage_then:
  assumes K: "\<And>p h'. \<exists>x ev. K p h' = Some (x, h' @ ev) \<and> stageStarts cfg ev \<in> A \<and>
               (\<forall>r. x = Inr r \<and> success r \<longrightarrow>
                  stageStarts cfg ev = full \<and> markerReadBack cfg sb h' (h' @ ev) r)"
    and cmd: "cmd \<in> set (stageOrder cfg)"
  shows "\<exists>x ev. bindE (copyPass sb cmd which)
                  (\<lambda>(proc, res). case res of Some r \<Rightarrow> ret r | None \<Rightarrow> K proc) h = Some (x, h @ ev) \<and>
           stageStarts cfg ev \<in> insert [cmd] ((#) cmd ` A) \<and>
           (\<forall>r. x = Inr r \<and> success r \<longrightarrow>
              stageStarts cfg ev = cmd # full \<and> markerReadBack cfg sb h (h @ ev) r)"
proof -
  define proc where "proc = startProcess sb (length h) cmd"
  from copyPass_cases[of sb cmd which h] obtain ev0 where
    q: "startedCmds ev0 = []" and
    c: "(copyPass sb cmd which h = Some (Inr (proc, None), h @ EvStartProcess cmd # ev0)) \<or>
        (\<exists>logs exitCode. copyPass sb cmd which h =
           Some (Inr (proc, Some (rsyncFailure logs which exitCode)), h @ EvStartProcess cmd # ev0)) \<or>
        (\<exists>e. copyPass sb cmd which h = Some (Inl e, h @ EvStartProcess cmd # ev0))"
    unfolding proc_def by blast
  have s0: "stageStarts cfg (EvStartProcess cmd # ev0) = [cmd]"
    using cmd q by (simp add: stageStarts_start stageStarts_quiet)
  from c show ?thesis
  proof (elim disjE conjE exE)
    assume pass: "copyPass sb cmd which h = Some (Inr (proc, None), h @ EvStartProcess cmd # ev0)"
    from K[of proc "h @ EvStartProcess cmd # ev0"] obtain x ev1 where
      k: "K proc (h @ EvStartProcess cmd # ev0) = Some (x, (h @ EvStartProcess cmd # ev0) @ ev1)"
      and a: "stageStarts cfg ev1 \<in> A"
      and ok: "\<forall>r. x = Inr r \<and> success r \<longrightarrow> stageStarts cfg ev1 = full \<and>
                 markerReadBack cfg sb (h @ EvStartProcess cmd # ev0)
                   ((h @ EvStartProcess cmd # ev0) @ ev1) r"
      by blast
    have 1: "bindE (copyPass sb cmd which)
                  (\<lambda>(proc, res). case res of Some r \<Rightarrow> ret r | None \<Rightarrow> K proc) h =
             Some (x, h @ ((EvStartProcess cmd # ev0) @ ev1))"
      using pass k by (simp add: bindE_Inr)
    have 2: "stageStarts cfg ((EvStartProcess cmd # ev0) @ ev1) = cmd # stageStarts cfg ev1"
      using s0 by (simp only: stageStarts_append) simp
    have 3: "\<forall>r. x = Inr r \<and> success r \<longrightarrow>
              stageStarts cfg ((EvStartProcess cmd # ev0) @ ev1) = cmd # full \<and>
              markerReadBack cfg sb h (h @ ((EvStartProcess cmd # ev0) @ ev1)) r"
    proof (intro allI impI)
      fix r assume xr: "x = Inr r \<and> success r"
      with ok have f: "stageStarts cfg ev1 = full"
        and m: "markerReadBack cfg sb (h @ EvStartProcess cmd # ev0)
                   ((h @ EvStartProcess cmd # ev0) @ ev1) r" by blast+
      from m have "markerReadBack cfg sb h ((h @ EvStartProcess cmd # ev0) @ ev1) r"
        by (rule markerReadBack_mono)
      with f 2 show "stageStarts cfg ((EvStartProcess cmd # ev0) @ ev1) = cmd # full \<and>
              markerReadBack cfg sb h (h @ ((EvStartProcess cmd # ev0) @ ev1)) r"
        by simp
    qed
    from 1 2 3 a show ?thesis by (intro exI conjI) (assumption, simp, assumption)
  next
    fix logs exitCode
    assume "copyPass sb cmd which h =
           Some (Inr (proc, Some (rsyncFailure logs which exitCode)), h @ EvStartProcess cmd # ev0)"
    then have "bindE (copyPass sb cmd which)
                  (\<lambda>(proc, res). case res of Some r \<Rightarrow> ret r | None \<Rightarrow> K proc) h =
             Some (Inr (rsyncFailure logs which exitCode), h @ (EvStartProcess cmd # ev0))"
      by (simp add: bindE_Inr ret_apply)
    with s0 show ?thesis
      by (intro exI conjI) (assumption, simp_all add: rsyncFailure_fields)
  next
    fix e
    assume "copyPass sb cmd which h = Some (Inl e, h @ EvStartProcess cmd # ev0)"
    then have "bindE (copyPass sb cmd which)
                  (\<lambda>(proc, res). case res of Some r \<Rightarrow> ret r | None \<Rightarrow> K proc) h =
             Some (Inl e, h @ (EvStartProcess cmd # ev0))"
      by (simp add: bindE_Inl)
    with s0 show ?thesis
      by (intro exI conjI) (assumption, simp_all)
  qed
qed

lemma replicateSkills_cases:
  "\<exists>x ev. replicateSkills cfg sb p h = Some (x, h @ ev) \<and>
     stageStarts cfg ev \<in> {[syncSkillsCmd cfg], [syncSkillsCmd cfg, writeTimestampCmd cfg]} \<and>
     (\<forall>r. x = Inr r \<and> success r \<longrightarrow>
        stageStarts cfg ev = [syncSkillsCmd cfg, writeTimestampCmd cfg] \<and>
        markerReadBack cfg sb h (h @ ev) r)"
proof -
  have K: "\<And>q h'. \<exists>x ev. (\<lambda>_. writeAndVerifyMarker cfg sb p) q h' = Some (x, h' @ ev) \<and>
               stageStarts cfg ev \<in> {[writeTimestampCmd cfg]} \<and>
               (\<forall>r. x = Inr r \<and> success r \<longrightarrow>
                  stageStarts cfg ev = [writeTimestampCmd cfg] \<and> markerReadBack cfg sb h' (h' @ ev) r)"
    using writeAndVerifyMarker_cases[of cfg sb p] by (simp, blast)
  from stage_then[where K="\<lambda>_. writeAndVerifyMarker cfg sb p", OF K stage_cmds_in_order(3),
                  of "''skills''" h]
  show ?thesis by (simp add: replicateSkills_def)
qed

lemma replicateWorkspace_cases:
  "\<exists>x ev. replicateWorkspace cfg sb p h = Some (x, h @ ev) \<and>
     stageStarts cfg ev \<in> {[syncWorkspaceCmd cfg], [syncWorkspaceCmd cfg, syncSkillsCmd cfg],
                           [syncWorkspaceCmd cfg, syncSkillsCmd cfg, writeTimestampCmd cfg]} \<and>
     (\<forall>r. x = Inr r \<and> success r \<longrightarrow>
        stageStarts cfg ev = [syncWorkspaceCmd cfg, syncSkillsCmd cfg, writeTimestampCmd cfg] \<and>
        markerReadBack cfg sb h (h @ ev) r)"
proof -
  have K: "\<And>q h'. \<exists>x ev. (\<lambda>_. replicateSkills cfg sb p) q h' = Some (x, h' @ ev) \<and>
               stageStarts cfg ev \<in> {[syncSkillsCmd cfg], [syncSkillsCmd cfg, writeTimestampCmd cfg]} \<and>
               (\<forall>r. x = Inr r \<and> success r \<longrightarrow>
                  stageStarts cfg ev = [syncSkillsCmd cfg, writeTimestampCmd cfg] \<and>
                  markerReadBack cfg sb h' (h' @ ev) r)"
    using replicateSkills_cases[of cfg sb p] by simp
  from stage_then[where K="\<lambda>_. replicateSkills cfg sb p", OF K stage_cmds_in_order(2),
                  of "''workspace''" h]
  show ?thesis by (simp add: replicateWorkspace_def insert_commute)
qed

lemma replicateOpenclaw_cases:
  "\<exists>x ev. replicateOpenclaw cfg sb h = Some (x, h @ ev) \<and>
     stageStarts cfg ev \<in> {[syncOpenclawCmd cfg], [syncOpenclawCmd cfg, syncWorkspaceCmd cfg],
                           [syncOpenclawCmd cfg, syncWorkspaceCmd cfg, syncSkillsCmd cfg],
                           stageOrder cfg} \<and>
     (\<forall>r. x = Inr r \<and> success r \<longrightarrow>
        stageStarts cfg ev = stageOrder cfg \<and> markerReadBack cfg sb h (h @ ev) r)"
proof -
  have K: "\<And>p h'. \<exists>x ev. replicateWorkspace cfg sb p h' = Some (x, h' @ ev) \<and>
               stageStarts cfg ev \<in> {[syncWorkspaceCmd cfg], [syncWorkspaceCmd cfg, syncSkillsCmd cfg],
                           [syncWorkspaceCmd cfg, syncSkillsCmd cfg, writeTimestampCmd cfg]} \<and>
               (\<forall>r. x = Inr r \<and> success r \<longrightarrow>
                  stageStarts cfg ev = [syncWorkspaceCmd cfg, syncSkillsCmd cfg, writeTimestampCmd cfg] \<and>
                  markerReadBack cfg sb h' (h' @ ev) r)"
    using replicateWorkspace_cases[of cfg sb] by simp
  from stage_then[where K="replicateWorkspace cfg sb", OF K stage_cmds_in_order(1),
                  of "''openclaw''" h]
  show ?thesis by (simp add: replicateOpenclaw_def stageOrder_def insert_commute)
qed

lemma syncToR2_replicate_unfold:
  "syncToR2_replicate cfg sb =
     catchE (replicateOpenclaw cfg sb)
       (\<lambda>err. ret \<lparr>success = False, lastSync = None, error = Some ''Sync error'',
                    details = Some (errorDetails err)\<rparr>)"
  unfolding syncToR2_replicate_def replicateOpenclaw_def replicateWorkspace_def
    replicateSkills_def by (rule refl)

lemma syncToR2_replicate_cases:
  "\<exists>r ev. syncToR2_replicate cfg sb h = Some (Inr r, h @ ev) \<and>
     prefix (stageStarts cfg ev) (stageOrder cfg) \<and>
     (success r \<longrightarrow> stageStarts cfg ev = stageOrder cfg \<and> markerReadBack cfg sb h (h @ ev) r)"
proof -
  from replicateOpenclaw_cases[of cfg sb h] obtain x ev where
    run: "replicateOpenclaw cfg sb h = Some (x, h @ ev)"
    and st: "stageStarts cfg ev \<in> {[syncOpenclawCmd cfg], [syncOpenclawCmd cfg, syncWorkspaceCmd cfg],
                           [syncOpenclawCmd cfg, syncWorkspaceCmd cfg, syncSkillsCmd cfg],
                           stageOrder cfg}"
    and ok: "\<forall>r. x = Inr r \<and> success r \<longrightarrow>
        stageStarts cfg ev = stageOrder cfg \<and> markerReadBack cfg sb h (h @ ev) r"
    by blast
  have pre: "prefix (stageStarts cfg ev) (stageOrder cfg)"
    using st by (auto simp: stageOrder_def)
  show ?thesis
  proof (cases x)
    case (Inl e)
    with run have "syncToR2_replicate cfg sb h =
        Some (Inr \<lparr>success = False, lastSync = None, error = Some ''Sync error'',
                    details = Some (errorDetails e)\<rparr>, h @ ev)"
      by (simp add: syncToR2_replicate_unfold catchE_Inl ret_apply)
    with pre show ?thesis by (intro exI conjI) (assumption, simp_all)
  next
    case (Inr r)
    with run have "syncToR2_replicate cfg sb h = Some (Inr r, h @ ev)"
      by (simp add: syncToR2_replicate_unfold catchE_Inr)
    with pre ok Inr show ?thesis by (intro exI conjI) (assumption, simp_all)
  qed
qed

lemma readTimestampCmd_not_preflight:
  "readTimestampCmd cfg \<noteq> probeCmd cfg"
  "readTimestampCmd cfg \<noteq> unmountCmd cfg"
  "readTimestampCmd cfg \<noteq> verifyCmd cfg"
  by (simp_all add: readTimestampCmd_def probeCmd_def unmountCmd_def verifyCmd_def sq_def)

lemma hasActive_check:
  assumes "hasActive (case listProcesses sb n of
                  Inl err \<Rightarrow> \<lparr>hasActive = False, ac_details = None\<rparr>
                | Inr processes \<Rightarrow>
                    (case find (isActiveRsync cfg) processes of
                       None \<Rightarrow> \<lparr>hasActive = False, ac_details = None\<rparr>
                     | Some active \<Rightarrow> \<lparr>hasActive = True, ac_details = d active\<rparr>))"
  shows "\<exists>ps active. listProcesses sb n = Inr ps \<and> find (isActiveRsync cfg) ps = Some active \<and>
           ac_details (case listProcesses sb n of
                  Inl err \<Rightarrow> \<lparr>hasActive = False, ac_details = None\<rparr>
                | Inr processes \<Rightarrow>
                    (case find (isActiveRsync cfg) processes of
                       None \<Rightarrow> \<lparr>hasActive = False, ac_details = None\<rparr>
                     | Some active \<Rightarrow> \<lparr>hasActive = True, ac_details = d active\<rparr>)) = d active"
  using assms by (auto split: sum.splits option.splits)

lemma syncToR2_preflight_cases:
  "\<exists>x ev. syncToR2_preflight cfg sb env h = Some (Inr x, h @ ev) \<and>
     set (startedCmds ev) \<subseteq> {probeCmd cfg, unmountCmd cfg, verifyCmd cfg} \<and>
     (\<forall>r. x = Some r \<and> success r \<longrightarrow>
        (\<exists>ev1 ps active. ev = ev1 @ [EvListProcesses] \<and>
           listProcesses sb (length (h @ ev1)) = Inr ps \<and>
           find (isActiveRsync cfg) ps = Some active \<and>
           r = \<lparr>success = True, lastSync = None, error = None,
                details = Some (''Skipped: another rsync appears to be running'' @
                  (if truthy (pi_id active) then '' (id='' @ the (pi_id active) @ '')'' else []) @
                  ''.'')\<rparr>))"
proof (cases "configured env")
  case False
  then have "syncToR2_preflight cfg sb env h =
      Some (Inr (Some \<lparr>success = False, lastSync = None,
                      error = Some ''R2 storage is not configured'', details = None\<rparr>), h @ [])"
    by (simp add: syncToR2_preflight_def ret_apply)
  then show ?thesis by (intro exI conjI) (assumption, simp_all)
next
  case True
  from mountR2Storage_total[of cfg sb env h] obtain mounted ev0 where
    m: "mountR2Storage cfg sb env h = Some (Inr mounted, h @ ev0)"
    and s0: "set (startedCmds ev0) \<subseteq> {probeCmd cfg, unmountCmd cfg}" by blast
  show ?thesis
  proof (cases mounted)
    case False
    with True m have "syncToR2_preflight cfg sb env h =
      Some (Inr (Some \<lparr>success = False, lastSync = None,
                      error = Some ''Failed to mount R2 storage'', details = None\<rparr>), h @ ev0)"
      by (simp add: syncToR2_preflight_def bindE_Inr ret_apply)
    with s0 show ?thesis by (intro exI conjI) (assumption, auto)
  next
    case mounted: True
    define a where "a = (case listProcesses sb (length (h @ ev0)) of
                  Inl err \<Rightarrow> \<lparr>hasActive = False, ac_details = None\<rparr>
                | Inr processes \<Rightarrow>
                    (case find (isActiveRsync cfg) processes of
                       None \<Rightarrow> \<lparr>hasActive = False, ac_details = None\<rparr>
                     | Some active \<Rightarrow>
                         \<lparr>hasActive = True,
                          ac_details = Some (''Skipped: another rsync appears to be running'' @
                            (if truthy (pi_id active) then '' (id='' @ the (pi_id active) @ '')'' else []) @
                            ''.'')\<rparr>))"
    have c: "checkForActiveRsync cfg sb (h @ ev0) = Some (Inr a, (h @ ev0) @ [EvListProcesses])"
      by (simp add: checkForActiveRsync_apply a_def)
    have run: "syncToR2_preflight cfg sb env h =
                 (if hasActive a
                  then Some (Inr (Some \<lparr>success = True, lastSync = None, error = None,
                              details = ac_details a\<rparr>), (h @ ev0) @ [EvListProcesses])
                  else syncToR2_verify cfg sb ((h @ ev0) @ [EvListProcesses]))"
      using True m mounted c by (simp add: syncToR2_preflight_def bindE_Inr ret_apply)
    show ?thesis
    proof (cases "hasActive a")
      case True
      then have "\<exists>ps active. listProcesses sb (length (h @ ev0)) = Inr ps \<and>
                   find (isActiveRsync cfg) ps = Some active \<and>
                   ac_details a = Some (''Skipped: another rsync appears to be running'' @
                            (if truthy (pi_id active) then '' (id='' @ the (pi_id active) @ '')'' else []) @
                            ''.'')"
        unfolding a_def by (rule hasActive_check)
      then obtain ps active where
        lp: "listProcesses sb (length (h @ ev0)) = Inr ps"
        and fa: "find (isActiveRsync cfg) ps = Some active"
        and de: "ac_details a = Some (''Skipped: another rsync appears to be running'' @
                            (if truthy (pi_id active) then '' (id='' @ the (pi_id active) @ '')'' else []) @
                            ''.'')" by blast
      have "syncToR2_preflight cfg sb env h =
          Some (Inr (Some \<lparr>success = True, lastSync = None, error = None,
                              details = ac_details a\<rparr>), h @ (ev0 @ [EvListProcesses]))"
        using run True by simp
      moreover have "set (startedCmds (ev0 @ [EvListProcesses])) \<subseteq>
                       {probeCmd cfg, unmountCmd cfg, verifyCmd cfg}"
        using s0 by (auto simp: startedCmds_append)
      moreover have "\<exists>ev1 ps active. ev0 @ [EvListProcesses] = ev1 @ [EvListProcesses] \<and>
           listProcesses sb (length (h @ ev1)) = Inr ps \<and>
           find (isActiveRsync cfg) ps = Some active \<and>
           \<lparr>success = True, lastSync = None, error = None, details = ac_details a\<rparr> =
             \<lparr>success = True, lastSync = None, error = None,
                details = Some (''Skipped: another rsync appears to be running'' @
                  (if truthy (pi_id active) then '' (id='' @ the (pi_id active) @ '')'' else []) @
                  ''.'')\<rparr>"
        using lp fa de by (intro exI[of _ ev0] exI[of _ ps] exI[of _ active]) simp
      ultimately show ?thesis by (intro exI conjI) (assumption, assumption, auto)
    next
      case False
      define h2 where "h2 = (h @ ev0) @ [EvListProcesses]"
      from readVerifyOutput_total[of cfg sb h2] obtain logs ev3 where
        rv: "readVerifyOutput cfg sb h2 =
               Some (Inr (startProcess sb (length h2) (verifyCmd cfg), logs),
                     h2 @ EvStartProcess (verifyCmd cfg) # ev3)"
        and s3: "startedCmds ev3 = []" by blast
      define x where "x = (if str_includes (stdout logs) ''__MISSING__'' then Some missingConfigResult
                      else if str_includes (stdout logs) ''__WORKSPACE_REMOTE_NONEMPTY__'' \<and>
                              str_includes (stdout logs) ''__WORKSPACE_LOCAL_EMPTY__''
                        then Some emptyWorkspaceResult
                      else if \<not> str_includes (stdout logs) ''__OK__''
                        then Some \<lparr>success = False, lastSync = None,
                                   error = Some ''Failed to verify source files'',
                                   details = Some (errorDetails
                                     (verifyTimeoutError (p_status (startProcess sb (length h2) (verifyCmd cfg))
                                        (length (h2 @ EvStartProcess (verifyCmd cfg) # ev3))) logs))\<rparr>
                      else None)"
      have "syncToR2_preflight cfg sb env h =
              Some (Inr x, h @ (ev0 @ [EvListProcesses] @ EvStartProcess (verifyCmd cfg) # ev3))"
        using run False syncToR2_verify_apply[OF rv] by (simp add: h2_def x_def)
      moreover have "\<forall>r. x = Some r \<longrightarrow> \<not> success r"
        by (auto simp: x_def missingConfigResult_def emptyWorkspaceResult_def split: if_splits)
      ultimately show ?thesis using s0 s3
        by (intro exI conjI) (assumption, auto simp: startedCmds_append)
    qed
  qed
qed

lemma syncToR2_preflight_quiet:
  assumes "syncToR2_preflight cfg sb env h = Some (x, h1)"
  shows "\<exists>ev. h1 = h @ ev \<and> stageStarts cfg ev = [] \<and> readTimestampCmd cfg \<notin> set (startedCmds ev)"
proof -
  from syncToR2_preflight_cases[of cfg sb env h] assms obtain ev where
    h1: "h1 = h @ ev" and s: "set (startedCmds ev) \<subseteq> {probeCmd cfg, unmountCmd cfg, verifyCmd cfg}"
    by auto
  have "stageStarts cfg ev = []"
    using stageStarts_others[OF s, of cfg] by (simp add: other_cmds_not_stage)
  moreover have "readTimestampCmd cfg \<notin> set (startedCmds ev)"
    using s readTimestampCmd_not_preflight[of cfg] by auto
  ultimately show ?thesis using h1 by blast
qed

lemma syncToR2_proceeds:
  assumes "syncToR2_preflight cfg sb env h = Some (Inr None, h1)"
  shows "syncToR2 cfg sb env h = syncToR2_replicate cfg sb h1"
  using assms by (simp add: syncToR2_def bindE_Inr)

lemma syncToR2_early:
  assumes "syncToR2_preflight cfg sb env h = Some (Inr (Some r), h1)"
  shows "syncToR2 cfg sb env h = Some (Inr r, h1)"
  using assms by (simp add: syncToR2_def bindE_Inr ret_apply)

lemma stage_outcome:
  assumes cmd: "cmd \<in> set (stageOrder cfg)"
  shows "passOutcome sb cmd h = PassOk \<longrightarrow>
           bindE (copyPass sb cmd which)
             (\<lambda>(proc, res). case res of Some r \<Rightarrow> ret r | None \<Rightarrow> K proc) h =
             K (startProcess sb (length h) cmd) (passEnd sb cmd h) \<and>
           (\<exists>ev. passEnd sb cmd h = h @ ev \<and> stageStarts cfg ev = [cmd])"
    and "passOutcome sb cmd h = PassFailed \<longrightarrow>
           (\<exists>logs exitCode ev.
              bindE (copyPass sb cmd which)
                (\<lambda>(proc, res). case res of Some r \<Rightarrow> ret r | None \<Rightarrow> K proc) h =
                Some (Inr (rsyncFailure logs which exitCode), h @ ev) \<and>
              stageStarts cfg ev = [cmd])"
    and "passOutcome sb cmd h = PassTimedOut \<longrightarrow>
           (\<exists>e ev.
              bindE (copyPass sb cmd which)
                (\<lambda>(proc, res). case res of Some r \<Rightarrow> ret r | None \<Rightarrow> K proc) h =
                Some (Inl e, h @ ev) \<and>
              stageStarts cfg ev = [cmd])"
proof -
  from copyPass_cases[of sb cmd which h] obtain ev0 where
    q: "startedCmds ev0 = []" and
    c: "(copyPass sb cmd which h =
           Some (Inr (startProcess sb (length h) cmd, None), h @ EvStartProcess cmd # ev0) \<and>
         passOutcome sb cmd h = PassOk \<and> passEnd sb cmd h = h @ EvStartProcess cmd # ev0) \<or>
        (\<exists>logs exitCode. copyPass sb cmd which h =
           Some (Inr (startProcess sb (length h) cmd, Some (rsyncFailure logs which exitCode)),
                 h @ EvStartProcess cmd # ev0) \<and>
         passOutcome sb cmd h = PassFailed) \<or>
        (\<exists>e. copyPass sb cmd which h = Some (Inl e, h @ EvStartProcess cmd # ev0) \<and>
         passOutcome sb cmd h = PassTimedOut)"
    by blast
  have s0: "stageStarts cfg (EvStartProcess cmd # ev0) = [cmd]"
    using cmd q by (simp add: stageStarts_start stageStarts_quiet)
  show "passOutcome sb cmd h = PassOk \<longrightarrow>
           bindE (copyPass sb cmd which)
             (\<lambda>(proc, res). case res of Some r \<Rightarrow> ret r | None \<Rightarrow> K proc) h =
             K (startProcess sb (length h) cmd) (passEnd sb cmd h) \<and>
           (\<exists>ev. passEnd sb cmd h = h @ ev \<and> stageStarts cfg ev = [cmd])"
  proof
    assume "passOutcome sb cmd h = PassOk"
    with c have cp: "copyPass sb cmd which h =
           Some (Inr (startProcess sb (length h) cmd, None), h @ EvStartProcess cmd # ev0)"
      and pe: "passEnd sb cmd h = h @ EvStartProcess cmd # ev0" by auto
    from cp have "bindE (copyPass sb cmd which)
             (\<lambda>(proc, res). case res of Some r \<Rightarrow> ret r | None \<Rightarrow> K proc) h =
             K (startProcess sb (length h) cmd) (passEnd sb cmd h)"
      by (simp add: bindE_Inr pe)
    moreover from pe s0 have "\<exists>ev. passEnd sb cmd h = h @ ev \<and> stageStarts cfg ev = [cmd]"
      by blast
    ultimately show "bindE (copyPass sb cmd which)
             (\<lambda>(proc, res). case res of Some r \<Rightarrow> ret r | None \<Rightarrow> K proc) h =
             K (startProcess sb (length h) cmd) (passEnd sb cmd h) \<and>
           (\<exists>ev. passEnd sb cmd h = h @ ev \<and> stageStarts cfg ev = [cmd])" by blast
  qed
  show "passOutcome sb cmd h = PassFailed \<longrightarrow>
           (\<exists>logs exitCode ev.
              bindE (copyPass sb cmd which)
                (\<lambda>(proc, res). case res of Some r \<Rightarrow> ret r | None \<Rightarrow> K proc) h =
                Some (Inr (rsyncFailure logs which exitCode), h @ ev) \<and>
              stageStarts cfg ev = [cmd])"
  proof
    assume "passOutcome sb cmd h = PassFailed"
    with c obtain logs exitCode where "copyPass sb cmd which h =
           Some (Inr (startProcess sb (length h) cmd, Some (rsyncFailure logs which exitCode)),
                 h @ EvStartProcess cmd # ev0)" by auto
    then have "bindE (copyPass sb cmd which)
                (\<lambda>(proc, res). case res of Some r \<Rightarrow> ret r | None \<Rightarrow> K proc) h =
                Some (Inr (rsyncFailure logs which exitCode), h @ (EvStartProcess cmd # ev0))"
      by (simp add: bindE_Inr ret_apply)
    with s0 show "\<exists>logs exitCode ev.
              bindE (copyPass sb cmd which)
                (\<lambda>(proc, res). case res of Some r \<Rightarrow> ret r | None \<Rightarrow> K proc) h =
                Some (Inr (rsyncFailure logs which exitCode), h @ ev) \<and>
              stageStarts cfg ev = [cmd]" by blast
  qed
  show "passOutcome sb cmd h = PassTimedOut \<longrightarrow>
           (\<exists>e ev.
              bindE (copyPass sb cmd which)
                (\<lambda>(proc, res). case res of Some r \<Rightarrow> ret r | None \<Rightarrow> K proc) h =
                Some (Inl e, h @ ev) \<and>
              stageStarts cfg ev = [cmd])"
  proof
    assume "passOutcome sb cmd h = PassTimedOut"
    with c obtain e where "copyPass sb cmd which h = Some (Inl e, h @ EvStartProcess cmd # ev0)"
      by auto
    then have "bindE (copyPass sb cmd which)
                (\<lambda>(proc, res). case res of Some r \<Rightarrow> ret r | None \<Rightarrow> K proc) h =
                Some (Inl e, h @ (EvStartProcess cmd # ev0))"
      by (simp add: bindE_Inl)
    with s0 show "\<exists>e ev.
              bindE (copyPass sb cmd which)
                (\<lambda>(proc, res). case res of Some r \<Rightarrow> ret r | None \<Rightarrow> K proc) h =
                Some (Inl e, h @ ev) \<and>
              stageStarts cfg ev = [cmd]" by blast
  qed
qed

lemma replicate_of_result:
  assumes "replicateOpenclaw cfg sb h = Some (Inr r, h')"
  shows "syncToR2_replicate cfg sb h = Some (Inr r, h')"
  using assms by (simp add: syncToR2_replicate_unfold catchE_Inr)

lemma replicateSkills_run:
  "\<exists>x ev. replicateSkills cfg sb p h = Some (x, h @ ev) \<and>
     (case passOutcome sb (syncSkillsCmd cfg) h of
        PassFailed \<Rightarrow> (\<exists>logs ec. x = Inr (rsyncFailure logs ''skills'' ec)) \<and>
                      stageStarts cfg ev = [syncSkillsCmd cfg]
      | PassTimedOut \<Rightarrow> isl x \<and> stageStarts cfg ev = [syncSkillsCmd cfg]
      | PassOk \<Rightarrow> stageStarts cfg ev = [syncSkillsCmd cfg, writeTimestampCmd cfg])"
proof (cases "passOutcome sb (syncSkillsCmd cfg) h")
  case PassOk
  from stage_outcome(1)[where cfg=cfg and cmd="syncSkillsCmd cfg" and sb=sb and h=h and which="''skills''" and K="\<lambda>_. writeAndVerifyMarker cfg sb p", OF stage_cmds_in_order(3)] PassOk
  obtain ev1 where
    r: "replicateSkills cfg sb p h = writeAndVerifyMarker cfg sb p (passEnd sb (syncSkillsCmd cfg) h)"
    and e: "passEnd sb (syncSkillsCmd cfg) h = h @ ev1" and s: "stageStarts cfg ev1 = [syncSkillsCmd cfg]"
    by (auto simp: replicateSkills_def)
  from writeAndVerifyMarker_cases[of cfg sb p "h @ ev1"] obtain x ev where
    m: "writeAndVerifyMarker cfg sb p (h @ ev1) = Some (x, (h @ ev1) @ ev)"
    and sm: "stageStarts cfg ev = [writeTimestampCmd cfg]" by blast
  have "replicateSkills cfg sb p h = Some (x, h @ (ev1 @ ev))" using r e m by simp
  moreover have "stageStarts cfg (ev1 @ ev) = [syncSkillsCmd cfg, writeTimestampCmd cfg]"
    using s sm by (simp add: stageStarts_append)
  ultimately show ?thesis using PassOk by auto
next
  case PassFailed
  from stage_outcome(2)[where cfg=cfg and cmd="syncSkillsCmd cfg" and sb=sb and h=h and which="''skills''" and K="\<lambda>_. writeAndVerifyMarker cfg sb p", OF stage_cmds_in_order(3)] PassFailed
  obtain logs ec ev where
    "replicateSkills cfg sb p h = Some (Inr (rsyncFailure logs ''skills'' ec), h @ ev)"
    "stageStarts cfg ev = [syncSkillsCmd cfg]"
    by (auto simp: replicateSkills_def)
  then show ?thesis using PassFailed by auto
next
  case PassTimedOut
  from stage_outcome(3)[where cfg=cfg and cmd="syncSkillsCmd cfg" and sb=sb and h=h and which="''skills''" and K="\<lambda>_. writeAndVerifyMarker cfg sb p", OF stage_cmds_in_order(3)] PassTimedOut
  obtain e ev where
    "replicateSkills cfg sb p h = Some (Inl e, h @ ev)"
    "stageStarts cfg ev = [syncSkillsCmd cfg]"
    by (auto simp: replicateSkills_def)
  then show ?thesis using PassTimedOut by auto
qed

lemma replicateWorkspace_run:
  "\<exists>x ev. replicateWorkspace cfg sb p h = Some (x, h @ ev) \<and>
     (case passOutcome sb (syncWorkspaceCmd cfg) h of
        PassFailed \<Rightarrow> (\<exists>logs ec. x = Inr (rsyncFailure logs ''workspace'' ec)) \<and>
                      stageStarts cfg ev = [syncWorkspaceCmd cfg]
      | PassTimedOut \<Rightarrow> isl x \<and> stageStarts cfg ev = [syncWorkspaceCmd cfg]
      | PassOk \<Rightarrow>
         (case passOutcome sb (syncSkillsCmd cfg) (passEnd sb (syncWorkspaceCmd cfg) h) of
            PassFailed \<Rightarrow> (\<exists>logs ec. x = Inr (rsyncFailure logs ''skills'' ec)) \<and>
                          stageStarts cfg ev = [syncWorkspaceCmd cfg, syncSkillsCmd cfg]
          | PassTimedOut \<Rightarrow> isl x \<and> stageStarts cfg ev = [syncWorkspaceCmd cfg, syncSkillsCmd cfg]
          | PassOk \<Rightarrow> stageStarts cfg ev =
                        [syncWorkspaceCmd cfg, syncSkillsCmd cfg, writeTimestampCmd cfg]))"
proof (cases "passOutcome sb (syncWorkspaceCmd cfg) h")
  case PassOk
  from stage_outcome(1)[where cfg=cfg and cmd="syncWorkspaceCmd cfg" and sb=sb and h=h and which="''workspace''" and K="\<lambda>_. replicateSkills cfg sb p", OF stage_cmds_in_order(2)] PassOk
  obtain ev1 where
    r: "replicateWorkspace cfg sb p h = replicateSkills cfg sb p (passEnd sb (syncWorkspaceCmd cfg) h)"
    and e: "passEnd sb (syncWorkspaceCmd cfg) h = h @ ev1" and s: "stageStarts cfg ev1 = [syncWorkspaceCmd cfg]"
    by (auto simp: replicateWorkspace_def)
  from replicateSkills_run[of cfg sb p "h @ ev1"] obtain x ev where
    m: "replicateSkills cfg sb p (h @ ev1) = Some (x, (h @ ev1) @ ev)"
    and c: "(case passOutcome sb (syncSkillsCmd cfg) (h @ ev1) of
        PassFailed \<Rightarrow> (\<exists>logs ec. x = Inr (rsyncFailure logs ''skills'' ec)) \<and>
                      stageStarts cfg ev = [syncSkillsCmd cfg]
      | PassTimedOut \<Rightarrow> isl x \<and> stageStarts cfg ev = [syncSkillsCmd cfg]
      | PassOk \<Rightarrow> stageStarts cfg ev = [syncSkillsCmd cfg, writeTimestampCmd cfg])" by blast
  have "replicateWorkspace cfg sb p h = Some (x, h @ (ev1 @ ev))" using r e m by simp
  moreover have "stageStarts cfg (ev1 @ ev) = syncWorkspaceCmd cfg # stageStarts cfg ev"
    using s by (simp add: stageStarts_append)
  ultimately show ?thesis using PassOk c e
    by (auto split: pass_outcome.splits)
next
  case PassFailed
  from stage_outcome(2)[where cfg=cfg and cmd="syncWorkspaceCmd cfg" and sb=sb and h=h and which="''workspace''" and K="\<lambda>_. replicateSkills cfg sb p", OF stage_cmds_in_order(2)] PassFailed
  obtain logs ec ev where
    "replicateWorkspace cfg sb p h = Some (Inr (rsyncFailure logs ''workspace'' ec), h @ ev)"
    "stageStarts cfg ev = [syncWorkspaceCmd cfg]"
    by (auto simp: replicateWorkspace_def)
  then show ?thesis using PassFailed by auto
next
  case PassTimedOut
  from stage_outcome(3)[where cfg=cfg and cmd="syncWorkspaceCmd cfg" and sb=sb and h=h and which="''workspace''" and K="\<lambda>_. replicateSkills cfg sb p", OF stage_cmds_in_order(2)] PassTimedOut
  obtain e ev where
    "replicateWorkspace cfg sb p h = Some (Inl e, h @ ev)"
    "stageStarts cfg ev = [syncWorkspaceCmd cfg]"
    by (auto simp: replicateWorkspace_def)
  then show ?thesis using PassTimedOut by auto
qed

text \<open>
  The replication block by the outcomes of its copy passes: the result and the stage
  commands it started.
\<close>

lemma syncToR2_replicate_run:
  "\<exists>r ev. syncToR2_replicate cfg sb h = Some (Inr r, h @ ev) \<and>
     (case passOutcome sb (syncOpenclawCmd cfg) h of
        PassFailed \<Rightarrow> \<not> success r \<and> error r = Some ''Sync failed'' \<and>
                      stageStarts cfg ev = [syncOpenclawCmd cfg]
      | PassTimedOut \<Rightarrow> \<not> success r \<and> error r = Some ''Sync error'' \<and>
                        stageStarts cfg ev = [syncOpenclawCmd cfg]
      | PassOk \<Rightarrow>
         (case passOutcome sb (syncWorkspaceCmd cfg) (passEnd sb (syncOpenclawCmd cfg) h) of
            PassFailed \<Rightarrow> \<not> success r \<and> error r = Some ''Sync failed'' \<and>
                          stageStarts cfg ev = [syncOpenclawCmd cfg, syncWorkspaceCmd cfg]
          | PassTimedOut \<Rightarrow> \<not> success r \<and> error r = Some ''Sync error'' \<and>
                            stageStarts cfg ev = [syncOpenclawCmd cfg, syncWorkspaceCmd cfg]
          | PassOk \<Rightarrow>
             (case passOutcome sb (syncSkillsCmd cfg)
                     (passEnd sb (syncWorkspaceCmd cfg) (passEnd sb (syncOpenclawCmd cfg) h)) of
                PassFailed \<Rightarrow> \<not> success r \<and> error r = Some ''Sync failed'' \<and>
                              stageStarts cfg ev =
                                [syncOpenclawCmd cfg, syncWorkspaceCmd cfg, syncSkillsCmd cfg]
              | PassTimedOut \<Rightarrow> \<not> success r \<and> error r = Some ''Sync error'' \<and>
                                stageStarts cfg ev =
                                  [syncOpenclawCmd cfg, syncWorkspaceCmd cfg, syncSkillsCmd cfg]
              | PassOk \<Rightarrow> stageStarts cfg ev = stageOrder cfg)))"
proof -
  define res where "res = (\<lambda>x. case x of
      Inl e \<Rightarrow> \<lparr>success = False, lastSync = None, error = Some ''Sync error'',
                 details = Some (errorDetails e)\<rparr>
    | Inr r \<Rightarrow> (r :: SyncResult))"
  have fin: "syncToR2_replicate cfg sb h = Some (Inr (res x), h')"
    if "replicateOpenclaw cfg sb h = Some (x, h')" for x h'
    using that by (cases x) (simp_all add: syncToR2_replicate_unfold catchE_Inl catchE_Inr ret_apply res_def)
  have resL: "\<not> success (res x) \<and> error (res x) = Some ''Sync error''" if "isl x" for x
    using that by (cases x) (simp_all add: res_def)
  have resF: "\<not> success (res (Inr (rsyncFailure logs which ec))) \<and>
              error (res (Inr (rsyncFailure logs which ec))) = Some ''Sync failed''" for logs which ec
    by (simp add: res_def rsyncFailure_fields)
  show ?thesis
  proof (cases "passOutcome sb (syncOpenclawCmd cfg) h")
    case PassOk
    from stage_outcome(1)[where cfg=cfg and cmd="syncOpenclawCmd cfg" and sb=sb and h=h and which="''openclaw''" and K="replicateWorkspace cfg sb", OF stage_cmds_in_order(1)] PassOk
    obtain ev1 where
      r: "replicateOpenclaw cfg sb h =
            replicateWorkspace cfg sb (startProcess sb (length h) (syncOpenclawCmd cfg))
              (passEnd sb (syncOpenclawCmd cfg) h)"
      and e: "passEnd sb (syncOpenclawCmd cfg) h = h @ ev1"
      and s: "stageStarts cfg ev1 = [syncOpenclawCmd cfg]"
      by (auto simp: replicateOpenclaw_def)
    define p where "p = startProcess sb (length h) (syncOpenclawCmd cfg)"
    from replicateWorkspace_run[of cfg sb p "h @ ev1"] obtain x ev where
      m: "replicateWorkspace cfg sb p (h @ ev1) = Some (x, (h @ ev1) @ ev)"
      and c: "(case passOutcome sb (syncWorkspaceCmd cfg) (h @ ev1) of
        PassFailed \<Rightarrow> (\<exists>logs ec. x = Inr (rsyncFailure logs ''workspace'' ec)) \<and>
                      stageStarts cfg ev = [syncWorkspaceCmd cfg]
      | PassTimedOut \<Rightarrow> isl x \<and> stageStarts cfg ev = [syncWorkspaceCmd cfg]
      | PassOk \<Rightarrow>
         (case passOutcome sb (syncSkillsCmd cfg) (passEnd sb (syncWorkspaceCmd cfg) (h @ ev1)) of
            PassFailed \<Rightarrow> (\<exists>logs ec. x = Inr (rsyncFailure logs ''skills'' ec)) \<and>
                          stageStarts cfg ev = [syncWorkspaceCmd cfg, syncSkillsCmd cfg]
          | PassTimedOut \<Rightarrow> isl x \<and> stageStarts cfg ev = [syncWorkspaceCmd cfg, syncSkillsCmd cfg]
          | PassOk \<Rightarrow> stageStarts cfg ev =
                        [syncWorkspaceCmd cfg, syncSkillsCmd cfg, writeTimestampCmd cfg]))" by blast
    have "replicateOpenclaw cfg sb h = Some (x, h @ (ev1 @ ev))"
      using r e m by (simp add: p_def)
    then have run: "syncToR2_replicate cfg sb h = Some (Inr (res x), h @ (ev1 @ ev))" by (rule fin)
    have st: "stageStarts cfg (ev1 @ ev) = syncOpenclawCmd cfg # stageStarts cfg ev"
      using s by (simp add: stageStarts_append)
    show ?thesis
      apply (rule exI[of _ "res x"])
      apply (rule exI[of _ "ev1 @ ev"])
      using run PassOk c e st resL[of x] resF
      by (auto split: pass_outcome.splits simp: stageOrder_def)
  next
    case PassFailed
    from stage_outcome(2)[where cfg=cfg and cmd="syncOpenclawCmd cfg" and sb=sb and h=h and which="''openclaw''" and K="replicateWorkspace cfg sb", OF stage_cmds_in_order(1)] PassFailed
    obtain logs ec ev where
      "replicateOpenclaw cfg sb h = Some (Inr (rsyncFailure logs ''openclaw'' ec), h @ ev)"
      and s: "stageStarts cfg ev = [syncOpenclawCmd cfg]"
      by (auto simp: replicateOpenclaw_def)
    then have run: "syncToR2_replicate cfg sb h =
        Some (Inr (res (Inr (rsyncFailure logs ''openclaw'' ec))), h @ ev)" by (intro fin)
    show ?thesis using run PassFailed s resF[of logs "''openclaw''" ec]
      by auto
  next
    case PassTimedOut
    from stage_outcome(3)[where cfg=cfg and cmd="syncOpenclawCmd cfg" and sb=sb and h=h and which="''openclaw''" and K="replicateWorkspace cfg sb", OF stage_cmds_in_order(1)] PassTimedOut
    obtain e ev where
      "replicateOpenclaw cfg sb h = Some (Inl e, h @ ev)"
      and s: "stageStarts cfg ev = [syncOpenclawCmd cfg]"
      by (auto simp: replicateOpenclaw_def)
    then have run: "syncToR2_replicate cfg sb h = Some (Inr (res (Inl e)), h @ ev)" by (intro fin)
    show ?thesis using run PassTimedOut s resL[of "Inl e"]
      by auto
  qed
qed

section \<open>Facts about the concrete sandboxes\<close>

lemma lagSandbox_process: "startProcess lagSandbox n (syncOpenclawCmd exCfg) = lagProcess"
proof -
  have "syncOpenclawCmd exCfg \<noteq> probeCmd exCfg" "syncOpenclawCmd exCfg \<noteq> verifyCmd exCfg"
    by code_simp+
  then show ?thesis by (simp add: lagSandbox_def)
qed

lemma lagProcess_wait:
  "waitForProcess lagProcess DEFAULT_SYNC_TIMEOUT_MS 500 h =
     Some (Inl (timeoutError DEFAULT_SYNC_TIMEOUT_MS ''running''), h @ replicate 1200 (EvSleep 500))"
proof -
  have act: "\<forall>u. isActive (p_status lagProcess u)"
    by (simp add: lagProcess_def isActive_def)
  have k: "nat (- ((- DEFAULT_SYNC_TIMEOUT_MS) div 500)) = 1200"
    by (simp add: DEFAULT_SYNC_TIMEOUT_MS_def)
  have st: "p_status lagProcess u = ''running''" for u by (simp add: lagProcess_def)
  show ?thesis
    using waitForProcess_stuck[of 500 DEFAULT_SYNC_TIMEOUT_MS lagProcess h] act
    by (simp add: k st DEFAULT_SYNC_TIMEOUT_MS_def)
qed

lemma lagSandbox_preflight:
  "syncToR2_preflight exCfg lagSandbox exEnv [] = Some (Inr None, preflightTrace)"
  by code_simp

lemma lagSandbox_copyPass:
  "copyPass lagSandbox (syncOpenclawCmd exCfg) ''openclaw'' preflightTrace =
     Some (Inl (timeoutError DEFAULT_SYNC_TIMEOUT_MS ''running''),
           preflightTrace @ EvStartProcess (syncOpenclawCmd exCfg) #
           replicate 1200 (EvSleep 500) @ [EvGetLogs, EvKill])"
proof -
  have kl: "p_kill lagProcess = Some (\<lambda>_. Inr ())" by (simp add: lagProcess_def)
  show ?thesis
    by (simp add: copyPass_def bindE_def catchE_def sandbox_startProcess_apply lagSandbox_process
          lagProcess_wait getLogsOrEmpty_apply bestEffortKill_def kl call_apply ret_apply throw_apply)
qed

lemma lagSandbox_run:
  "syncToR2 exCfg lagSandbox exEnv [] =
     Some (Inr \<lparr>success = False, lastSync = None, error = Some ''Sync error'',
                details = Some ''Process timed out after 600000ms (status=running)''\<rparr>,
           preflightTrace @ EvStartProcess (syncOpenclawCmd exCfg) # replicate 1200 (EvSleep 500) @
           [EvGetLogs, EvKill])"
proof -
  have msg: "errorDetails (timeoutError DEFAULT_SYNC_TIMEOUT_MS ''running'') =
               ''Process timed out after 600000ms (status=running)''"
    by code_simp
  show ?thesis
    using lagSandbox_copyPass
    by (simp add: syncToR2_proceeds[OF lagSandbox_preflight] syncToR2_replicate_def bindE_Inl
          catchE_Inl ret_apply msg)
qed

section \<open>Properties of the process wait utility\<close>

text \<open>
  Claim C10. A handle whose status is already outside \<open>{starting, running}\<close> when
  \<open>waitForProcess\<close> is called makes the wait resolve at once: the history is unchanged
  (zero poll sleeps) and nothing is thrown, for every timeout and every poll interval
  (also zero and negative ones).
\<close>

theorem waitForProcess_settled_immediately:
  "\<not> isActive (p_status proc (length h)) \<Longrightarrow>
   waitForProcess proc timeoutMs pollIntervalMs h = Some (Inr (), h)"
  by (simp add: waitForProcess_def waitLoop_stop)

theorem waitForProcess_settled_immediately_witness:
  "\<not> isActive (p_status (mockProcess ''ok'' 0) (length ([] :: history))) \<and>
   waitForProcess (mockProcess ''ok'' 0) 5000 0 [] = Some (Inr (), [])"
  using waitForProcess_settled_immediately [of "mockProcess ''ok'' 0" "[]" 5000 0]
  by (simp add: mockProcess_def isActive_def)

text \<open>
  The wait with positive integer arguments, in the range where the model of the
  numbers is exact. A handle that stays active makes the wait
  fail with the timeout error carrying the last observed status, after \<open>k\<close> sleeps
  with \<open>k * pollIntervalMs \<ge> timeoutMs\<close>; every failure of the wait, for any
  handle, is such a timeout and is never earlier; and a handle that is first seen
  settled at the \<open>k\<close>-th observation, where the \<open>k\<close>-th sleep began before
  the deadline, makes the wait resolve with no value after exactly \<open>k\<close> sleeps.
\<close>

lemma waitForProcess_positive_interval:
  assumes t: "0 < timeoutMs" and p: "0 < pollIntervalMs"
  shows "((\<forall>u. length h \<le> u \<longrightarrow> isActive (p_status proc u)) \<longrightarrow>
            (\<exists>k. waitForProcess proc timeoutMs pollIntervalMs h =
                    Some (Inl (timeoutError timeoutMs (p_status proc (length h + k))),
                          h @ replicate k (EvSleep pollIntervalMs)) \<and>
                 timeoutMs \<le> int k * pollIntervalMs)) \<and>
         (\<forall>e h'. waitForProcess proc timeoutMs pollIntervalMs h = Some (Inl e, h') \<longrightarrow>
            (\<exists>k. h' = h @ replicate k (EvSleep pollIntervalMs) \<and>
                 timeoutMs \<le> int k * pollIntervalMs \<and>
                 isActive (p_status proc (length h')) \<and>
                 e = timeoutError timeoutMs (p_status proc (length h')))) \<and>
         (\<forall>k. (\<forall>j<k. isActive (p_status proc (length h + j))) \<and>
              \<not> isActive (p_status proc (length h + k)) \<and>
              (int k - 1) * pollIntervalMs < timeoutMs \<longrightarrow>
              waitForProcess proc timeoutMs pollIntervalMs h =
                Some (Inr (), h @ replicate k (EvSleep pollIntervalMs)))"
proof -
  define m where "m = - ((- timeoutMs) div pollIntervalMs)"
  have cover: "timeoutMs \<le> m * pollIntervalMs" and below: "(m - 1) * pollIntervalMs < timeoutMs"
    unfolding m_def using ceil_div_covers[OF p] by simp_all
  from p have nz: "pollIntervalMs \<noteq> 0" by simp
  from waitForProcess_nonzero[OF nz, of proc timeoutMs h] obtain k where
    run: "waitForProcess proc timeoutMs pollIntervalMs h =
            Some (if isActive (p_status proc (length h + k))
                  then Inl (timeoutError timeoutMs (p_status proc (length h + k))) else Inr (),
                  h @ replicate k (EvSleep pollIntervalMs))"
    and act: "\<forall>j<k. isActive (p_status proc (length h + j))"
    and stop: "isActive (p_status proc (length h + k)) \<longrightarrow> \<not> int k < m"
    unfolding m_def by blast
  have late: "timeoutMs \<le> int k * pollIntervalMs" if "isActive (p_status proc (length h + k))"
  proof -
    from that stop have "m \<le> int k" by simp
    then have "m * pollIntervalMs \<le> int k * pollIntervalMs"
      using p by (simp add: mult_right_mono)
    with cover show ?thesis by linarith
  qed
  have A: "(\<forall>u. length h \<le> u \<longrightarrow> isActive (p_status proc u)) \<longrightarrow>
            (\<exists>k. waitForProcess proc timeoutMs pollIntervalMs h =
                    Some (Inl (timeoutError timeoutMs (p_status proc (length h + k))),
                          h @ replicate k (EvSleep pollIntervalMs)) \<and>
                 timeoutMs \<le> int k * pollIntervalMs)"
  proof
    assume "\<forall>u. length h \<le> u \<longrightarrow> isActive (p_status proc u)"
    then have a: "isActive (p_status proc (length h + k))" by simp
    with run late show "\<exists>k. waitForProcess proc timeoutMs pollIntervalMs h =
                    Some (Inl (timeoutError timeoutMs (p_status proc (length h + k))),
                          h @ replicate k (EvSleep pollIntervalMs)) \<and>
                 timeoutMs \<le> int k * pollIntervalMs"
      by (intro exI[of _ k]) simp
  qed
  have C: "\<forall>e h'. waitForProcess proc timeoutMs pollIntervalMs h = Some (Inl e, h') \<longrightarrow>
            (\<exists>k. h' = h @ replicate k (EvSleep pollIntervalMs) \<and>
                 timeoutMs \<le> int k * pollIntervalMs \<and>
                 isActive (p_status proc (length h')) \<and>
                 e = timeoutError timeoutMs (p_status proc (length h')))"
  proof (intro allI impI)
    fix e h'
    assume "waitForProcess proc timeoutMs pollIntervalMs h = Some (Inl e, h')"
    with run have a: "isActive (p_status proc (length h + k))"
      and e: "e = timeoutError timeoutMs (p_status proc (length h + k))"
      and h': "h' = h @ replicate k (EvSleep pollIntervalMs)"
      by (auto split: if_splits)
    show "\<exists>k. h' = h @ replicate k (EvSleep pollIntervalMs) \<and>
                 timeoutMs \<le> int k * pollIntervalMs \<and>
                 isActive (p_status proc (length h')) \<and>
                 e = timeoutError timeoutMs (p_status proc (length h'))"
      using a e h' late by (intro exI[of _ k]) simp
  qed
  have B: "\<forall>k. (\<forall>j<k. isActive (p_status proc (length h + j))) \<and>
              \<not> isActive (p_status proc (length h + k)) \<and>
              (int k - 1) * pollIntervalMs < timeoutMs \<longrightarrow>
              waitForProcess proc timeoutMs pollIntervalMs h =
                Some (Inr (), h @ replicate k (EvSleep pollIntervalMs))"
  proof (intro allI impI, elim conjE)
    fix k0
    assume a0: "\<forall>j<k0. isActive (p_status proc (length h + j))"
      and s0: "\<not> isActive (p_status proc (length h + k0))"
      and d0: "(int k0 - 1) * pollIntervalMs < timeoutMs"
    have "\<not> k0 < k" using act s0 by auto
    moreover have "\<not> k < k0"
    proof
      assume lt: "k < k0"
      with a0 have "isActive (p_status proc (length h + k))" by simp
      then have "timeoutMs \<le> int k * pollIntervalMs" by (rule late)
      moreover from lt have "int k \<le> int k0 - 1" by simp
      then have "int k * pollIntervalMs \<le> (int k0 - 1) * pollIntervalMs"
        using p by (simp add: mult_right_mono)
      ultimately show False using d0 by linarith
    qed
    ultimately have "k = k0" by simp
    with run s0 show "waitForProcess proc timeoutMs pollIntervalMs h =
                Some (Inr (), h @ replicate k0 (EvSleep pollIntervalMs))"
      by simp
  qed
  from A C B show ?thesis by blast
qed

lemma waitForProcess_positive_interval_example:
  "(0::int) < 1000 \<and> (0::int) < 500 \<and>
   (\<exists>k. waitForProcess stuckProcess 1000 500 [] =
           Some (Inl (timeoutError 1000 ''running''), replicate k (EvSleep 500)) \<and>
        (1000::int) \<le> int k * 500) \<and>
   waitForProcess slowProcess 1000 500 [] = Some (Inr (), [EvSleep 500, EvSleep 500])"
proof -
  have 1: "\<exists>k. waitForProcess stuckProcess 1000 500 [] =
           Some (Inl (timeoutError 1000 ''running''), replicate k (EvSleep 500)) \<and>
        (1000::int) \<le> int k * 500"
    using waitForProcess_positive_interval [of 1000 500 "[]" stuckProcess]
    by (simp add: stuckProcess_def isActive_def)
  have a: "\<forall>j<2. isActive (p_status slowProcess (length ([] :: history) + j))"
    by (simp add: slowProcess_def isActive_def)
  have b: "\<not> isActive (p_status slowProcess (length ([] :: history) + 2))"
    by (simp add: slowProcess_def isActive_def)
  have c: "(int 2 - 1) * 500 < (1000::int)" by simp
  have "\<forall>k. (\<forall>j<k. isActive (p_status slowProcess (length ([] :: history) + j))) \<and>
              \<not> isActive (p_status slowProcess (length ([] :: history) + k)) \<and>
              (int k - 1) * 500 < 1000 \<longrightarrow>
              waitForProcess slowProcess 1000 500 [] =
                Some (Inr (), [] @ replicate k (EvSleep 500))"
    using waitForProcess_positive_interval [of 1000 500 "[]" slowProcess] by simp
  with a b c have 2: "waitForProcess slowProcess 1000 500 [] = Some (Inr (), [] @ replicate 2 (EvSleep 500))"
    by blast
  from 1 2 show ?thesis by (simp add: numeral_2_eq_2)
qed

text \<open>
  Claim C4. The claim does not hold of the code for every poll interval, which the code
  takes as given. With \<open>pollIntervalMs = 0\<close> the bound
  \<^verbatim>\<open>Math.ceil(timeoutMs / pollIntervalMs)\<close> is infinite, and the wait on a
  handle that stays \<open>running\<close> never returns: it does not fail with a timeout,
  whatever \<open>timeoutMs\<close> is, against the documented meaning of \<open>timeoutMs\<close>
  as the maximum time to wait. With a negative interval the bound is negative, and the
  wait fails after no sleep at all, before any time has passed.
\<close>

theorem waitForProcess_zero_interval:
  "waitForProcess stuckProcess 5000 0 [] = None \<and>
   waitForProcess stuckProcess 5000 (- 200) [] =
     Some (Inl (ErrorObj ''Process timed out after 5000ms (status=running)''), [])"
proof
  have "\<forall>u. isActive (p_status stuckProcess u)"
    by (simp add: stuckProcess_def isActive_def)
  then show "waitForProcess stuckProcess 5000 0 [] = None"
    by (simp add: waitForProcess_def ceil_div_def waitLoop_diverges)
  show "waitForProcess stuckProcess 5000 (- 200) [] =
     Some (Inl (ErrorObj ''Process timed out after 5000ms (status=running)''), [])"
    by code_simp
qed

section \<open>Properties of the mount prober\<close>

text \<open>
  Claim C5. The probe always returns a classification. If the bounded wait (5000 ms, polled
  every 200 ms) on the filesystem-type query times out, the result is \<open>unresponsive\<close>.
  Otherwise the captured standard output (empty when reading the logs fails) decides:
  output made of whitespace only gives \<open>not_mounted\<close>; otherwise the output is
  leading whitespace \<open>ws\<close>, a first token \<open>tok\<close> and a rest that is empty or
  begins with whitespace, and the sentinel token \<open>__ERR__\<close> gives \<open>not_mounted\<close>,
  a token beginning with \<open>fuse\<close> gives \<open>mounted\<close> carrying that token, and any
  other token gives \<open>not_mounted\<close> carrying that token.
\<close>

theorem probeMount_classifies:
  "(\<exists>p h'. probeMount cfg sb h = Some (Inr p, h')) \<and>
   (\<forall>e h2.
      waitForProcess (startProcess sb (length h) (probeCmd cfg)) 5000 200
        (h @ [EvStartProcess (probeCmd cfg)]) = Some (Inl e, h2) \<longrightarrow>
      probeMount cfg sb h = Some (Inr Unresponsive, h2)) \<and>
   (\<forall>h2.
      waitForProcess (startProcess sb (length h) (probeCmd cfg)) 5000 200
        (h @ [EvStartProcess (probeCmd cfg)]) = Some (Inr (), h2) \<and>
      list_all isSpace (logsStdout (p_getLogs (startProcess sb (length h) (probeCmd cfg)) (length h2))) \<longrightarrow>
      probeMount cfg sb h = Some (Inr (NotMounted ''__ERR__''), h2 @ [EvGetLogs])) \<and>
   (\<forall>h2 ws tok rest.
      waitForProcess (startProcess sb (length h) (probeCmd cfg)) 5000 200
        (h @ [EvStartProcess (probeCmd cfg)]) = Some (Inr (), h2) \<and>
      logsStdout (p_getLogs (startProcess sb (length h) (probeCmd cfg)) (length h2)) = ws @ tok @ rest \<and>
      list_all isSpace ws \<and> tok \<noteq> [] \<and> \<not> list_ex isSpace tok \<and> list_all isSpace (take 1 rest) \<longrightarrow>
      probeMount cfg sb h =
        Some (Inr (if tok = ''__ERR__'' then NotMounted ''__ERR__''
                   else if prefix ''fuse'' tok then Mounted tok
                   else NotMounted tok),
              h2 @ [EvGetLogs]))"
proof (intro conjI allI impI)
  show "\<exists>p h'. probeMount cfg sb h = Some (Inr p, h')"
    using probeMount_total[of cfg sb h] by blast
next
  fix e h2
  assume "waitForProcess (startProcess sb (length h) (probeCmd cfg)) 5000 200
        (h @ [EvStartProcess (probeCmd cfg)]) = Some (Inl e, h2)"
  then show "probeMount cfg sb h = Some (Inr Unresponsive, h2)"
    by (simp add: probeMount_apply)
next
  fix h2
  assume "waitForProcess (startProcess sb (length h) (probeCmd cfg)) 5000 200
        (h @ [EvStartProcess (probeCmd cfg)]) = Some (Inr (), h2) \<and>
      list_all isSpace (logsStdout (p_getLogs (startProcess sb (length h) (probeCmd cfg)) (length h2)))"
  then show "probeMount cfg sb h = Some (Inr (NotMounted ''__ERR__''), h2 @ [EvGetLogs])"
    by (simp add: probeMount_apply classifyFsType_def all_space_token or_else_def)
next
  fix h2 ws tok rest
  assume a: "waitForProcess (startProcess sb (length h) (probeCmd cfg)) 5000 200
        (h @ [EvStartProcess (probeCmd cfg)]) = Some (Inr (), h2) \<and>
      logsStdout (p_getLogs (startProcess sb (length h) (probeCmd cfg)) (length h2)) = ws @ tok @ rest \<and>
      list_all isSpace ws \<and> tok \<noteq> [] \<and> \<not> list_ex isSpace tok \<and> list_all isSpace (take 1 rest)"
  then have tok: "split_ws_first (trim (ws @ tok @ rest)) = tok"
    by (intro first_token) simp_all
  from a tok show "probeMount cfg sb h =
        Some (Inr (if tok = ''__ERR__'' then NotMounted ''__ERR__''
                   else if prefix ''fuse'' tok then Mounted tok
                   else NotMounted tok),
              h2 @ [EvGetLogs])"
    by (simp add: probeMount_apply classifyFsType_def or_else_def startsWith_def)
qed

theorem probeMount_classifies_witness:
  "probeMount exCfg fuseSandbox [] =
     Some (Inr (Mounted ''fuse.s3fs''), [EvStartProcess (probeCmd exCfg), EvGetLogs]) \<and>
   probeMount exCfg idleSandbox [] =
     Some (Inr (NotMounted ''__ERR__''), [EvStartProcess (probeCmd exCfg), EvGetLogs]) \<and>
   probeMount exCfg staleSandbox [] =
     Some (Inr Unresponsive, EvStartProcess (probeCmd exCfg) # replicate 25 (EvSleep 200))"
proof -
  have w: "waitForProcess (startProcess fuseSandbox (length ([] :: history)) (probeCmd exCfg)) 5000 200
             ([] @ [EvStartProcess (probeCmd exCfg)]) = Some (Inr (), [EvStartProcess (probeCmd exCfg)])"
    by code_simp
  have out: "logsStdout (p_getLogs (startProcess fuseSandbox (length ([] :: history)) (probeCmd exCfg))
               (length [EvStartProcess (probeCmd exCfg)])) = [] @ ''fuse.s3fs'' @ [CHR 0x0A]"
    by code_simp
  have tok: "list_all isSpace [] \<and> ''fuse.s3fs'' \<noteq> [] \<and> \<not> list_ex isSpace ''fuse.s3fs'' \<and>
             list_all isSpace (take 1 [CHR 0x0A])"
    by code_simp
  from probeMount_classifies[of exCfg fuseSandbox "[]"] w out tok
  have "probeMount exCfg fuseSandbox [] =
        Some (Inr (if ''fuse.s3fs'' = ''__ERR__'' then NotMounted ''__ERR__''
                   else if prefix ''fuse'' ''fuse.s3fs'' then Mounted ''fuse.s3fs''
                   else NotMounted ''fuse.s3fs''),
              [EvStartProcess (probeCmd exCfg)] @ [EvGetLogs])"
    by blast
  then have 1: "probeMount exCfg fuseSandbox [] =
     Some (Inr (Mounted ''fuse.s3fs''), [EvStartProcess (probeCmd exCfg), EvGetLogs])" by simp
  have w2: "waitForProcess (startProcess idleSandbox (length ([] :: history)) (probeCmd exCfg)) 5000 200
             ([] @ [EvStartProcess (probeCmd exCfg)]) = Some (Inr (), [EvStartProcess (probeCmd exCfg)])"
    by code_simp
  have out2: "list_all isSpace (logsStdout (p_getLogs (startProcess idleSandbox (length ([] :: history)) (probeCmd exCfg))
               (length [EvStartProcess (probeCmd exCfg)])))"
    by code_simp
  from probeMount_classifies[of exCfg idleSandbox "[]"] w2 out2
  have "probeMount exCfg idleSandbox [] =
     Some (Inr (NotMounted ''__ERR__''), [EvStartProcess (probeCmd exCfg)] @ [EvGetLogs])"
    by blast
  then have 2: "probeMount exCfg idleSandbox [] =
     Some (Inr (NotMounted ''__ERR__''), [EvStartProcess (probeCmd exCfg), EvGetLogs])" by simp
  have w3: "waitForProcess (startProcess staleSandbox (length ([] :: history)) (probeCmd exCfg)) 5000 200
             ([] @ [EvStartProcess (probeCmd exCfg)]) =
            Some (Inl (timeoutError 5000 ''running''),
                  EvStartProcess (probeCmd exCfg) # replicate 25 (EvSleep 200))"
    by code_simp
  from probeMount_classifies[of exCfg staleSandbox "[]"] w3
  have 3: "probeMount exCfg staleSandbox [] =
     Some (Inr Unresponsive, EvStartProcess (probeCmd exCfg) # replicate 25 (EvSleep 200))"
    by blast
  from 1 2 3 show ?thesis by simp
qed

section \<open>Properties of the mount controller\<close>

text \<open>
  Claim C8. With the credentials configured, when the initial probe reports the mounted
  state, \<open>mountR2Storage\<close> returns true in the history the probe left: the probe's
  query is the only process started, the unmount command is not among the started
  commands and no \<open>mountBucket\<close> call is made. The reported filesystem type begins
  with \<open>fuse\<close>.
\<close>

theorem mountR2Storage_already_mounted:
  assumes "configured env" and "probeMount cfg sb h = Some (Inr (Mounted fsType), h')"
  shows "mountR2Storage cfg sb env h = Some (Inr True, h') \<and>
         startsWith fsType ''fuse'' \<and>
         startedCmds (drop (length h) h') = [probeCmd cfg] \<and>
         unmountCmd cfg \<notin> set (startedCmds (drop (length h) h')) \<and>
         filter isMountBucket (drop (length h) h') = []"
proof -
  from probeMount_total[of cfg sb h] assms(2) obtain ev where
    ev: "h' = h @ ev" "startedCmds ev = [probeCmd cfg]" "filter isMountBucket ev = []"
    by auto
  have "mountR2Storage cfg sb env h = Some (Inr True, h')"
    using assms by (simp add: mountR2Storage_def bindE_Inr ret_apply)
  moreover have "startsWith fsType ''fuse''"
    using assms(2) by (rule probeMount_Mounted_fuse)
  ultimately show ?thesis
    using ev probeCmd_neq_unmountCmd[of cfg] by simp
qed

theorem mountR2Storage_already_mounted_witness:
  "configured exEnv \<and>
   probeMount exCfg fuseSandbox [] =
     Some (Inr (Mounted ''fuse.s3fs''), [EvStartProcess (probeCmd exCfg), EvGetLogs]) \<and>
   mountR2Storage exCfg fuseSandbox exEnv [] =
     Some (Inr True, [EvStartProcess (probeCmd exCfg), EvGetLogs])"
proof -
  have c: "configured exEnv" by code_simp
  have p: "probeMount exCfg fuseSandbox [] =
     Some (Inr (Mounted ''fuse.s3fs''), [EvStartProcess (probeCmd exCfg), EvGetLogs])"
    by code_simp
  from mountR2Storage_already_mounted[OF c p] c p show ?thesis by simp
qed

text \<open>
  Claim C3. Let the initial probe report a state \<open>p0\<close> other than mounted, let
  \<open>h2\<close> be the history before the first mount call (after the lazy unmount when
  \<open>p0\<close> is unresponsive) and let that \<open>mountBucket\<close> call fail with \<open>err\<close>.
  If the message of \<open>err\<close> does not match the path-already-in-use signature,
  \<open>mountR2Storage\<close> returns false right after the failed call: no re-probe, no retry.
  If it matches, the controller probes again: a mounted re-probe gives true, a
  not-mounted re-probe gives false, both with a single mount call in the run; an
  unresponsive re-probe is followed by the lazy unmount and one more mount call, whose
  outcome is the result (false when it fails too), with exactly two mount calls in the
  run.
\<close>

theorem mountR2Storage_path_in_use:
  assumes cfgd: "configured env"
    and probe0: "probeMount cfg sb h = Some (Inr p0, h1)"
    and notm: "\<forall>fsType. p0 \<noteq> Mounted fsType"
    and pre: "(if p0 = Unresponsive then lazyUnmountR2 cfg sb else ret ()) h1 = Some (Inr (), h2)"
    and fail: "mountBucket sb (length h2) = Inl err"
  shows
    "(\<not> isMountPathInUseError (errorMessageOf err) \<longrightarrow>
        mountR2Storage cfg sb env h = Some (Inr False, h2 @ [mountEvent cfg env]) \<and>
        length (filter isMountBucket (drop (length h) (h2 @ [mountEvent cfg env]))) = 1) \<and>
     (isMountPathInUseError (errorMessageOf err) \<longrightarrow>
        (\<exists>p1 h4. probeMount cfg sb (h2 @ [mountEvent cfg env]) = Some (Inr p1, h4) \<and>
           (case p1 of
              Mounted fsType \<Rightarrow>
                mountR2Storage cfg sb env h = Some (Inr True, h4) \<and>
                length (filter isMountBucket (drop (length h) h4)) = 1
            | NotMounted fsType \<Rightarrow>
                mountR2Storage cfg sb env h = Some (Inr False, h4) \<and>
                length (filter isMountBucket (drop (length h) h4)) = 1
            | Unresponsive \<Rightarrow>
                (\<exists>ev. lazyUnmountR2 cfg sb h4 =
                         Some (Inr (), h4 @ EvStartProcess (unmountCmd cfg) # ev) \<and>
                      mountR2Storage cfg sb env h =
                         Some (Inr (\<not> isl (mountBucket sb (length (h4 @ EvStartProcess (unmountCmd cfg) # ev)))),
                               h4 @ EvStartProcess (unmountCmd cfg) # ev @ [mountEvent cfg env]) \<and>
                      length (filter isMountBucket
                        (drop (length h) (h4 @ EvStartProcess (unmountCmd cfg) # ev @ [mountEvent cfg env]))) = 2))))"
proof -
  from probeMount_total[of cfg sb h] probe0 obtain ev0 where
    h1: "h1 = h @ ev0" and m0: "filter isMountBucket ev0 = []" by auto
  have "\<exists>ev1. h2 = h1 @ ev1 \<and> filter isMountBucket ev1 = []"
  proof (cases "p0 = Unresponsive")
    case True
    with pre lazyUnmountR2_total[of cfg sb h1] show ?thesis by auto
  next
    case False
    with pre show ?thesis by (simp add: ret_apply)
  qed
  then obtain ev1 where h2: "h2 = h1 @ ev1" and m1: "filter isMountBucket ev1 = []" by blast
  note run = mountR2Storage_after_probe[OF cfgd probe0 notm pre]
  have A: "\<not> isMountPathInUseError (errorMessageOf err) \<longrightarrow>
        mountR2Storage cfg sb env h = Some (Inr False, h2 @ [mountEvent cfg env]) \<and>
        length (filter isMountBucket (drop (length h) (h2 @ [mountEvent cfg env]))) = 1"
    using run fail by (simp add: h1 h2 m0 m1 isMountBucket_mountEvent)
  have B: "isMountPathInUseError (errorMessageOf err) \<longrightarrow>
        (\<exists>p1 h4. probeMount cfg sb (h2 @ [mountEvent cfg env]) = Some (Inr p1, h4) \<and>
           (case p1 of
              Mounted fsType \<Rightarrow>
                mountR2Storage cfg sb env h = Some (Inr True, h4) \<and>
                length (filter isMountBucket (drop (length h) h4)) = 1
            | NotMounted fsType \<Rightarrow>
                mountR2Storage cfg sb env h = Some (Inr False, h4) \<and>
                length (filter isMountBucket (drop (length h) h4)) = 1
            | Unresponsive \<Rightarrow>
                (\<exists>ev. lazyUnmountR2 cfg sb h4 =
                         Some (Inr (), h4 @ EvStartProcess (unmountCmd cfg) # ev) \<and>
                      mountR2Storage cfg sb env h =
                         Some (Inr (\<not> isl (mountBucket sb (length (h4 @ EvStartProcess (unmountCmd cfg) # ev)))),
                               h4 @ EvStartProcess (unmountCmd cfg) # ev @ [mountEvent cfg env]) \<and>
                      length (filter isMountBucket
                        (drop (length h) (h4 @ EvStartProcess (unmountCmd cfg) # ev @ [mountEvent cfg env]))) = 2)))"
  proof
    assume inuse: "isMountPathInUseError (errorMessageOf err)"
    from probeMount_total[of cfg sb "h2 @ [mountEvent cfg env]"] obtain p1 ev2 where
      p1: "probeMount cfg sb (h2 @ [mountEvent cfg env]) = Some (Inr p1, (h2 @ [mountEvent cfg env]) @ ev2)"
      and m2: "filter isMountBucket ev2 = []" by blast
    define h4 where "h4 = (h2 @ [mountEvent cfg env]) @ ev2"
    have cnt4: "length (filter isMountBucket (drop (length h) h4)) = 1"
      by (simp add: h4_def h1 h2 m0 m1 m2 isMountBucket_mountEvent)
    from lazyUnmountR2_total[of cfg sb h4] obtain ev3 where
      u: "lazyUnmountR2 cfg sb h4 = Some (Inr (), h4 @ EvStartProcess (unmountCmd cfg) # ev3)"
      and m3: "filter isMountBucket ev3 = []" by blast
    have cnt5: "length (filter isMountBucket
                  (drop (length h) (h4 @ EvStartProcess (unmountCmd cfg) # ev3 @ [mountEvent cfg env]))) = 2"
      by (simp add: h4_def h1 h2 m0 m1 m2 m3 isMountBucket_mountEvent)
    have run': "mountR2Storage cfg sb env h =
                  bindE (remountAfterConflict cfg sb env)
                       (\<lambda>early. case early of Some b \<Rightarrow> ret b | None \<Rightarrow> ret False)
                       (h2 @ [mountEvent cfg env])"
      using run fail inuse by simp
    have rem: "remountAfterConflict cfg sb env (h2 @ [mountEvent cfg env]) =
           (case p1 of
              Mounted fsType \<Rightarrow> Some (Inr (Some True), h4)
            | NotMounted fsType \<Rightarrow> Some (Inr None, h4)
            | Unresponsive \<Rightarrow>
                Some (Inr (if isl (mountBucket sb (length (h4 @ EvStartProcess (unmountCmd cfg) # ev3)))
                           then None else Some True),
                      (h4 @ EvStartProcess (unmountCmd cfg) # ev3) @ [mountEvent cfg env]))"
      using remountAfterConflict_cases[OF p1[folded h4_def], of env] u
      by (cases p1) simp_all
    show "\<exists>p1 h4. probeMount cfg sb (h2 @ [mountEvent cfg env]) = Some (Inr p1, h4) \<and>
           (case p1 of
              Mounted fsType \<Rightarrow>
                mountR2Storage cfg sb env h = Some (Inr True, h4) \<and>
                length (filter isMountBucket (drop (length h) h4)) = 1
            | NotMounted fsType \<Rightarrow>
                mountR2Storage cfg sb env h = Some (Inr False, h4) \<and>
                length (filter isMountBucket (drop (length h) h4)) = 1
            | Unresponsive \<Rightarrow>
                (\<exists>ev. lazyUnmountR2 cfg sb h4 =
                         Some (Inr (), h4 @ EvStartProcess (unmountCmd cfg) # ev) \<and>
                      mountR2Storage cfg sb env h =
                         Some (Inr (\<not> isl (mountBucket sb (length (h4 @ EvStartProcess (unmountCmd cfg) # ev)))),
                               h4 @ EvStartProcess (unmountCmd cfg) # ev @ [mountEvent cfg env]) \<and>
                      length (filter isMountBucket
                        (drop (length h) (h4 @ EvStartProcess (unmountCmd cfg) # ev @ [mountEvent cfg env]))) = 2))"
    proof (intro exI[of _ p1] exI[of _ h4] conjI)
      show "probeMount cfg sb (h2 @ [mountEvent cfg env]) = Some (Inr p1, h4)"
        using p1 by (simp add: h4_def)
      show "case p1 of
              Mounted fsType \<Rightarrow>
                mountR2Storage cfg sb env h = Some (Inr True, h4) \<and>
                length (filter isMountBucket (drop (length h) h4)) = 1
            | NotMounted fsType \<Rightarrow>
                mountR2Storage cfg sb env h = Some (Inr False, h4) \<and>
                length (filter isMountBucket (drop (length h) h4)) = 1
            | Unresponsive \<Rightarrow>
                (\<exists>ev. lazyUnmountR2 cfg sb h4 =
                         Some (Inr (), h4 @ EvStartProcess (unmountCmd cfg) # ev) \<and>
                      mountR2Storage cfg sb env h =
                         Some (Inr (\<not> isl (mountBucket sb (length (h4 @ EvStartProcess (unmountCmd cfg) # ev)))),
                               h4 @ EvStartProcess (unmountCmd cfg) # ev @ [mountEvent cfg env]) \<and>
                      length (filter isMountBucket
                        (drop (length h) (h4 @ EvStartProcess (unmountCmd cfg) # ev @ [mountEvent cfg env]))) = 2)"
      proof (cases p1)
        case (Mounted fs)
        with run' rem cnt4 show ?thesis by (simp add: bindE_Inr ret_apply)
      next
        case (NotMounted fs)
        with run' rem cnt4 show ?thesis by (simp add: bindE_Inr ret_apply)
      next
        case Unresponsive
        have "mountR2Storage cfg sb env h =
                Some (Inr (\<not> isl (mountBucket sb (length (h4 @ EvStartProcess (unmountCmd cfg) # ev3)))),
                      h4 @ EvStartProcess (unmountCmd cfg) # ev3 @ [mountEvent cfg env])"
          using run' rem Unresponsive by (simp add: bindE_Inr ret_apply)
        with u cnt5 Unresponsive show ?thesis by auto
      qed
    qed
  qed
  from A B show ?thesis by blast
qed

theorem mountR2Storage_path_in_use_witness:
  "(configured exEnv \<and>
   probeMount exCfg conflictSandbox [] =
     Some (Inr (NotMounted ''__ERR__''), [EvStartProcess (probeCmd exCfg), EvGetLogs]) \<and>
   mountBucket conflictSandbox 2 = Inl inUseError \<and>
   isMountPathInUseError (errorMessageOf inUseError) \<and>
   probeMount exCfg conflictSandbox
       [EvStartProcess (probeCmd exCfg), EvGetLogs, mountEvent exCfg exEnv] =
     Some (Inr Unresponsive,
           [EvStartProcess (probeCmd exCfg), EvGetLogs, mountEvent exCfg exEnv,
            EvStartProcess (probeCmd exCfg)] @ replicate 25 (EvSleep 200)) \<and>
   mountR2Storage exCfg conflictSandbox exEnv [] =
     Some (Inr True,
           [EvStartProcess (probeCmd exCfg), EvGetLogs, mountEvent exCfg exEnv,
            EvStartProcess (probeCmd exCfg)] @ replicate 25 (EvSleep 200) @
           [EvStartProcess (unmountCmd exCfg), mountEvent exCfg exEnv])) \<and>
   (configured exEnv \<and>
   probeMount exCfg brokenMountSandbox [] =
     Some (Inr (NotMounted ''__ERR__''), [EvStartProcess (probeCmd exCfg), EvGetLogs]) \<and>
   mountBucket brokenMountSandbox 2 = Inl (ErrorObj ''Mount failed'') \<and>
   \<not> isMountPathInUseError (errorMessageOf (ErrorObj ''Mount failed'')) \<and>
   mountR2Storage exCfg brokenMountSandbox exEnv [] =
     Some (Inr False, [EvStartProcess (probeCmd exCfg), EvGetLogs, mountEvent exCfg exEnv]))"
proof -
  have first: "configured exEnv \<and>
   probeMount exCfg conflictSandbox [] =
     Some (Inr (NotMounted ''__ERR__''), [EvStartProcess (probeCmd exCfg), EvGetLogs]) \<and>
   mountBucket conflictSandbox 2 = Inl inUseError \<and>
   isMountPathInUseError (errorMessageOf inUseError) \<and>
   probeMount exCfg conflictSandbox
       [EvStartProcess (probeCmd exCfg), EvGetLogs, mountEvent exCfg exEnv] =
     Some (Inr Unresponsive,
           [EvStartProcess (probeCmd exCfg), EvGetLogs, mountEvent exCfg exEnv,
            EvStartProcess (probeCmd exCfg)] @ replicate 25 (EvSleep 200)) \<and>
   mountR2Storage exCfg conflictSandbox exEnv [] =
     Some (Inr True,
           [EvStartProcess (probeCmd exCfg), EvGetLogs, mountEvent exCfg exEnv,
            EvStartProcess (probeCmd exCfg)] @ replicate 25 (EvSleep 200) @
           [EvStartProcess (unmountCmd exCfg), mountEvent exCfg exEnv])"
  proof -
    define h1 where "h1 = [EvStartProcess (probeCmd exCfg), EvGetLogs]"
    define h4 where "h4 = [EvStartProcess (probeCmd exCfg), EvGetLogs, mountEvent exCfg exEnv,
              EvStartProcess (probeCmd exCfg)] @ replicate 25 (EvSleep 200)"
    have c: "configured exEnv" by code_simp
    have p0: "probeMount exCfg conflictSandbox [] = Some (Inr (NotMounted ''__ERR__''), h1)"
      unfolding h1_def by code_simp
    have notm: "\<forall>fsType. NotMounted ''__ERR__'' \<noteq> Mounted fsType" by simp
    have pre: "(if NotMounted ''__ERR__'' = Unresponsive then lazyUnmountR2 exCfg conflictSandbox else ret ()) h1
                 = Some (Inr (), h1)"
      by (simp add: ret_apply)
    have fail: "mountBucket conflictSandbox (length h1) = Inl inUseError"
      unfolding h1_def by code_simp
    have inuse: "isMountPathInUseError (errorMessageOf inUseError)" by code_simp
    have p1: "probeMount exCfg conflictSandbox (h1 @ [mountEvent exCfg exEnv]) = Some (Inr Unresponsive, h4)"
      unfolding h1_def h4_def by code_simp
    have u: "lazyUnmountR2 exCfg conflictSandbox h4 =
               Some (Inr (), h4 @ [EvStartProcess (unmountCmd exCfg)])"
      unfolding h4_def by code_simp
    have m: "mountBucket conflictSandbox (length (h4 @ [EvStartProcess (unmountCmd exCfg)])) = Inr ()"
      unfolding h4_def by code_simp
    from mountR2Storage_path_in_use[OF c p0 notm pre fail] inuse p1 u m
    have "mountR2Storage exCfg conflictSandbox exEnv [] =
            Some (Inr True, h4 @ [EvStartProcess (unmountCmd exCfg), mountEvent exCfg exEnv])"
      by auto
    moreover have "mountBucket conflictSandbox 2 = Inl inUseError" by code_simp
    ultimately show ?thesis
      using c p0 inuse p1 by (simp add: h1_def h4_def)
  qed
  have second: "configured exEnv \<and>
   probeMount exCfg brokenMountSandbox [] =
     Some (Inr (NotMounted ''__ERR__''), [EvStartProcess (probeCmd exCfg), EvGetLogs]) \<and>
   mountBucket brokenMountSandbox 2 = Inl (ErrorObj ''Mount failed'') \<and>
   \<not> isMountPathInUseError (errorMessageOf (ErrorObj ''Mount failed'')) \<and>
   mountR2Storage exCfg brokenMountSandbox exEnv [] =
     Some (Inr False, [EvStartProcess (probeCmd exCfg), EvGetLogs, mountEvent exCfg exEnv])"
  proof -
    define h1 where "h1 = [EvStartProcess (probeCmd exCfg), EvGetLogs]"
    have c: "configured exEnv" by code_simp
    have p0: "probeMount exCfg brokenMountSandbox [] = Some (Inr (NotMounted ''__ERR__''), h1)"
      unfolding h1_def by code_simp
    have notm: "\<forall>fsType. NotMounted ''__ERR__'' \<noteq> Mounted fsType" by simp
    have pre: "(if NotMounted ''__ERR__'' = Unresponsive then lazyUnmountR2 exCfg brokenMountSandbox else ret ()) h1
                 = Some (Inr (), h1)"
      by (simp add: ret_apply)
    have fail: "mountBucket brokenMountSandbox (length h1) = Inl (ErrorObj ''Mount failed'')"
      unfolding h1_def by code_simp
    have other: "\<not> isMountPathInUseError (errorMessageOf (ErrorObj ''Mount failed''))" by code_simp
    from mountR2Storage_path_in_use[OF c p0 notm pre fail] other
    have "mountR2Storage exCfg brokenMountSandbox exEnv [] = Some (Inr False, h1 @ [mountEvent exCfg exEnv])"
      by blast
    moreover have "mountBucket brokenMountSandbox 2 = Inl (ErrorObj ''Mount failed'')" by code_simp
    ultimately show ?thesis using c p0 other by (simp add: h1_def)
  qed
  from first second show ?thesis by (rule conjI)
qed

text \<open>
  Claim C9. When the initial probe reports unresponsive, the event right after the probe
  is the start of the lazy-unmount command, and the probe itself made no mount call, so
  every mount call of the run comes after that unmount attempt. When the re-probe after
  a path-already-in-use failure reports unresponsive, the event right after the re-probe
  is again the start of the lazy-unmount command, and no mount call lies between the
  failed mount call and that unmount attempt.
\<close>

theorem mountR2Storage_unmount_before_mount:
  assumes cfgd: "configured env"
  shows
    "(\<forall>h1. probeMount cfg sb h = Some (Inr Unresponsive, h1) \<longrightarrow>
        (\<exists>r ev. mountR2Storage cfg sb env h =
                   Some (Inr r, h1 @ EvStartProcess (unmountCmd cfg) # ev) \<and>
                filter isMountBucket (drop (length h) h1) = [])) \<and>
     (\<forall>p0 h1 h2 err h4.
        probeMount cfg sb h = Some (Inr p0, h1) \<and> (\<forall>fsType. p0 \<noteq> Mounted fsType) \<and>
        (if p0 = Unresponsive then lazyUnmountR2 cfg sb else ret ()) h1 = Some (Inr (), h2) \<and>
        mountBucket sb (length h2) = Inl err \<and> isMountPathInUseError (errorMessageOf err) \<and>
        probeMount cfg sb (h2 @ [mountEvent cfg env]) = Some (Inr Unresponsive, h4) \<longrightarrow>
        (\<exists>r ev. mountR2Storage cfg sb env h =
                   Some (Inr r, h4 @ EvStartProcess (unmountCmd cfg) # ev) \<and>
                filter isMountBucket (drop (length h2 + 1) h4) = []))"
proof (intro conjI allI impI)
  fix h1
  assume p: "probeMount cfg sb h = Some (Inr Unresponsive, h1)"
  from probeMount_total[of cfg sb h] p obtain ev0 where
    h1: "h1 = h @ ev0" and m0: "filter isMountBucket ev0 = []" by auto
  from lazyUnmountR2_total[of cfg sb h1] obtain ev1 where
    u: "lazyUnmountR2 cfg sb h1 = Some (Inr (), h1 @ EvStartProcess (unmountCmd cfg) # ev1)" by blast
  define h2 where "h2 = h1 @ EvStartProcess (unmountCmd cfg) # ev1"
  have pre: "(if Unresponsive = Unresponsive then lazyUnmountR2 cfg sb else ret ()) h1 = Some (Inr (), h2)"
    using u by (simp add: h2_def)
  note run = mountR2Storage_after_probe[OF cfgd p _ pre]
  from finish_mount_total[of cfg sb env "h2 @ [mountEvent cfg env]"] obtain r3 ev3 where
    f: "bindE (remountAfterConflict cfg sb env)
            (\<lambda>early. case early of Some b \<Rightarrow> ret b | None \<Rightarrow> ret False) (h2 @ [mountEvent cfg env])
          = Some (Inr r3, (h2 @ [mountEvent cfg env]) @ ev3)" by blast
  have "\<exists>r ev. mountR2Storage cfg sb env h = Some (Inr r, h1 @ EvStartProcess (unmountCmd cfg) # ev)"
  proof (cases "mountBucket sb (length h2)")
    case (Inr u)
    with run have "mountR2Storage cfg sb env h =
        Some (Inr True, h1 @ EvStartProcess (unmountCmd cfg) # (ev1 @ [mountEvent cfg env]))"
      by (simp add: h2_def)
    then show ?thesis by blast
  next
    case (Inl err)
    show ?thesis
    proof (cases "isMountPathInUseError (errorMessageOf err)")
      case True
      with run Inl f have "mountR2Storage cfg sb env h =
        Some (Inr r3, h1 @ EvStartProcess (unmountCmd cfg) # (ev1 @ [mountEvent cfg env] @ ev3))"
        by (simp add: h2_def)
      then show ?thesis by blast
    next
      case False
      with run Inl have "mountR2Storage cfg sb env h =
        Some (Inr False, h1 @ EvStartProcess (unmountCmd cfg) # (ev1 @ [mountEvent cfg env]))"
        by (simp add: h2_def)
      then show ?thesis by blast
    qed
  qed
  then show "\<exists>r ev. mountR2Storage cfg sb env h =
                   Some (Inr r, h1 @ EvStartProcess (unmountCmd cfg) # ev) \<and>
                filter isMountBucket (drop (length h) h1) = []"
    using h1 m0 by auto
next
  fix p0 h1 h2 err h4
  assume a: "probeMount cfg sb h = Some (Inr p0, h1) \<and> (\<forall>fsType. p0 \<noteq> Mounted fsType) \<and>
        (if p0 = Unresponsive then lazyUnmountR2 cfg sb else ret ()) h1 = Some (Inr (), h2) \<and>
        mountBucket sb (length h2) = Inl err \<and> isMountPathInUseError (errorMessageOf err) \<and>
        probeMount cfg sb (h2 @ [mountEvent cfg env]) = Some (Inr Unresponsive, h4)"
  then have probe0: "probeMount cfg sb h = Some (Inr p0, h1)"
    and notm: "\<forall>fsType. p0 \<noteq> Mounted fsType"
    and pre: "(if p0 = Unresponsive then lazyUnmountR2 cfg sb else ret ()) h1 = Some (Inr (), h2)"
    and fail: "mountBucket sb (length h2) = Inl err"
    and inuse: "isMountPathInUseError (errorMessageOf err)"
    and p1: "probeMount cfg sb (h2 @ [mountEvent cfg env]) = Some (Inr Unresponsive, h4)"
    by simp_all
  from probeMount_total[of cfg sb "h2 @ [mountEvent cfg env]"] p1 obtain ev2 where
    h4: "h4 = (h2 @ [mountEvent cfg env]) @ ev2" and m2: "filter isMountBucket ev2 = []" by auto
  from lazyUnmountR2_total[of cfg sb h4] obtain ev3 where
    u: "lazyUnmountR2 cfg sb h4 = Some (Inr (), h4 @ EvStartProcess (unmountCmd cfg) # ev3)" by blast
  have "mountR2Storage cfg sb env h =
          bindE (remountAfterConflict cfg sb env)
            (\<lambda>early. case early of Some b \<Rightarrow> ret b | None \<Rightarrow> ret False) (h2 @ [mountEvent cfg env])"
    using mountR2Storage_after_probe[OF cfgd probe0 notm pre] fail inuse by simp
  moreover have "remountAfterConflict cfg sb env (h2 @ [mountEvent cfg env]) =
      Some (Inr (if isl (mountBucket sb (length (h4 @ EvStartProcess (unmountCmd cfg) # ev3)))
                 then None else Some True),
            (h4 @ EvStartProcess (unmountCmd cfg) # ev3) @ [mountEvent cfg env])"
    using remountAfterConflict_cases[OF p1, of env] u by simp
  ultimately have "\<exists>r. mountR2Storage cfg sb env h =
      Some (Inr r, h4 @ EvStartProcess (unmountCmd cfg) # (ev3 @ [mountEvent cfg env]))"
    by (auto simp: bindE_Inr ret_apply)
  then show "\<exists>r ev. mountR2Storage cfg sb env h =
                   Some (Inr r, h4 @ EvStartProcess (unmountCmd cfg) # ev) \<and>
                filter isMountBucket (drop (length h2 + 1) h4) = []"
    using h4 m2 by auto
qed

theorem mountR2Storage_unmount_before_mount_witness:
  "(configured exEnv \<and>
   probeMount exCfg staleSandbox [] =
     Some (Inr Unresponsive, EvStartProcess (probeCmd exCfg) # replicate 25 (EvSleep 200)) \<and>
   (\<exists>r ev. mountR2Storage exCfg staleSandbox exEnv [] =
      Some (Inr r, (EvStartProcess (probeCmd exCfg) # replicate 25 (EvSleep 200)) @
                   EvStartProcess (unmountCmd exCfg) # ev))) \<and>
   (configured exEnv \<and>
   probeMount exCfg conflictSandbox [] =
     Some (Inr (NotMounted ''__ERR__''), [EvStartProcess (probeCmd exCfg), EvGetLogs]) \<and>
   mountBucket conflictSandbox 2 = Inl inUseError \<and>
   isMountPathInUseError (errorMessageOf inUseError) \<and>
   probeMount exCfg conflictSandbox
       [EvStartProcess (probeCmd exCfg), EvGetLogs, mountEvent exCfg exEnv] =
     Some (Inr Unresponsive,
           [EvStartProcess (probeCmd exCfg), EvGetLogs, mountEvent exCfg exEnv,
            EvStartProcess (probeCmd exCfg)] @ replicate 25 (EvSleep 200)) \<and>
   (\<exists>r ev. mountR2Storage exCfg conflictSandbox exEnv [] =
      Some (Inr r, ([EvStartProcess (probeCmd exCfg), EvGetLogs, mountEvent exCfg exEnv,
                     EvStartProcess (probeCmd exCfg)] @ replicate 25 (EvSleep 200)) @
                   EvStartProcess (unmountCmd exCfg) # ev)))"
proof -
  have first: "configured exEnv \<and>
   probeMount exCfg staleSandbox [] =
     Some (Inr Unresponsive, EvStartProcess (probeCmd exCfg) # replicate 25 (EvSleep 200)) \<and>
   (\<exists>r ev. mountR2Storage exCfg staleSandbox exEnv [] =
      Some (Inr r, (EvStartProcess (probeCmd exCfg) # replicate 25 (EvSleep 200)) @
                   EvStartProcess (unmountCmd exCfg) # ev))"
  proof -
    have c: "configured exEnv" by code_simp
    have p: "probeMount exCfg staleSandbox [] =
       Some (Inr Unresponsive, EvStartProcess (probeCmd exCfg) # replicate 25 (EvSleep 200))"
      by code_simp
    from mountR2Storage_unmount_before_mount[OF c, of exCfg staleSandbox "[]"] p
    have "\<exists>r ev. mountR2Storage exCfg staleSandbox exEnv [] =
        Some (Inr r, (EvStartProcess (probeCmd exCfg) # replicate 25 (EvSleep 200)) @
                     EvStartProcess (unmountCmd exCfg) # ev)"
      by blast
    with c p show ?thesis by simp
  qed
  have second: "configured exEnv \<and>
   probeMount exCfg conflictSandbox [] =
     Some (Inr (NotMounted ''__ERR__''), [EvStartProcess (probeCmd exCfg), EvGetLogs]) \<and>
   mountBucket conflictSandbox 2 = Inl inUseError \<and>
   isMountPathInUseError (errorMessageOf inUseError) \<and>
   probeMount exCfg conflictSandbox
       [EvStartProcess (probeCmd exCfg), EvGetLogs, mountEvent exCfg exEnv] =
     Some (Inr Unresponsive,
           [EvStartProcess (probeCmd exCfg), EvGetLogs, mountEvent exCfg exEnv,
            EvStartProcess (probeCmd exCfg)] @ replicate 25 (EvSleep 200)) \<and>
   (\<exists>r ev. mountR2Storage exCfg conflictSandbox exEnv [] =
      Some (Inr r, ([EvStartProcess (probeCmd exCfg), EvGetLogs, mountEvent exCfg exEnv,
                     EvStartProcess (probeCmd exCfg)] @ replicate 25 (EvSleep 200)) @
                   EvStartProcess (unmountCmd exCfg) # ev))"
  proof -
    define h1 where "h1 = [EvStartProcess (probeCmd exCfg), EvGetLogs]"
    define h4 where "h4 = [EvStartProcess (probeCmd exCfg), EvGetLogs, mountEvent exCfg exEnv,
              EvStartProcess (probeCmd exCfg)] @ replicate 25 (EvSleep 200)"
    have c: "configured exEnv" by code_simp
    have p0: "probeMount exCfg conflictSandbox [] = Some (Inr (NotMounted ''__ERR__''), h1)"
      unfolding h1_def by code_simp
    have notm: "\<forall>fsType. NotMounted ''__ERR__'' \<noteq> Mounted fsType" by simp
    have pre: "(if NotMounted ''__ERR__'' = Unresponsive then lazyUnmountR2 exCfg conflictSandbox else ret ()) h1
                 = Some (Inr (), h1)"
      by (simp add: ret_apply)
    have fail: "mountBucket conflictSandbox (length h1) = Inl inUseError"
      unfolding h1_def by code_simp
    have inuse: "isMountPathInUseError (errorMessageOf inUseError)" by code_simp
    have p1: "probeMount exCfg conflictSandbox (h1 @ [mountEvent exCfg exEnv]) = Some (Inr Unresponsive, h4)"
      unfolding h1_def h4_def by code_simp
    from mountR2Storage_unmount_before_mount[OF c, of exCfg conflictSandbox "[]"]
    have "\<forall>p0 h1 h2 err h4.
          probeMount exCfg conflictSandbox [] = Some (Inr p0, h1) \<and> (\<forall>fsType. p0 \<noteq> Mounted fsType) \<and>
          (if p0 = Unresponsive then lazyUnmountR2 exCfg conflictSandbox else ret ()) h1 = Some (Inr (), h2) \<and>
          mountBucket conflictSandbox (length h2) = Inl err \<and> isMountPathInUseError (errorMessageOf err) \<and>
          probeMount exCfg conflictSandbox (h2 @ [mountEvent exCfg exEnv]) = Some (Inr Unresponsive, h4) \<longrightarrow>
          (\<exists>r ev. mountR2Storage exCfg conflictSandbox exEnv [] =
                     Some (Inr r, h4 @ EvStartProcess (unmountCmd exCfg) # ev) \<and>
                  filter isMountBucket (drop (length h2 + 1) h4) = [])"
      by (rule conjunct2)
    with p0 notm pre fail inuse p1
    have "\<exists>r ev. mountR2Storage exCfg conflictSandbox exEnv [] =
                     Some (Inr r, h4 @ EvStartProcess (unmountCmd exCfg) # ev)"
      by blast
    moreover have "mountBucket conflictSandbox 2 = Inl inUseError" by code_simp
    ultimately show ?thesis using c p0 inuse p1 by (simp add: h1_def h4_def)
  qed
  from first second show ?thesis by (rule conjI)
qed


section \<open>Properties of the sync orchestrator\<close>

text \<open>
  Claim C7. When any of the three credentials is absent (or empty, which JavaScript
  treats alike), \<open>syncToR2\<close> returns \<open>{success: false, error: "R2 storage is not
  configured"}\<close> and the history is unchanged: no process is started and no other
  call to the sandbox is made.
\<close>

theorem syncToR2_not_configured:
  assumes "\<not> truthy (R2_ACCESS_KEY_ID env) \<or> \<not> truthy (R2_SECRET_ACCESS_KEY env) \<or>
           \<not> truthy (CF_ACCOUNT_ID env)"
  shows "syncToR2 cfg sb env h =
           Some (Inr \<lparr>success = False, lastSync = None,
                      error = Some ''R2 storage is not configured'', details = None\<rparr>, h)"
  using assms
  by (auto simp: syncToR2_def syncToR2_preflight_def configured_def bindE_def ret_def)

theorem syncToR2_not_configured_witness:
  "R2_ACCESS_KEY_ID emptyEnv = None \<and>
   syncToR2 exCfg idleSandbox emptyEnv [] =
     Some (Inr \<lparr>success = False, lastSync = None,
                error = Some ''R2 storage is not configured'', details = None\<rparr>, [])"
  using syncToR2_not_configured [of emptyEnv exCfg idleSandbox "[]"]
  by (simp add: emptyEnv_def truthy_def)


text \<open>
  Claim C6, amended. Let the run reach the verification (credentials configured, mount
  succeeded, no active rsync found), and call deciding the first of the up to 50 log
  reads of the verification poll whose stdout holds \<open>__OK__\<close> or
  \<open>__MISSING__\<close>, or the 50th read when none does. If the output as the deciding
  read got it shows the remote workspace non-empty and the local workspace empty, then
  \<open>syncToR2\<close> returns a failure right after that read, and no stage command (no
  copy pass, no marker write) has been started. The error is
  \<open>Sync aborted: local workspace appears empty\<close>, unless that output also reports
  the config file missing: the \<open>__MISSING__\<close> check comes first, and the error
  is then \<open>Sync aborted: source missing openclaw.json\<close>.
\<close>

theorem syncToR2_empty_workspace_guard:
  assumes cfgd: "configured env"
    and mount: "mountR2Storage cfg sb env h = Some (Inr True, h1)"
    and check: "checkForActiveRsync cfg sb h1 = Some (Inr a, h2)"
    and idle: "\<not> hasActive a"
    and wait: "waitForProcess (startProcess sb (length h2) (verifyCmd cfg)) 10000 200
                 (h2 @ [EvStartProcess (verifyCmd cfg)]) = Some (w, hw)"
    and reads: "j < 50"
    and early: "\<forall>i<j. \<not> verifyDecided (verifyRead cfg sb h2 hw i)"
    and stop: "verifyDecided (verifyRead cfg sb h2 hw j) \<or> j = 49"
    and remote: "str_includes (verifyRead cfg sb h2 hw j) ''__WORKSPACE_REMOTE_NONEMPTY__''"
    and local: "str_includes (verifyRead cfg sb h2 hw j) ''__WORKSPACE_LOCAL_EMPTY__''"
  shows "\<exists>r hf. syncToR2 cfg sb env h = Some (Inr r, hf) \<and> \<not> success r \<and>
           error r = Some (if str_includes (verifyRead cfg sb h2 hw j) ''__MISSING__''
                           then ''Sync aborted: source missing openclaw.json''
                           else ''Sync aborted: local workspace appears empty'') \<and>
           hf = hw @ concat (replicate j [EvGetLogs, EvSleep 100]) @
                  (if verifyDecided (verifyRead cfg sb h2 hw j)
                   then [EvGetLogs] else [EvGetLogs, EvSleep 100]) \<and>
           stageStarts cfg (drop (length h) hf) = []"
proof -
  define checkProc where "checkProc = startProcess sb (length h2) (verifyCmd cfg)"
  define out where "out = verifyRead cfg sb h2 hw j"
  define hf where "hf = hw @ concat (replicate j [EvGetLogs, EvSleep 100]) @
                  (if verifyDecided out then [EvGetLogs] else [EvGetLogs, EvSleep 100])"
  have w': "catchE (waitForProcess checkProc 10000 200) (\<lambda>_. ret ()) (h2 @ [EvStartProcess (verifyCmd cfg)])
              = Some (Inr (), hw)"
    using wait by (cases w) (simp_all add: catchE_def ret_apply checkProc_def)
  have e: "\<forall>i<j. \<not> verifyDecided (logsStdout (p_getLogs checkProc (length hw + 2 * i)))"
    using early by (simp add: verifyRead_def checkProc_def)
  have s: "verifyDecided (logsStdout (p_getLogs checkProc (length hw + 2 * j))) \<or> Suc j = 50"
    using stop by (auto simp: verifyRead_def checkProc_def)
  from pollVerifyLogs_read[OF reads e s, of emptyLogs] obtain logs where
    pl: "pollVerifyLogs checkProc 50 emptyLogs hw = Some (Inr logs, hf)"
    and so: "stdout logs = out"
    by (auto simp: hf_def out_def verifyRead_def checkProc_def)
  have verify: "readVerifyOutput cfg sb h2 = Some (Inr (checkProc, logs), hf)"
    using w' pl
    by (simp add: readVerifyOutput_def bindE_Inr sandbox_startProcess_apply ret_apply
          checkProc_def[symmetric])
  define r where "r = (if str_includes out ''__MISSING__''
                       then missingConfigResult else emptyWorkspaceResult)"
  have pre: "syncToR2_preflight cfg sb env h = Some (Inr (Some r), hf)"
    using cfgd mount check idle syncToR2_verify_apply[OF verify] remote local
    by (simp add: syncToR2_preflight_def bindE_Inr r_def so out_def)
  from syncToR2_preflight_quiet[OF pre] have q: "stageStarts cfg (drop (length h) hf) = []"
    by auto
  have "syncToR2 cfg sb env h = Some (Inr r, hf)"
    using pre by (rule syncToR2_early)
  moreover have "\<not> success r"
    by (simp add: r_def missingConfigResult_def emptyWorkspaceResult_def)
  moreover have "error r = Some (if str_includes out ''__MISSING__''
                           then ''Sync aborted: source missing openclaw.json''
                           else ''Sync aborted: local workspace appears empty'')"
    by (simp add: r_def missingConfigResult_def emptyWorkspaceResult_def)
  ultimately show ?thesis using q unfolding hf_def out_def by blast
qed

theorem syncToR2_empty_workspace_guard_witness:
  "configured exEnv \<and>
   mountR2Storage exCfg emptyLocalSandbox exEnv [] =
     Some (Inr True, [EvStartProcess (probeCmd exCfg), EvGetLogs]) \<and>
   checkForActiveRsync exCfg emptyLocalSandbox [EvStartProcess (probeCmd exCfg), EvGetLogs] =
     Some (Inr \<lparr>hasActive = False, ac_details = None\<rparr>,
           [EvStartProcess (probeCmd exCfg), EvGetLogs, EvListProcesses]) \<and>
   waitForProcess (startProcess emptyLocalSandbox 3 (verifyCmd exCfg)) 10000 200
       [EvStartProcess (probeCmd exCfg), EvGetLogs, EvListProcesses, EvStartProcess (verifyCmd exCfg)] =
     Some (Inr (), [EvStartProcess (probeCmd exCfg), EvGetLogs, EvListProcesses,
                    EvStartProcess (verifyCmd exCfg)]) \<and>
   verifyRead exCfg emptyLocalSandbox [EvStartProcess (probeCmd exCfg), EvGetLogs, EvListProcesses]
     [EvStartProcess (probeCmd exCfg), EvGetLogs, EvListProcesses, EvStartProcess (verifyCmd exCfg)] 0 =
     emptyLocalOutput \<and>
   verifyDecided emptyLocalOutput \<and>
   str_includes emptyLocalOutput ''__WORKSPACE_REMOTE_NONEMPTY__'' \<and>
   str_includes emptyLocalOutput ''__WORKSPACE_LOCAL_EMPTY__'' \<and>
   (\<exists>r. syncToR2 exCfg emptyLocalSandbox exEnv [] = Some (Inr r, preflightTrace) \<and>
        error r = Some ''Sync aborted: local workspace appears empty'' \<and>
        stageStarts exCfg preflightTrace = []) \<and>
   verifyRead exCfg lateOutputSandbox [EvStartProcess (probeCmd exCfg), EvGetLogs, EvListProcesses]
     [EvStartProcess (probeCmd exCfg), EvGetLogs, EvListProcesses, EvStartProcess (verifyCmd exCfg)] 0 = [] \<and>
   verifyRead exCfg lateOutputSandbox [EvStartProcess (probeCmd exCfg), EvGetLogs, EvListProcesses]
     [EvStartProcess (probeCmd exCfg), EvGetLogs, EvListProcesses, EvStartProcess (verifyCmd exCfg)] 1 =
     emptyLocalOutput \<and>
   (\<exists>r. syncToR2 exCfg lateOutputSandbox exEnv [] =
          Some (Inr r, preflightTrace @ [EvSleep 100, EvGetLogs]) \<and>
        error r = Some ''Sync aborted: local workspace appears empty'' \<and>
        stageStarts exCfg (preflightTrace @ [EvSleep 100, EvGetLogs]) = [])"
proof -
  define h1 where "h1 = [EvStartProcess (probeCmd exCfg), EvGetLogs]"
  define h2 where "h2 = [EvStartProcess (probeCmd exCfg), EvGetLogs, EvListProcesses]"
  define hw where "hw = [EvStartProcess (probeCmd exCfg), EvGetLogs, EvListProcesses,
                         EvStartProcess (verifyCmd exCfg)]"
  have len: "length h2 = 3" by (simp add: h2_def)
  have c: "configured exEnv" by code_simp
  have idle: "\<not> hasActive \<lparr>hasActive = False, ac_details = None\<rparr>" by simp
  have dec: "verifyDecided emptyLocalOutput" by code_simp
  have rem: "str_includes emptyLocalOutput ''__WORKSPACE_REMOTE_NONEMPTY__''" by code_simp
  have loc: "str_includes emptyLocalOutput ''__WORKSPACE_LOCAL_EMPTY__''" by code_simp
  have nm: "\<not> str_includes emptyLocalOutput ''__MISSING__''" by code_simp
  have nd: "\<not> verifyDecided []" by code_simp
  have m: "mountR2Storage exCfg emptyLocalSandbox exEnv [] = Some (Inr True, h1)"
    unfolding h1_def by code_simp
  have a: "checkForActiveRsync exCfg emptyLocalSandbox h1 =
             Some (Inr \<lparr>hasActive = False, ac_details = None\<rparr>, h2)"
    unfolding h1_def h2_def by code_simp
  have w: "waitForProcess (startProcess emptyLocalSandbox (length h2) (verifyCmd exCfg)) 10000 200
             (h2 @ [EvStartProcess (verifyCmd exCfg)]) = Some (Inr (), hw)"
    unfolding h2_def hw_def by code_simp
  have r0: "verifyRead exCfg emptyLocalSandbox h2 hw 0 = emptyLocalOutput"
    unfolding h2_def hw_def by code_simp
  have j0: "(0::nat) < 50" by simp
  have e0: "\<forall>i<(0::nat). \<not> verifyDecided (verifyRead exCfg emptyLocalSandbox h2 hw i)" by simp
  from syncToR2_empty_workspace_guard[OF c m a idle w j0 e0] r0 dec rem loc nm
  have E: "\<exists>r. syncToR2 exCfg emptyLocalSandbox exEnv [] = Some (Inr r, hw @ [EvGetLogs]) \<and>
        error r = Some ''Sync aborted: local workspace appears empty'' \<and>
        stageStarts exCfg (hw @ [EvGetLogs]) = []"
    by auto
  have m': "mountR2Storage exCfg lateOutputSandbox exEnv [] = Some (Inr True, h1)"
    unfolding h1_def by code_simp
  have a': "checkForActiveRsync exCfg lateOutputSandbox h1 =
             Some (Inr \<lparr>hasActive = False, ac_details = None\<rparr>, h2)"
    unfolding h1_def h2_def by code_simp
  have w': "waitForProcess (startProcess lateOutputSandbox (length h2) (verifyCmd exCfg)) 10000 200
             (h2 @ [EvStartProcess (verifyCmd exCfg)]) = Some (Inr (), hw)"
    unfolding h2_def hw_def by code_simp
  have l0: "verifyRead exCfg lateOutputSandbox h2 hw 0 = []"
    unfolding h2_def hw_def by code_simp
  have l1: "verifyRead exCfg lateOutputSandbox h2 hw 1 = emptyLocalOutput"
    unfolding h2_def hw_def by code_simp
  have j1: "(1::nat) < 50" by simp
  have e1: "\<forall>i<(1::nat). \<not> verifyDecided (verifyRead exCfg lateOutputSandbox h2 hw i)"
    using l0 nd by simp
  from syncToR2_empty_workspace_guard[OF c m' a' idle w' j1 e1] l1 dec rem loc nm
  have L: "\<exists>r. syncToR2 exCfg lateOutputSandbox exEnv [] =
          Some (Inr r, hw @ [EvGetLogs, EvSleep 100, EvGetLogs]) \<and>
        error r = Some ''Sync aborted: local workspace appears empty'' \<and>
        stageStarts exCfg (hw @ [EvGetLogs, EvSleep 100, EvGetLogs]) = []"
    by auto
  have pt: "hw @ [EvGetLogs] = preflightTrace" by (simp add: preflightTrace_def hw_def)
  have pt2: "hw @ [EvGetLogs, EvSleep 100, EvGetLogs] = preflightTrace @ [EvSleep 100, EvGetLogs]"
    by (simp add: preflightTrace_def hw_def)
  have w3: "waitForProcess (startProcess emptyLocalSandbox 3 (verifyCmd exCfg)) 10000 200
       [EvStartProcess (probeCmd exCfg), EvGetLogs, EvListProcesses, EvStartProcess (verifyCmd exCfg)] =
     Some (Inr (), [EvStartProcess (probeCmd exCfg), EvGetLogs, EvListProcesses,
                    EvStartProcess (verifyCmd exCfg)])"
    by code_simp
  show ?thesis
    apply (intro conjI)
    apply (rule c)
    apply (rule m[unfolded h1_def])
    apply (rule a[unfolded h1_def h2_def])
    apply (rule w3)
    apply (rule r0[unfolded h2_def hw_def])
    apply (rule dec)
    apply (rule rem)
    apply (rule loc)
    apply (rule E[unfolded pt])
    apply (rule l0[unfolded h2_def hw_def])
    apply (rule l1[unfolded h2_def hw_def])
    apply (rule L[unfolded pt2])
    done
qed

text \<open>
  The claim as written fails in two ways. When the config file is missing too, which is
  what the batched probe prints in a container whose local state was wiped, the output
  shows the remote workspace non-empty and the local one empty, and the error does not
  mention the workspace. And when the logs lag, so that the first read gets the line of
  the config check only, the poll ends on that read: the complete output, as every
  later read gets it, shows the remote workspace non-empty and the local one empty, and
  the run goes through all the copy passes and succeeds.
\<close>

theorem syncToR2_empty_workspace_guard_counterexample:
  "syncToR2 exCfg wipedSandbox exEnv [] =
     Some (Inr \<lparr>success = False, lastSync = None,
                error = Some ''Sync aborted: source missing openclaw.json'',
                details = Some (''The local config directory is missing critical files. '' @
                                ''This could indicate corruption or an incomplete setup.'')\<rparr>,
           preflightTrace) \<and>
   logsStdout (p_getLogs (startProcess wipedSandbox 3 (verifyCmd exCfg)) 4) = wipedOutput \<and>
   str_includes wipedOutput ''__WORKSPACE_REMOTE_NONEMPTY__'' \<and>
   str_includes wipedOutput ''__WORKSPACE_LOCAL_EMPTY__'' \<and>
   \<not> str_includes ''Sync aborted: source missing openclaw.json'' ''local workspace appears empty'' \<and>
   syncToR2 exCfg partialReadSandbox exEnv [] =
     Some (Inr \<lparr>success = True, lastSync = Some ''2026-01-27T12:00:00+00:00'',
                error = None, details = None\<rparr>,
           preflightTrace @
           [EvStartProcess (syncOpenclawCmd exCfg), EvStartProcess (syncWorkspaceCmd exCfg),
            EvStartProcess (syncSkillsCmd exCfg), EvStartProcess (writeTimestampCmd exCfg),
            EvStartProcess (readTimestampCmd exCfg), EvGetLogs]) \<and>
   logsStdout (p_getLogs (startProcess partialReadSandbox 3 (verifyCmd exCfg)) 4) =
     ''__OK__'' @ [CHR 0x0A] \<and>
   logsStdout (p_getLogs (startProcess partialReadSandbox 3 (verifyCmd exCfg)) 5) = emptyLocalOutput \<and>
   str_includes emptyLocalOutput ''__WORKSPACE_REMOTE_NONEMPTY__'' \<and>
   str_includes emptyLocalOutput ''__WORKSPACE_LOCAL_EMPTY__''"
  by code_simp

text \<open>
  Claim C2, amended. In every run of \<open>syncToR2\<close> the stage commands started (config
  directory, workspace directory, skills subtree, marker write) form a prefix of that
  fixed order, and a run that ends before the copy passes starts none. In a run that
  reaches the copy passes, each pass has one of three outcomes, read off its process
  handle: the wait on it times out, or the wait settles and the ensure-success check sees
  status \<open>failed\<close> or a non-zero exit code, or the wait settles and the check passes.
  The next stage is started in the third case only. A pass that fails the check ends the
  run with \<open>{success: false, error: "Sync failed"}\<close>, a pass whose wait times out
  ends it with \<open>{success: false, error: "Sync error"}\<close>, whatever exit code the
  handle shows; either way that pass is the last stage started. When all three passes
  pass their checks, all four stages are started. So a stage command among those started
  means that the pass before it settled and passed its check.
\<close>

theorem syncToR2_stage_order:
  "(\<forall>r hf. syncToR2 cfg sb env h = Some (r, hf) \<longrightarrow>
      prefix (stageStarts cfg (drop (length h) hf)) (stageOrder cfg)) \<and>
   (\<forall>r0 h1. syncToR2_preflight cfg sb env h = Some (Inr (Some r0), h1) \<longrightarrow>
      syncToR2 cfg sb env h = Some (Inr r0, h1) \<and> stageStarts cfg (drop (length h) h1) = []) \<and>
   (\<forall>h1. syncToR2_preflight cfg sb env h = Some (Inr None, h1) \<longrightarrow>
      (passOutcome sb (syncOpenclawCmd cfg) h1 = PassFailed \<longrightarrow>
         (\<exists>r hf. syncToR2 cfg sb env h = Some (Inr r, hf) \<and>
            \<not> success r \<and> error r = Some ''Sync failed'' \<and>
            stageStarts cfg (drop (length h) hf) = [syncOpenclawCmd cfg])) \<and>
      (passOutcome sb (syncOpenclawCmd cfg) h1 = PassTimedOut \<longrightarrow>
         (\<exists>r hf. syncToR2 cfg sb env h = Some (Inr r, hf) \<and>
            \<not> success r \<and> error r = Some ''Sync error'' \<and>
            stageStarts cfg (drop (length h) hf) = [syncOpenclawCmd cfg])) \<and>
      (passOutcome sb (syncOpenclawCmd cfg) h1 = PassOk \<longrightarrow>
         (passOutcome sb (syncWorkspaceCmd cfg) (passEnd sb (syncOpenclawCmd cfg) h1) = PassFailed \<longrightarrow>
            (\<exists>r hf. syncToR2 cfg sb env h = Some (Inr r, hf) \<and>
               \<not> success r \<and> error r = Some ''Sync failed'' \<and>
               stageStarts cfg (drop (length h) hf) = [syncOpenclawCmd cfg, syncWorkspaceCmd cfg])) \<and>
         (passOutcome sb (syncWorkspaceCmd cfg) (passEnd sb (syncOpenclawCmd cfg) h1) = PassTimedOut \<longrightarrow>
            (\<exists>r hf. syncToR2 cfg sb env h = Some (Inr r, hf) \<and>
               \<not> success r \<and> error r = Some ''Sync error'' \<and>
               stageStarts cfg (drop (length h) hf) = [syncOpenclawCmd cfg, syncWorkspaceCmd cfg])) \<and>
         (passOutcome sb (syncWorkspaceCmd cfg) (passEnd sb (syncOpenclawCmd cfg) h1) = PassOk \<longrightarrow>
            (passOutcome sb (syncSkillsCmd cfg)
               (passEnd sb (syncWorkspaceCmd cfg) (passEnd sb (syncOpenclawCmd cfg) h1)) = PassFailed \<longrightarrow>
               (\<exists>r hf. syncToR2 cfg sb env h = Some (Inr r, hf) \<and>
                  \<not> success r \<and> error r = Some ''Sync failed'' \<and>
                  stageStarts cfg (drop (length h) hf) =
                    [syncOpenclawCmd cfg, syncWorkspaceCmd cfg, syncSkillsCmd cfg])) \<and>
            (passOutcome sb (syncSkillsCmd cfg)
               (passEnd sb (syncWorkspaceCmd cfg) (passEnd sb (syncOpenclawCmd cfg) h1)) = PassTimedOut \<longrightarrow>
               (\<exists>r hf. syncToR2 cfg sb env h = Some (Inr r, hf) \<and>
                  \<not> success r \<and> error r = Some ''Sync error'' \<and>
                  stageStarts cfg (drop (length h) hf) =
                    [syncOpenclawCmd cfg, syncWorkspaceCmd cfg, syncSkillsCmd cfg])) \<and>
            (passOutcome sb (syncSkillsCmd cfg)
               (passEnd sb (syncWorkspaceCmd cfg) (passEnd sb (syncOpenclawCmd cfg) h1)) = PassOk \<longrightarrow>
               (\<exists>r hf. syncToR2 cfg sb env h = Some (Inr r, hf) \<and>
                  stageStarts cfg (drop (length h) hf) = stageOrder cfg))))) \<and>
   (\<forall>h1 r hf. syncToR2_preflight cfg sb env h = Some (Inr None, h1) \<and>
        syncToR2 cfg sb env h = Some (r, hf) \<longrightarrow>
      (syncWorkspaceCmd cfg \<in> set (stageStarts cfg (drop (length h) hf)) \<longrightarrow>
         passOutcome sb (syncOpenclawCmd cfg) h1 = PassOk) \<and>
      (syncSkillsCmd cfg \<in> set (stageStarts cfg (drop (length h) hf)) \<longrightarrow>
         passOutcome sb (syncWorkspaceCmd cfg) (passEnd sb (syncOpenclawCmd cfg) h1) = PassOk) \<and>
      (writeTimestampCmd cfg \<in> set (stageStarts cfg (drop (length h) hf)) \<longrightarrow>
         passOutcome sb (syncSkillsCmd cfg)
           (passEnd sb (syncWorkspaceCmd cfg) (passEnd sb (syncOpenclawCmd cfg) h1)) = PassOk))"
  (is "?P1 \<and> ?P2 \<and> (\<forall>h1. ?pre h1 \<longrightarrow> ?C h1) \<and> (\<forall>h1 r hf. ?pre h1 \<and> ?run r hf \<longrightarrow> ?G h1 hf)")
proof -
  have P1: ?P1
  proof (intro allI impI)
    fix r hf
    assume run: "syncToR2 cfg sb env h = Some (r, hf)"
    from syncToR2_preflight_cases[of cfg sb env h] obtain x ev0 where
      pre: "syncToR2_preflight cfg sb env h = Some (Inr x, h @ ev0)" by (elim exE conjE)
    from syncToR2_preflight_quiet[OF pre] have q0: "stageStarts cfg ev0 = []" by auto
    show "prefix (stageStarts cfg (drop (length h) hf)) (stageOrder cfg)"
    proof (cases x)
      case (Some r0)
      with pre run have "hf = h @ ev0" by (simp add: syncToR2_early)
      with q0 show ?thesis by simp
    next
      case None
      from syncToR2_replicate_cases[of cfg sb "h @ ev0"] obtain r1 ev1 where
        "syncToR2_replicate cfg sb (h @ ev0) = Some (Inr r1, (h @ ev0) @ ev1)"
        "prefix (stageStarts cfg ev1) (stageOrder cfg)" by blast
      with None pre run have "hf = h @ ev0 @ ev1" by (simp add: syncToR2_proceeds)
      with q0 \<open>prefix (stageStarts cfg ev1) (stageOrder cfg)\<close> show ?thesis
        by (simp add: stageStarts_append)
    qed
  qed
  have P2: ?P2
  proof (intro allI impI)
    fix r0 h1
    assume pre: "syncToR2_preflight cfg sb env h = Some (Inr (Some r0), h1)"
    from syncToR2_preflight_quiet[OF pre] obtain ev0 where
      "h1 = h @ ev0" "stageStarts cfg ev0 = []" by blast
    with syncToR2_early[OF pre]
    show "syncToR2 cfg sb env h = Some (Inr r0, h1) \<and> stageStarts cfg (drop (length h) h1) = []"
      by simp
  qed
  have ne: "syncOpenclawCmd cfg \<noteq> syncWorkspaceCmd cfg" "syncOpenclawCmd cfg \<noteq> syncSkillsCmd cfg"
    "syncOpenclawCmd cfg \<noteq> writeTimestampCmd cfg" "syncWorkspaceCmd cfg \<noteq> syncSkillsCmd cfg"
    "syncWorkspaceCmd cfg \<noteq> writeTimestampCmd cfg" "syncSkillsCmd cfg \<noteq> writeTimestampCmd cfg"
    using stageOrder_distinct[of cfg] by (auto simp: stageOrder_def)
  have main: "?C h1 \<and> (\<forall>r hf. ?run r hf \<longrightarrow> ?G h1 hf)" if pre: "?pre h1" for h1
  proof -
    from syncToR2_preflight_quiet[OF pre] obtain ev0 where
      h1: "h1 = h @ ev0" and q0: "stageStarts cfg ev0 = []" by blast
    from syncToR2_replicate_run[of cfg sb h1] obtain r1 ev where
      rr: "syncToR2_replicate cfg sb h1 = Some (Inr r1, h1 @ ev)"
      and c: "(case passOutcome sb (syncOpenclawCmd cfg) h1 of
        PassFailed \<Rightarrow> \<not> success r1 \<and> error r1 = Some ''Sync failed'' \<and>
                      stageStarts cfg ev = [syncOpenclawCmd cfg]
      | PassTimedOut \<Rightarrow> \<not> success r1 \<and> error r1 = Some ''Sync error'' \<and>
                        stageStarts cfg ev = [syncOpenclawCmd cfg]
      | PassOk \<Rightarrow>
         (case passOutcome sb (syncWorkspaceCmd cfg) (passEnd sb (syncOpenclawCmd cfg) h1) of
            PassFailed \<Rightarrow> \<not> success r1 \<and> error r1 = Some ''Sync failed'' \<and>
                          stageStarts cfg ev = [syncOpenclawCmd cfg, syncWorkspaceCmd cfg]
          | PassTimedOut \<Rightarrow> \<not> success r1 \<and> error r1 = Some ''Sync error'' \<and>
                            stageStarts cfg ev = [syncOpenclawCmd cfg, syncWorkspaceCmd cfg]
          | PassOk \<Rightarrow>
             (case passOutcome sb (syncSkillsCmd cfg)
                     (passEnd sb (syncWorkspaceCmd cfg) (passEnd sb (syncOpenclawCmd cfg) h1)) of
                PassFailed \<Rightarrow> \<not> success r1 \<and> error r1 = Some ''Sync failed'' \<and>
                              stageStarts cfg ev =
                                [syncOpenclawCmd cfg, syncWorkspaceCmd cfg, syncSkillsCmd cfg]
              | PassTimedOut \<Rightarrow> \<not> success r1 \<and> error r1 = Some ''Sync error'' \<and>
                                stageStarts cfg ev =
                                  [syncOpenclawCmd cfg, syncWorkspaceCmd cfg, syncSkillsCmd cfg]
              | PassOk \<Rightarrow> stageStarts cfg ev = stageOrder cfg)))"
      by blast
    have run: "syncToR2 cfg sb env h = Some (Inr r1, h1 @ ev)"
      using pre rr by (simp add: syncToR2_proceeds)
    have st: "stageStarts cfg (drop (length h) (h1 @ ev)) = stageStarts cfg ev"
      using h1 q0 by (simp add: stageStarts_append)
    have C: "?C h1"
      using c q0 by (simp add: run h1 stageStarts_append split: pass_outcome.splits)
    have G: "?G h1 hf" if "?run r hf" for r hf
    proof -
      from that run have hf: "hf = h1 @ ev" by simp
      show ?thesis unfolding hf st using c ne
        by (cases "passOutcome sb (syncOpenclawCmd cfg) h1";
            cases "passOutcome sb (syncWorkspaceCmd cfg) (passEnd sb (syncOpenclawCmd cfg) h1)";
            cases "passOutcome sb (syncSkillsCmd cfg)
                     (passEnd sb (syncWorkspaceCmd cfg) (passEnd sb (syncOpenclawCmd cfg) h1))")
           (simp_all add: stageOrder_def)
    qed
    from C G show ?thesis by blast
  qed
  from P1 P2 main show ?thesis by blast
qed

theorem syncToR2_stage_order_witness:
  "syncToR2_preflight exCfg failingSandbox exEnv [] = Some (Inr None, preflightTrace) \<and>
   passOutcome failingSandbox (syncOpenclawCmd exCfg) preflightTrace = PassFailed \<and>
   (\<exists>r hf. syncToR2 exCfg failingSandbox exEnv [] = Some (Inr r, hf) \<and>
      \<not> success r \<and> error r = Some ''Sync failed'' \<and>
      stageStarts exCfg hf = [syncOpenclawCmd exCfg]) \<and>
   syncToR2_preflight exCfg lagSandbox exEnv [] = Some (Inr None, preflightTrace) \<and>
   passOutcome lagSandbox (syncOpenclawCmd exCfg) preflightTrace = PassTimedOut \<and>
   (\<exists>r hf. syncToR2 exCfg lagSandbox exEnv [] = Some (Inr r, hf) \<and>
      \<not> success r \<and> error r = Some ''Sync error'' \<and>
      stageStarts exCfg hf = [syncOpenclawCmd exCfg]) \<and>
   syncToR2_preflight exCfg workspaceFailSandbox exEnv [] = Some (Inr None, preflightTrace) \<and>
   passOutcome workspaceFailSandbox (syncOpenclawCmd exCfg) preflightTrace = PassOk \<and>
   passOutcome workspaceFailSandbox (syncWorkspaceCmd exCfg)
     (passEnd workspaceFailSandbox (syncOpenclawCmd exCfg) preflightTrace) = PassFailed \<and>
   (\<exists>r hf. syncToR2 exCfg workspaceFailSandbox exEnv [] = Some (Inr r, hf) \<and>
      \<not> success r \<and> error r = Some ''Sync failed'' \<and>
      stageStarts exCfg hf = [syncOpenclawCmd exCfg, syncWorkspaceCmd exCfg]) \<and>
   syncToR2_preflight exCfg skillsFailSandbox exEnv [] = Some (Inr None, preflightTrace) \<and>
   passOutcome skillsFailSandbox (syncOpenclawCmd exCfg) preflightTrace = PassOk \<and>
   passOutcome skillsFailSandbox (syncWorkspaceCmd exCfg)
     (passEnd skillsFailSandbox (syncOpenclawCmd exCfg) preflightTrace) = PassOk \<and>
   passOutcome skillsFailSandbox (syncSkillsCmd exCfg)
     (passEnd skillsFailSandbox (syncWorkspaceCmd exCfg)
        (passEnd skillsFailSandbox (syncOpenclawCmd exCfg) preflightTrace)) = PassFailed \<and>
   (\<exists>r hf. syncToR2 exCfg skillsFailSandbox exEnv [] = Some (Inr r, hf) \<and>
      \<not> success r \<and> error r = Some ''Sync failed'' \<and>
      stageStarts exCfg hf = [syncOpenclawCmd exCfg, syncWorkspaceCmd exCfg, syncSkillsCmd exCfg]) \<and>
   syncToR2_preflight exCfg happySandbox exEnv [] = Some (Inr None, preflightTrace) \<and>
   passOutcome happySandbox (syncOpenclawCmd exCfg) preflightTrace = PassOk \<and>
   passOutcome happySandbox (syncWorkspaceCmd exCfg)
     (passEnd happySandbox (syncOpenclawCmd exCfg) preflightTrace) = PassOk \<and>
   passOutcome happySandbox (syncSkillsCmd exCfg)
     (passEnd happySandbox (syncWorkspaceCmd exCfg)
        (passEnd happySandbox (syncOpenclawCmd exCfg) preflightTrace)) = PassOk \<and>
   (\<exists>r hf. syncToR2 exCfg happySandbox exEnv [] = Some (Inr r, hf) \<and>
      stageStarts exCfg hf = stageOrder exCfg) \<and>
   syncToR2_preflight exCfg dedupSandbox exEnv [] =
     Some (Inr (Some \<lparr>success = True, lastSync = None, error = None,
                       details = Some ''Skipped: another rsync appears to be running (id=proc-7).''\<rparr>),
           [EvStartProcess (probeCmd exCfg), EvGetLogs, EvListProcesses]) \<and>
   stageStarts exCfg [EvStartProcess (probeCmd exCfg), EvGetLogs, EvListProcesses] = []"
proof -
  define h2 where "h2 = preflightTrace @ [EvStartProcess (syncOpenclawCmd exCfg)]"
  define h3 where "h3 = h2 @ [EvStartProcess (syncWorkspaceCmd exCfg)]"
  have preF: "syncToR2_preflight exCfg failingSandbox exEnv [] = Some (Inr None, preflightTrace)"
    by code_simp
  have oF: "passOutcome failingSandbox (syncOpenclawCmd exCfg) preflightTrace = PassFailed"
    by code_simp
  from syncToR2_stage_order[of exCfg failingSandbox exEnv "[]"] preF oF
  have F: "\<exists>r hf. syncToR2 exCfg failingSandbox exEnv [] = Some (Inr r, hf) \<and>
      \<not> success r \<and> error r = Some ''Sync failed'' \<and>
      stageStarts exCfg hf = [syncOpenclawCmd exCfg]"
    by simp
  note preL = lagSandbox_preflight
  have oL: "passOutcome lagSandbox (syncOpenclawCmd exCfg) preflightTrace = PassTimedOut"
    by (simp add: passOutcome_def lagSandbox_process lagProcess_wait)
  from syncToR2_stage_order[of exCfg lagSandbox exEnv "[]"] preL oL
  have L: "\<exists>r hf. syncToR2 exCfg lagSandbox exEnv [] = Some (Inr r, hf) \<and>
      \<not> success r \<and> error r = Some ''Sync error'' \<and>
      stageStarts exCfg hf = [syncOpenclawCmd exCfg]"
    by simp
  have preW: "syncToR2_preflight exCfg workspaceFailSandbox exEnv [] = Some (Inr None, preflightTrace)"
    by code_simp
  have oW1: "passOutcome workspaceFailSandbox (syncOpenclawCmd exCfg) preflightTrace = PassOk"
    by code_simp
  have eW1: "passEnd workspaceFailSandbox (syncOpenclawCmd exCfg) preflightTrace = h2"
    unfolding h2_def by code_simp
  have oW2: "passOutcome workspaceFailSandbox (syncWorkspaceCmd exCfg) h2 = PassFailed"
    unfolding h2_def by code_simp
  from syncToR2_stage_order[of exCfg workspaceFailSandbox exEnv "[]"] preW oW1 eW1 oW2
  have W: "\<exists>r hf. syncToR2 exCfg workspaceFailSandbox exEnv [] = Some (Inr r, hf) \<and>
      \<not> success r \<and> error r = Some ''Sync failed'' \<and>
      stageStarts exCfg hf = [syncOpenclawCmd exCfg, syncWorkspaceCmd exCfg]"
    by simp
  have preS: "syncToR2_preflight exCfg skillsFailSandbox exEnv [] = Some (Inr None, preflightTrace)"
    by code_simp
  have oS1: "passOutcome skillsFailSandbox (syncOpenclawCmd exCfg) preflightTrace = PassOk"
    by code_simp
  have eS1: "passEnd skillsFailSandbox (syncOpenclawCmd exCfg) preflightTrace = h2"
    unfolding h2_def by code_simp
  have oS2: "passOutcome skillsFailSandbox (syncWorkspaceCmd exCfg) h2 = PassOk"
    unfolding h2_def by code_simp
  have eS2: "passEnd skillsFailSandbox (syncWorkspaceCmd exCfg) h2 = h3"
    unfolding h2_def h3_def by code_simp
  have oS3: "passOutcome skillsFailSandbox (syncSkillsCmd exCfg) h3 = PassFailed"
    unfolding h2_def h3_def by code_simp
  from syncToR2_stage_order[of exCfg skillsFailSandbox exEnv "[]"] preS oS1 eS1 oS2 eS2 oS3
  have S: "\<exists>r hf. syncToR2 exCfg skillsFailSandbox exEnv [] = Some (Inr r, hf) \<and>
      \<not> success r \<and> error r = Some ''Sync failed'' \<and>
      stageStarts exCfg hf = [syncOpenclawCmd exCfg, syncWorkspaceCmd exCfg, syncSkillsCmd exCfg]"
    by simp
  have preH: "syncToR2_preflight exCfg happySandbox exEnv [] = Some (Inr None, preflightTrace)"
    by code_simp
  have oH1: "passOutcome happySandbox (syncOpenclawCmd exCfg) preflightTrace = PassOk"
    by code_simp
  have eH1: "passEnd happySandbox (syncOpenclawCmd exCfg) preflightTrace = h2"
    unfolding h2_def by code_simp
  have oH2: "passOutcome happySandbox (syncWorkspaceCmd exCfg) h2 = PassOk"
    unfolding h2_def by code_simp
  have eH2: "passEnd happySandbox (syncWorkspaceCmd exCfg) h2 = h3"
    unfolding h2_def h3_def by code_simp
  have oH3: "passOutcome happySandbox (syncSkillsCmd exCfg) h3 = PassOk"
    unfolding h2_def h3_def by code_simp
  from syncToR2_stage_order[of exCfg happySandbox exEnv "[]"] preH oH1 eH1 oH2 eH2 oH3
  have H: "\<exists>r hf. syncToR2 exCfg happySandbox exEnv [] = Some (Inr r, hf) \<and>
      stageStarts exCfg hf = stageOrder exCfg"
    by simp
  have preD: "syncToR2_preflight exCfg dedupSandbox exEnv [] =
     Some (Inr (Some \<lparr>success = True, lastSync = None, error = None,
                       details = Some ''Skipped: another rsync appears to be running (id=proc-7).''\<rparr>),
           [EvStartProcess (probeCmd exCfg), EvGetLogs, EvListProcesses])"
    by code_simp
  from syncToR2_stage_order[of exCfg dedupSandbox exEnv "[]"] preD
  have D: "stageStarts exCfg [EvStartProcess (probeCmd exCfg), EvGetLogs, EvListProcesses] = []"
    by simp
  from preF oF F preL oL L preW oW1 oW2 W preS oS1 oS2 oS3 S preH oH1 oH2 oH3 H preD D
  show ?thesis by (simp add: eW1 eS1 eS2 eH1 eH2)
qed

text \<open>
  The claim as written fails where the status lags: the handle of the first copy pass
  shows exit code 1 while its status stays \<open>running\<close>, the wait on it times out
  after 1200 polls, and the run ends with \<open>Sync error\<close>, not \<open>Sync failed\<close>.
\<close>

theorem syncToR2_stage_order_counterexample:
  "syncToR2 exCfg lagSandbox exEnv [] =
     Some (Inr \<lparr>success = False, lastSync = None, error = Some ''Sync error'',
                details = Some ''Process timed out after 600000ms (status=running)''\<rparr>,
           preflightTrace @ EvStartProcess (syncOpenclawCmd exCfg) # replicate 1200 (EvSleep 500) @
           [EvGetLogs, EvKill]) \<and>
   p_exitCode (startProcess lagSandbox 5 (syncOpenclawCmd exCfg)) 1206 = Some 1 \<and>
   p_status (startProcess lagSandbox 5 (syncOpenclawCmd exCfg)) 1206 = ''running''"
  using lagSandbox_run by (simp add: lagSandbox_process lagProcess_def)

text \<open>
  Claim C1, amended. A result with \<open>success = true\<close> comes from one of two places.
  Either the dedup check found an active process whose command mentions rsync and the
  mount path: then the listing is the last event of the run, the result has no
  \<open>lastSync\<close> and carries the detail
  \<open>Skipped: another rsync appears to be running\<close>, with the id of that process
  when it has one, no stage command was started and no marker was read. Or all four
  stages were started, the wait on the marker write settled, the marker file was read
  back after that, the fetch of the read-back logs is the last event of the run, and
  \<open>lastSync\<close> is the trimmed output of the read-back process, which has the
  date-like shape. Outside the dedup path, success never rests on a process status
  alone.
\<close>

theorem syncToR2_success_needs_marker:
  assumes run: "syncToR2 cfg sb env h = Some (Inr r, hf)" and ok: "success r"
  shows "(stageStarts cfg (drop (length h) hf) = [] \<and>
          readTimestampCmd cfg \<notin> set (startedCmds (drop (length h) hf)) \<and>
          (\<exists>h1 ps active. hf = h1 @ [EvListProcesses] \<and>
             listProcesses sb (length h1) = Inr ps \<and>
             find (isActiveRsync cfg) ps = Some active \<and>
             r = \<lparr>success = True, lastSync = None, error = None,
                  details = Some (''Skipped: another rsync appears to be running'' @
                    (case pi_id active of
                       None \<Rightarrow> []
                     | Some i \<Rightarrow> if i = [] then [] else '' (id='' @ i @ '')'') @
                    ''.'')\<rparr>)) \<or>
         (stageStarts cfg (drop (length h) hf) = stageOrder cfg \<and>
          (\<exists>ts ev kw k logs.
             r = \<lparr>success = True, lastSync = Some ts, error = None, details = None\<rparr> \<and>
             matchesDatePrefix ts \<and>
             hf = h @ ev @ EvStartProcess (writeTimestampCmd cfg) # replicate kw (EvSleep 500) @
                    EvStartProcess (readTimestampCmd cfg) # replicate k (EvSleep 500) @ [EvGetLogs] \<and>
             \<not> isActive (p_status (startProcess sb (length (h @ ev)) (writeTimestampCmd cfg))
                           (length (h @ ev) + 1 + kw)) \<and>
             p_getLogs (startProcess sb (length (h @ ev) + 1 + kw) (readTimestampCmd cfg))
               (length (h @ ev) + 1 + kw + 1 + k) = Inr logs \<and>
             ts = trim (stdout logs)))"
proof -
  from syncToR2_preflight_cases[of cfg sb env h] obtain x ev0 where
    pre: "syncToR2_preflight cfg sb env h = Some (Inr x, h @ ev0)"
    and dedup: "\<forall>r. x = Some r \<and> success r \<longrightarrow>
        (\<exists>ev1 ps active. ev0 = ev1 @ [EvListProcesses] \<and>
           listProcesses sb (length (h @ ev1)) = Inr ps \<and>
           find (isActiveRsync cfg) ps = Some active \<and>
           r = \<lparr>success = True, lastSync = None, error = None,
                details = Some (''Skipped: another rsync appears to be running'' @
                  (if truthy (pi_id active) then '' (id='' @ the (pi_id active) @ '')'' else []) @
                  ''.'')\<rparr>)"
    by (elim exE conjE)
  from syncToR2_preflight_quiet[OF pre] have q0: "stageStarts cfg ev0 = []"
    and nr: "readTimestampCmd cfg \<notin> set (startedCmds ev0)" by auto
  have idtxt: "(if truthy v then '' (id='' @ the v @ '')'' else []) =
               (case v of None \<Rightarrow> [] | Some i \<Rightarrow> if i = [] then [] else '' (id='' @ i @ '')'')"
    for v by (simp add: truthy_def split: option.splits)
  show ?thesis
  proof (cases x)
    case (Some r0)
    with pre run have eq: "r = r0" "hf = h @ ev0" by (simp_all add: syncToR2_early)
    from dedup Some ok eq obtain ev1 ps active where
      "ev0 = ev1 @ [EvListProcesses]"
      "listProcesses sb (length (h @ ev1)) = Inr ps" "find (isActiveRsync cfg) ps = Some active"
      "r = \<lparr>success = True, lastSync = None, error = None,
                details = Some (''Skipped: another rsync appears to be running'' @
                  (if truthy (pi_id active) then '' (id='' @ the (pi_id active) @ '')'' else []) @
                  ''.'')\<rparr>"
      by blast
    then have "\<exists>h1 ps active. hf = h1 @ [EvListProcesses] \<and>
             listProcesses sb (length h1) = Inr ps \<and>
             find (isActiveRsync cfg) ps = Some active \<and>
             r = \<lparr>success = True, lastSync = None, error = None,
                  details = Some (''Skipped: another rsync appears to be running'' @
                    (case pi_id active of
                       None \<Rightarrow> []
                     | Some i \<Rightarrow> if i = [] then [] else '' (id='' @ i @ '')'') @
                    ''.'')\<rparr>"
      using eq by (intro exI[of _ "h @ ev1"] exI[of _ ps] exI[of _ active]) (simp add: idtxt)
    with q0 nr eq show ?thesis by simp
  next
    case None
    from syncToR2_replicate_cases[of cfg sb "h @ ev0"] obtain r1 ev1 where
      rep: "syncToR2_replicate cfg sb (h @ ev0) = Some (Inr r1, (h @ ev0) @ ev1)"
      and m: "success r1 \<longrightarrow> stageStarts cfg ev1 = stageOrder cfg \<and>
               markerReadBack cfg sb (h @ ev0) ((h @ ev0) @ ev1) r1" by blast
    from None pre run rep have eq: "r = r1" "hf = (h @ ev0) @ ev1"
      by (simp_all add: syncToR2_proceeds)
    from m ok eq have st: "stageStarts cfg ev1 = stageOrder cfg"
      and mr: "markerReadBack cfg sb (h @ ev0) hf r" by simp_all
    from mr have "markerReadBack cfg sb h hf r" by (rule markerReadBack_mono)
    then have "\<exists>ts ev kw k logs.
             r = \<lparr>success = True, lastSync = Some ts, error = None, details = None\<rparr> \<and>
             matchesDatePrefix ts \<and>
             hf = h @ ev @ EvStartProcess (writeTimestampCmd cfg) # replicate kw (EvSleep 500) @
                    EvStartProcess (readTimestampCmd cfg) # replicate k (EvSleep 500) @ [EvGetLogs] \<and>
             \<not> isActive (p_status (startProcess sb (length (h @ ev)) (writeTimestampCmd cfg))
                           (length (h @ ev) + 1 + kw)) \<and>
             p_getLogs (startProcess sb (length (h @ ev) + 1 + kw) (readTimestampCmd cfg))
               (length (h @ ev) + 1 + kw + 1 + k) = Inr logs \<and>
             ts = trim (stdout logs)"
      unfolding markerReadBack_def .
    moreover have "stageStarts cfg (drop (length h) hf) = stageOrder cfg"
      using st q0 eq by (simp add: stageStarts_append)
    ultimately show ?thesis by blast
  qed
qed

theorem syncToR2_success_needs_marker_witness:
  "(syncToR2 exCfg happySandbox exEnv [] =
     Some (Inr \<lparr>success = True, lastSync = Some ''2026-01-27T12:00:00+00:00'',
                error = None, details = None\<rparr>,
           preflightTrace @
           [EvStartProcess (syncOpenclawCmd exCfg), EvStartProcess (syncWorkspaceCmd exCfg),
            EvStartProcess (syncSkillsCmd exCfg), EvStartProcess (writeTimestampCmd exCfg),
            EvStartProcess (readTimestampCmd exCfg), EvGetLogs]) \<and>
   stageStarts exCfg
     (preflightTrace @
      [EvStartProcess (syncOpenclawCmd exCfg), EvStartProcess (syncWorkspaceCmd exCfg),
       EvStartProcess (syncSkillsCmd exCfg), EvStartProcess (writeTimestampCmd exCfg),
       EvStartProcess (readTimestampCmd exCfg), EvGetLogs]) = stageOrder exCfg \<and>
   matchesDatePrefix ''2026-01-27T12:00:00+00:00'') \<and>
   (syncToR2 exCfg dedupSandbox exEnv [] =
     Some (Inr \<lparr>success = True, lastSync = None, error = None,
                details = Some ''Skipped: another rsync appears to be running (id=proc-7).''\<rparr>,
           [EvStartProcess (probeCmd exCfg), EvGetLogs, EvListProcesses]) \<and>
   stageStarts exCfg [EvStartProcess (probeCmd exCfg), EvGetLogs, EvListProcesses] = [])"
proof -
  have first: "syncToR2 exCfg happySandbox exEnv [] =
     Some (Inr \<lparr>success = True, lastSync = Some ''2026-01-27T12:00:00+00:00'',
                error = None, details = None\<rparr>,
           preflightTrace @
           [EvStartProcess (syncOpenclawCmd exCfg), EvStartProcess (syncWorkspaceCmd exCfg),
            EvStartProcess (syncSkillsCmd exCfg), EvStartProcess (writeTimestampCmd exCfg),
            EvStartProcess (readTimestampCmd exCfg), EvGetLogs]) \<and>
   stageStarts exCfg
     (preflightTrace @
      [EvStartProcess (syncOpenclawCmd exCfg), EvStartProcess (syncWorkspaceCmd exCfg),
       EvStartProcess (syncSkillsCmd exCfg), EvStartProcess (writeTimestampCmd exCfg),
       EvStartProcess (readTimestampCmd exCfg), EvGetLogs]) = stageOrder exCfg \<and>
   matchesDatePrefix ''2026-01-27T12:00:00+00:00''"
  proof -
    define hf where "hf = preflightTrace @
             [EvStartProcess (syncOpenclawCmd exCfg), EvStartProcess (syncWorkspaceCmd exCfg),
              EvStartProcess (syncSkillsCmd exCfg), EvStartProcess (writeTimestampCmd exCfg),
              EvStartProcess (readTimestampCmd exCfg), EvGetLogs]"
    define r where "r = \<lparr>success = True, lastSync = Some ''2026-01-27T12:00:00+00:00'',
                  error = None, details = None\<rparr>"
    have run: "syncToR2 exCfg happySandbox exEnv [] = Some (Inr r, hf)"
      unfolding r_def hf_def by code_simp
    have ok: "success r" by (simp add: r_def)
    from syncToR2_success_needs_marker[OF run ok]
    have "stageStarts exCfg hf = stageOrder exCfg \<and> matchesDatePrefix ''2026-01-27T12:00:00+00:00''"
      by (auto simp: r_def)
    with run show ?thesis by (simp add: r_def hf_def)
  qed
  have second: "syncToR2 exCfg dedupSandbox exEnv [] =
     Some (Inr \<lparr>success = True, lastSync = None, error = None,
                details = Some ''Skipped: another rsync appears to be running (id=proc-7).''\<rparr>,
           [EvStartProcess (probeCmd exCfg), EvGetLogs, EvListProcesses]) \<and>
   stageStarts exCfg [EvStartProcess (probeCmd exCfg), EvGetLogs, EvListProcesses] = []"
  proof -
    define hf where "hf = [EvStartProcess (probeCmd exCfg), EvGetLogs, EvListProcesses]"
    define r where "r = \<lparr>success = True, lastSync = None, error = None,
                  details = Some ''Skipped: another rsync appears to be running (id=proc-7).''\<rparr>"
    have run: "syncToR2 exCfg dedupSandbox exEnv [] = Some (Inr r, hf)"
      unfolding r_def hf_def by code_simp
    have ok: "success r" by (simp add: r_def)
    from syncToR2_success_needs_marker[OF run ok]
    have "stageStarts exCfg hf = []"
      by (auto simp: r_def)
    with run show ?thesis by (simp add: r_def hf_def)
  qed
  from first second show ?thesis by (rule conjI)
qed

text \<open>
  The claim as written fails in two ways. On the dedup path, with an rsync on the mount
  path still running, the run ends after the listing with \<open>success = true\<close>, and
  the marker read-back command was never started. And the marker read back need not be
  the one written: with the marker write failed and a marker of an earlier run in
  place, the run reads that one back and returns \<open>success = true\<close> with its date.
\<close>

theorem syncToR2_success_needs_marker_counterexample:
  "syncToR2 exCfg dedupSandbox exEnv [] =
     Some (Inr \<lparr>success = True, lastSync = None, error = None,
                details = Some ''Skipped: another rsync appears to be running (id=proc-7).''\<rparr>,
           [EvStartProcess (probeCmd exCfg), EvGetLogs, EvListProcesses]) \<and>
   readTimestampCmd exCfg \<notin>
     set (startedCmds [EvStartProcess (probeCmd exCfg), EvGetLogs, EvListProcesses]) \<and>
   syncToR2 exCfg staleMarkerSandbox exEnv [] =
     Some (Inr \<lparr>success = True, lastSync = Some ''2019-05-05T00:00:00+00:00'',
                error = None, details = None\<rparr>,
           preflightTrace @
           [EvStartProcess (syncOpenclawCmd exCfg), EvStartProcess (syncWorkspaceCmd exCfg),
            EvStartProcess (syncSkillsCmd exCfg), EvStartProcess (writeTimestampCmd exCfg),
            EvStartProcess (readTimestampCmd exCfg), EvGetLogs]) \<and>
   p_status (startProcess staleMarkerSandbox 8 (writeTimestampCmd exCfg)) 9 = ''failed'' \<and>
   p_exitCode (startProcess staleMarkerSandbox 8 (writeTimestampCmd exCfg)) 9 = Some 1"
  by code_simp

end
